theory Spec2Isabelle
  imports Main "HOL-Library.Word" "HOL-Library.List_Lexorder"
begin

section \<open>Data model\<close>

text \<open>
  The feed reader keeps one row per subscription and refreshes it periodically.
  The Go structs are records here. \<open>int64\<close> and Go's \<open>int\<close> (64 bits on the
  platforms the program is built for) are 64-bit words, so \<open>+\<close> wraps as Go's does.
  A \<open>time.Time\<close> is an instant, counted as an integer. A Go \<open>map[string]string\<close> is
  a partial function.
\<close>

type_synonym int64 = "64 word"
type_synonym Time = int

text \<open>\<open>model.Category\<close>, with the fields this code reads or writes.\<close>

record Category =
  Category_ID :: int64
  Category_UserID :: int64
  Category_Title :: string

record FeedIcon =
  FeedIcon_FeedID :: int64
  FeedIcon_IconID :: int64

text \<open>
  \<open>model.Entry\<close>: the pipeline reads \<open>URL\<close> and rewrites \<open>Content\<close>; storage assigns
  the two foreign keys.
\<close>

record Entry =
  Entry_UserID :: int64
  Entry_FeedID :: int64
  Entry_URL :: string
  Entry_Content :: string

text \<open>
  \<open>model.Feed\<close>. \<open>Category\<close> and \<open>Icon\<close> are pointers; \<open>None\<close> is nil. A feed as the
  parser returns it has no category; \<open>FeedByID\<close> and the handler's \<open>CreateFeed\<close>
  allocate one.
\<close>

record Feed =
  ID :: int64
  UserID :: int64
  FeedURL :: string
  SiteURL :: string
  Title :: string
  CheckedAt :: Time
  EtagHeader :: string
  LastModifiedHeader :: string
  ParsingErrorMsg :: string
  ParsingErrorCount :: int64
  ScraperRules :: string
  RewriteRules :: string
  Cookies :: "string \<rightharpoonup> string"
  Crawler :: bool
  Username :: string
  Password :: string
  Category :: "Category option"
  Entries :: "Entry list"
  Icon :: "FeedIcon option"

section \<open>Panics\<close>

text \<open>
  A call either returns or panics. Reading or writing a field through a nil
  pointer raises the run-time error below; no function modelled here recovers, so
  the panic ends every caller in turn.
\<close>

datatype 'a outcome = Return 'a | Panic string

definition nil_dereference :: string where
  "nil_dereference = ''runtime error: invalid memory address or nil pointer dereference''"

section \<open>The feed edit form (ui/form/feed.go)\<close>

record FeedForm =
  FeedForm_FeedURL :: string
  FeedForm_SiteURL :: string
  FeedForm_Title :: string
  FeedForm_ScraperRules :: string
  FeedForm_RewriteRules :: string
  FeedForm_Cookies :: "string \<rightharpoonup> string"
  FeedForm_Crawler :: bool
  FeedForm_CategoryID :: int64
  FeedForm_Username :: string
  FeedForm_Password :: string

text \<open>
  \<open>FeedForm.Merge\<close>: the twelve assignments, in the order of the source. The first
  one, \<open>feed.Category.ID = f.CategoryID\<close>, writes through the pointer \<open>feed.Category\<close>:
  on a feed without category it panics, before any field has been assigned.
\<close>

definition Merge :: "FeedForm \<Rightarrow> Feed \<Rightarrow> Feed outcome" where
  "Merge f feed =
     (case Category feed of
        None \<Rightarrow> Panic nil_dereference
      | Some category \<Rightarrow>
          Return
            (feed\<lparr> Category := Some (category\<lparr> Category_ID := FeedForm_CategoryID f \<rparr>),
                   Title := FeedForm_Title f,
                   SiteURL := FeedForm_SiteURL f,
                   FeedURL := FeedForm_FeedURL f,
                   ScraperRules := FeedForm_ScraperRules f,
                   RewriteRules := FeedForm_RewriteRules f,
                   Cookies := FeedForm_Cookies f,
                   Crawler := FeedForm_Crawler f,
                   ParsingErrorCount := 0,
                   ParsingErrorMsg := [],
                   Username := FeedForm_Username f,
                   Password := FeedForm_Password f \<rparr>))"

section \<open>Errors\<close>

text \<open>
  A Go \<open>error\<close> is either a \<open>*errors.LocalizedError\<close> (a message template with its
  arguments, translated on demand) or any other error value, kept by its text.
  \<open>errors.NewLocalizedError\<close> only stores the template and the arguments.
\<close>

datatype error = Plain string | Localized LocalizedError
and LocalizedError = LocalizedError (message: string) (args: "Arg list")
and Arg = ArgError error | ArgInt int64 | ArgString string

definition NewLocalizedError :: "string \<Rightarrow> Arg list \<Rightarrow> LocalizedError" where
  "NewLocalizedError msg as = LocalizedError msg as"

text \<open>The message templates of the feed handler (reader/feed).\<close>

definition errRequestFailed :: string where
  "errRequestFailed = ''Unable to execute request: %v''"

definition errServerFailure :: string where
  "errServerFailure = ''Unable to fetch feed (Status Code = %d)''"

definition errDuplicate :: string where
  "errDuplicate = ''This feed already exists (%s)''"

definition errNotFound :: string where
  "errNotFound = ''Feed %d not found''"

definition errEncoding :: string where
  "errEncoding = ''Unable to normalize encoding: %q''"

definition errCategoryNotFound :: string where
  "errCategoryNotFound = ''Category not found for this user''"

definition errEmptyFeed :: string where
  "errEmptyFeed = ''This feed is empty''"

definition errResourceNotFound :: string where
  "errResourceNotFound =
     ''Resource not found (404), this feed doesn't exists anymore, check the feed URL''"

section \<open>The HTTP client and its response\<close>

text \<open>
  The package \<open>http/client\<close> is not among the files modelled here. A client is
  the request it has been configured to send; \<open>New\<close> and the \<open>With...\<close> methods
  build it. What the network answers is a parameter of the model (see \<open>Env\<close>).
\<close>

record Client =
  Client_url :: string
  Client_username :: string
  Client_password :: string
  Client_etagHeader :: string
  Client_lastModifiedHeader :: string
  Client_cookies :: "string \<rightharpoonup> string"

definition client_New :: "string \<Rightarrow> Client" where
  "client_New u = \<lparr> Client_url = u, Client_username = [], Client_password = [],
                    Client_etagHeader = [], Client_lastModifiedHeader = [],
                    Client_cookies = Map.empty \<rparr>"

definition WithCredentials :: "string \<Rightarrow> string \<Rightarrow> Client \<Rightarrow> Client" where
  "WithCredentials user pass clt = clt\<lparr> Client_username := user, Client_password := pass \<rparr>"

definition WithCacheHeaders :: "string \<Rightarrow> string \<Rightarrow> Client \<Rightarrow> Client" where
  "WithCacheHeaders etag lastModified clt =
     clt\<lparr> Client_etagHeader := etag, Client_lastModifiedHeader := lastModified \<rparr>"

definition WithCookies :: "(string \<rightharpoonup> string) \<Rightarrow> Client \<Rightarrow> Client" where
  "WithCookies cs clt = clt\<lparr> Client_cookies := cs \<rparr>"

text \<open>
  The fields of \<open>client.Response\<close> the code reads. \<open>ContentLength\<close> is \<open>-1\<close> when the
  server sent no Content-Length header.
\<close>

record Response =
  StatusCode :: int64
  ContentLength :: int64
  ContentType :: string
  ETag :: string
  LastModified :: string
  EffectiveURL :: string
  Body :: string

record Icon =
  Icon_Hash :: string
  Icon_MimeType :: string
  Icon_Content :: string

section \<open>HTML documents\<close>

text \<open>
  The tree \<open>goquery.NewDocumentFromReader\<close> hands to the scraper: text and element
  nodes; a document is the list of nodes below the root document node. A node is
  addressed by its path, the child indices from the root. A \<open>goquery.Selection\<close> is
  the list of the nodes it holds.
\<close>

datatype Node = TextNode string | ElementNode string "(string \<times> string) list" "Node list"

type_synonym Document = "Node list"
type_synonym Path = "nat list"
type_synonym Selection = "Path list"

section \<open>Storage tables\<close>

text \<open>
  One record per row of the table \<open>feeds\<close>, with the columns the statements of
  storage/feed.go name. The column \<open>cookies\<close> is an hstore: a key may carry NULL.
\<close>

record FeedRow =
  feeds_id :: int64
  feeds_user_id :: int64
  feeds_feed_url :: string
  feeds_site_url :: string
  feeds_title :: string
  feeds_category_id :: int64
  feeds_etag_header :: string
  feeds_last_modified_header :: string
  feeds_checked_at :: Time
  feeds_parsing_error_msg :: string
  feeds_parsing_error_count :: int64
  feeds_scraper_rules :: string
  feeds_rewrite_rules :: string
  feeds_cookies :: "string \<rightharpoonup> string option"
  feeds_crawler :: bool
  feeds_username :: string
  feeds_password :: string

record UserRow =
  users_id :: int64
  users_timezone :: string
  users_language :: string

record Storage =
  feeds :: "FeedRow list"
  feeds_id_seq :: int64
  categories :: "Category list"
  users :: "UserRow list"
  feed_icons :: "FeedIcon list"
  entries :: "Entry list"

section \<open>Calls, the world, and the collaborators\<close>

text \<open>
  Every call the handler makes to storage, to the network and to the content
  collaborators is recorded, with its arguments, in the order it is made.
\<close>

datatype Event =
    UserLanguage_call int64
  | FeedByID_call int64 int64
  | CategoryExists_call int64 int64
  | FeedURLExists_call int64 string
  | EntryURLExists_call int64 string
  | Get_call Client
  | parseFeed_call string
  | Rewriter_call string string string
  | Sanitize_call string string
  | CreateFeed_call Feed
  | createEntry_call Entry
  | UpdateFeed_call Feed
  | UpdateEntries_call int64 int64 "Entry list" bool
  | HasIcon_call int64
  | FindIcon_call string
  | CreateFeedIcon_call Feed "Icon option"

record World =
  store :: Storage
  trace :: "Event list"

definition emit :: "Event \<Rightarrow> World \<Rightarrow> World" where
  "emit e w = w\<lparr> trace := trace w @ [e] \<rparr>"

text \<open>
  A call whose results are dropped, followed by \<open>return v\<close>: \<open>v\<close> is returned unless
  the call has panicked.
\<close>

definition then_return :: "'a outcome \<times> World \<Rightarrow> 'b \<Rightarrow> 'b outcome \<times> World" where
  "then_return call v =
     (case call of
        (Panic p, w) \<Rightarrow> (Panic p, w)
      | (Return x, w) \<Rightarrow> (Return v, w))"

type_synonym Language = string

text \<open>
  The collaborators whose code is not among the files modelled here are parameters. What the network
  returns, what the clock shows and whether the database fails may depend on
  everything that happened before, so these take the trace so far.
  \<^item> \<open>client_Get\<close>, \<open>time_Now\<close>, \<open>icon_FindIcon\<close>, \<open>db_error\<close>: network, clock,
    icon discovery, and a failure of the database connection (\<open>None\<close> when the
    statement runs).
  \<^item> \<open>IsNotFound\<close>, \<open>HasServerFailure\<close>, \<open>IsModified\<close>, \<open>NormalizeBodyEncoding\<close>:
    the methods of \<open>client.Response\<close>.
  \<^item> \<open>parseFeed\<close>: the feed parser; \<open>locale_GetLanguage\<close>, \<open>Localize\<close>: translation.
  \<^item> \<open>rewrite_Rewriter\<close>, \<open>sanitizer_Sanitize\<close>, \<open>readability_ExtractContent\<close>.
  \<^item> \<open>url_Domain\<close> and \<open>predefinedRules\<close>: the host of a URL and the entries of the
    predefined rule map, in the order the \<open>range\<close> loop visits them.
  \<^item> \<open>NewDocumentFromReader\<close>, \<open>selector_matches\<close>, \<open>html_Render\<close>: the HTML parser,
    the CSS selector engine (does the node at a path match a selector?) and the
    serializer behind goquery.
  \<^item> \<open>timezone_Convert\<close>: reading \<open>checked_at\<close> in the user's time zone.
  \<^item> \<open>feeds_defaults\<close>: the column defaults of a new row of \<open>feeds\<close>.
  \<^item> \<open>store_...\<close>: the methods of \<open>storage.Storage\<close> defined in other files.
\<close>

record Env =
  client_Get :: "Event list \<Rightarrow> Client \<Rightarrow> error + Response"
  time_Now :: "Event list \<Rightarrow> Time"
  icon_FindIcon :: "Event list \<Rightarrow> string \<Rightarrow> error + Icon option"
  db_error :: "Event list \<Rightarrow> string option"
  IsNotFound :: "Response \<Rightarrow> bool"
  HasServerFailure :: "Response \<Rightarrow> bool"
  IsModified :: "Response \<Rightarrow> string \<Rightarrow> string \<Rightarrow> bool"
  NormalizeBodyEncoding :: "Response \<Rightarrow> error + string"
  parseFeed :: "string \<Rightarrow> LocalizedError + Feed"
  locale_GetLanguage :: "string \<Rightarrow> Language"
  Localize :: "LocalizedError \<Rightarrow> Language \<Rightarrow> string"
  rewrite_Rewriter :: "string \<Rightarrow> string \<Rightarrow> string \<Rightarrow> string"
  sanitizer_Sanitize :: "string \<Rightarrow> string \<Rightarrow> string"
  readability_ExtractContent :: "string \<Rightarrow> error + string"
  url_Domain :: "string \<Rightarrow> string"
  predefinedRules :: "(string \<times> string) list"
  NewDocumentFromReader :: "string \<Rightarrow> error + Document"
  selector_matches :: "string \<Rightarrow> Document \<Rightarrow> Path \<Rightarrow> bool"
  html_Render :: "Node \<Rightarrow> string option"
  timezone_Convert :: "string \<Rightarrow> Time \<Rightarrow> Time"
  feeds_defaults :: "Event list \<Rightarrow> FeedRow"
  store_UserLanguage :: "Storage \<Rightarrow> int64 \<Rightarrow> error + string"
  store_CategoryExists :: "Storage \<Rightarrow> int64 \<Rightarrow> int64 \<Rightarrow> bool"
  store_EntryURLExists :: "Storage \<Rightarrow> int64 \<Rightarrow> string \<Rightarrow> bool"
  store_UpdateEntries ::
    "Storage \<Rightarrow> int64 \<Rightarrow> int64 \<Rightarrow> Entry list \<Rightarrow> bool \<Rightarrow> error option \<times> Storage"
  store_HasIcon :: "Storage \<Rightarrow> int64 \<Rightarrow> bool"
  store_CreateFeedIcon :: "Storage \<Rightarrow> Feed \<Rightarrow> Icon option \<Rightarrow> error option \<times> Storage"
  store_createEntry :: "Storage \<Rightarrow> Entry \<Rightarrow> error option \<times> Storage"

section \<open>The scraper (reader/scraper)\<close>

subsection \<open>Strings\<close>

text \<open>\<open>strings.HasPrefix\<close> and \<open>strings.Contains\<close> on byte strings.\<close>

fun HasPrefix :: "string \<Rightarrow> string \<Rightarrow> bool" where
  "HasPrefix s [] = True"
| "HasPrefix [] (c # p) = False"
| "HasPrefix (x # s) (c # p) = (x = c \<and> HasPrefix s p)"

fun Contains :: "string \<Rightarrow> string \<Rightarrow> bool" where
  "Contains [] substr = (substr = [])"
| "Contains (x # s) substr = (HasPrefix (x # s) substr \<or> Contains s substr)"

subsection \<open>Predefined rules\<close>

text \<open>
  \<open>getPredefinedScraperRules\<close> ranges over the map \<open>predefinedRules\<close> and returns at
  the first key contained in the URL's domain. The loop variables are a string key
  and a string value, so \<open>predefinedRules\<close> is a Go map; the language leaves the
  order in which \<open>range\<close> visits a map unspecified. The order of one run of the loop
  is the argument \<open>visited\<close>: the entries of the map, each once.
\<close>

fun range_predefinedRules :: "string \<Rightarrow> (string \<times> string) list \<Rightarrow> string" where
  "range_predefinedRules urlDomain [] = []"
| "range_predefinedRules urlDomain ((domain, rules) # rest) =
     (if Contains urlDomain domain then rules
      else range_predefinedRules urlDomain rest)"

definition getPredefinedScraperRules ::
  "(string \<Rightarrow> string) \<Rightarrow> (string \<times> string) list \<Rightarrow> string \<Rightarrow> string" where
  "getPredefinedScraperRules domain_of visited websiteURL =
     (let urlDomain = domain_of websiteURL
      in range_predefinedRules urlDomain visited)"

subsection \<open>Selections over a document\<close>

text \<open>
  The element nodes of a document in document order (a node before its
  descendants, siblings left to right), as the selector engine walks them.
\<close>

fun paths :: "Node \<Rightarrow> Path list"
  and paths_list :: "nat \<Rightarrow> Node list \<Rightarrow> Path list" where
  "paths (TextNode s) = []"
| "paths (ElementNode t a cs) = [] # paths_list 0 cs"
| "paths_list i [] = []"
| "paths_list i (c # cs) = map ((#) i) (paths c) @ paths_list (Suc i) cs"

fun children :: "Node \<Rightarrow> Node list" where
  "children (TextNode s) = []"
| "children (ElementNode t a cs) = cs"

fun node_at :: "Node list \<Rightarrow> Path \<Rightarrow> Node option" where
  "node_at ns [] = None"
| "node_at ns [i] = (if i < length ns then Some (ns ! i) else None)"
| "node_at ns (i # j # p) =
     (if i < length ns then node_at (children (ns ! i)) (j # p) else None)"

text \<open>
  \<open>Find\<close>: the descendants of the document root that match the selector, in
  document order. \<open>Is\<close>: does some node of the selection match? \<open>Parent\<close>: the parent
  of each node, where the parent is an element. \<open>Html\<close>: the children of the
  first node of the selection, rendered one after the other; the empty string for
  an empty selection, and when the serializer reports an error (which
  \<open>scrapContent\<close> drops).
\<close>

definition Find :: "Env \<Rightarrow> Document \<Rightarrow> string \<Rightarrow> Selection" where
  "Find env document selector =
     filter (selector_matches env selector document) (paths_list 0 document)"

definition Is :: "Env \<Rightarrow> Document \<Rightarrow> Selection \<Rightarrow> string \<Rightarrow> bool" where
  "Is env document s selector = list_ex (selector_matches env selector document) s"

definition Parent :: "Selection \<Rightarrow> Selection" where
  "Parent s = remdups (concat (map (\<lambda>p. if 2 \<le> length p then [butlast p] else []) s))"

fun render_nodes :: "(Node \<Rightarrow> string option) \<Rightarrow> Node list \<Rightarrow> string \<Rightarrow> string option" where
  "render_nodes render [] buf = Some buf"
| "render_nodes render (c # cs) buf =
     (case render c of None \<Rightarrow> None | Some t \<Rightarrow> render_nodes render cs (buf @ t))"

definition Html :: "Env \<Rightarrow> Document \<Rightarrow> Selection \<Rightarrow> string" where
  "Html env document s =
     (case s of
        [] \<Rightarrow> []
      | p # _ \<Rightarrow>
          (case node_at document p of
             None \<Rightarrow> []
           | Some n \<Rightarrow>
               (case render_nodes (html_Render env) (children n) [] of
                  None \<Rightarrow> []
                | Some ret \<Rightarrow> ret)))"

text \<open>\<open>Selection.Each\<close>: the callback runs on each node in turn, as a selection of one.\<close>

fun Each :: "(Selection \<Rightarrow> 'a \<Rightarrow> 'a) \<Rightarrow> Selection \<Rightarrow> 'a \<Rightarrow> 'a" where
  "Each f [] contents = contents"
| "Each f (p # ps) contents = Each f ps (f [p] contents)"

subsection \<open>scrapContent and Fetch\<close>

definition scrapContent :: "Env \<Rightarrow> string \<Rightarrow> string \<Rightarrow> error + string" where
  "scrapContent env page rules =
     (case NewDocumentFromReader env page of
        Inl err \<Rightarrow> Inl err
      | Inr document \<Rightarrow>
          Inr (Each (\<lambda>s contents.
                       let content =
                             (if Is env document s ''img'' \<or> Is env document s ''iframe''
                              then Html env document (Parent s)
                              else Html env document s)
                       in contents @ content)
                    (Find env document rules) []))"

definition Get :: "Env \<Rightarrow> World \<Rightarrow> Client \<Rightarrow> (error + Response) \<times> World" where
  "Get env w clt = (client_Get env (trace w) clt, emit (Get_call clt) w)"

definition Fetch ::
  "Env \<Rightarrow> World \<Rightarrow> string \<Rightarrow> string \<Rightarrow> (string \<rightharpoonup> string) \<Rightarrow> (error + string) \<times> World" where
  "Fetch env w websiteURL rules cs =
     (let clt = WithCookies cs (client_New websiteURL);
          (got, w1) = Get env w clt
      in case got of
           Inl err \<Rightarrow> (Inl err, w1)
         | Inr response \<Rightarrow>
             if HasServerFailure env response
             then (Inl (Plain ''scraper: unable to download web page''), w1)
             else if \<not> Contains (ContentType response) ''text/html''
             then (Inl (Plain (''scraper: this resource is not a HTML document (''
                                @ ContentType response @ '')'')), w1)
             else (case NormalizeBodyEncoding env response of
                     Inl err \<Rightarrow> (Inl err, w1)
                   | Inr page \<Rightarrow>
                       let websiteURL1 = EffectiveURL response;
                           rules1 = (if rules = []
                                     then getPredefinedScraperRules (url_Domain env)
                                            (predefinedRules env) websiteURL1
                                     else rules)
                       in (if rules1 \<noteq> []
                           then scrapContent env page rules1
                           else readability_ExtractContent env page, w1)))"

section \<open>Storage (storage/feed.go)\<close>

text \<open>
  A statement either fails as a whole (\<open>db_error\<close> gives the driver's message) or
  runs on the tables. The methods of other files of the package are the
  \<open>store_...\<close> parameters; each call is recorded.
\<close>

definition UserLanguage :: "Env \<Rightarrow> World \<Rightarrow> int64 \<Rightarrow> (error + string) \<times> World" where
  "UserLanguage env w userID =
     (store_UserLanguage env (store w) userID, emit (UserLanguage_call userID) w)"

definition CategoryExists :: "Env \<Rightarrow> World \<Rightarrow> int64 \<Rightarrow> int64 \<Rightarrow> bool \<times> World" where
  "CategoryExists env w userID categoryID =
     (store_CategoryExists env (store w) userID categoryID,
      emit (CategoryExists_call userID categoryID) w)"

definition EntryURLExists :: "Env \<Rightarrow> World \<Rightarrow> int64 \<Rightarrow> string \<Rightarrow> bool \<times> World" where
  "EntryURLExists env w userID entryURL =
     (store_EntryURLExists env (store w) userID entryURL,
      emit (EntryURLExists_call userID entryURL) w)"

definition UpdateEntries ::
  "Env \<Rightarrow> World \<Rightarrow> int64 \<Rightarrow> int64 \<Rightarrow> Entry list \<Rightarrow> bool \<Rightarrow> error option \<times> World" where
  "UpdateEntries env w userID feedID es updateExistingEntries =
     (let (err, s) = store_UpdateEntries env (store w) userID feedID es updateExistingEntries
      in (err, emit (UpdateEntries_call userID feedID es updateExistingEntries)
                 (w\<lparr> store := s \<rparr>)))"

definition HasIcon :: "Env \<Rightarrow> World \<Rightarrow> int64 \<Rightarrow> bool \<times> World" where
  "HasIcon env w feedID = (store_HasIcon env (store w) feedID, emit (HasIcon_call feedID) w)"

definition CreateFeedIcon ::
  "Env \<Rightarrow> World \<Rightarrow> Feed \<Rightarrow> Icon option \<Rightarrow> error option \<times> World" where
  "CreateFeedIcon env w feed ic =
     (let (err, s) = store_CreateFeedIcon env (store w) feed ic
      in (err, emit (CreateFeedIcon_call feed ic) (w\<lparr> store := s \<rparr>)))"

definition createEntry :: "Env \<Rightarrow> World \<Rightarrow> Entry \<Rightarrow> error option \<times> World" where
  "createEntry env w entry =
     (let (err, s) = store_createEntry env (store w) entry
      in (err, emit (createEntry_call entry) (w\<lparr> store := s \<rparr>)))"

text \<open>
  \<open>FeedURLExists\<close>: \<open>SELECT count(*) ... WHERE user_id=$1 AND feed_url=$2\<close>; the
  error of \<open>Scan\<close> is dropped, which leaves \<open>result\<close> at 0.
\<close>

definition FeedURLExists :: "Env \<Rightarrow> World \<Rightarrow> int64 \<Rightarrow> string \<Rightarrow> bool \<times> World" where
  "FeedURLExists env w userID feedURL =
     (let result =
            (case db_error env (trace w) of
               Some e \<Rightarrow> 0
             | None \<Rightarrow> length (filter (\<lambda>r. feeds_user_id r = userID \<and> feeds_feed_url r = feedURL)
                                      (feeds (store w))))
      in (1 \<le> result, emit (FeedURLExists_call userID feedURL) w))"

text \<open>
  \<open>FeedByID\<close>: the row of \<open>feeds\<close> with this user and id, left-joined with its
  category (for the title), its icon and its user (for the time zone). No row is
  \<open>sql.ErrNoRows\<close>: \<open>nil, nil\<close>. A NULL category title or time zone (no joined row)
  does not scan into a Go string: an error. Cookies with a NULL value are skipped.
\<close>

definition FeedByID :: "Env \<Rightarrow> World \<Rightarrow> int64 \<Rightarrow> int64 \<Rightarrow> (error + Feed option) \<times> World" where
  "FeedByID env w userID feedID =
     (let s = store w;
          w1 = emit (FeedByID_call userID feedID) w
      in case db_error env (trace w) of
           Some e \<Rightarrow> (Inl (Plain (''unable to fetch feed: '' @ e)), w1)
         | None \<Rightarrow>
            (case find (\<lambda>r. feeds_user_id r = userID \<and> feeds_id r = feedID) (feeds s) of
               None \<Rightarrow> (Inr None, w1)
             | Some r \<Rightarrow>
                (case (find (\<lambda>c. Category_ID c = feeds_category_id r) (categories s),
                       find (\<lambda>u. users_id u = feeds_user_id r) (users s)) of
                   (Some c, Some u) \<Rightarrow>
                     (Inr (Some
                        \<lparr> ID = feeds_id r,
                          UserID = feeds_user_id r,
                          FeedURL = feeds_feed_url r,
                          SiteURL = feeds_site_url r,
                          Title = feeds_title r,
                          CheckedAt = timezone_Convert env (users_timezone u) (feeds_checked_at r),
                          EtagHeader = feeds_etag_header r,
                          LastModifiedHeader = feeds_last_modified_header r,
                          ParsingErrorMsg = feeds_parsing_error_msg r,
                          ParsingErrorCount = feeds_parsing_error_count r,
                          ScraperRules = feeds_scraper_rules r,
                          RewriteRules = feeds_rewrite_rules r,
                          Cookies = (\<lambda>key. case feeds_cookies r key of
                                             Some (Some v) \<Rightarrow> Some v
                                           | _ \<Rightarrow> None),
                          Crawler = feeds_crawler r,
                          Username = feeds_username r,
                          Password = feeds_password r,
                          Category = Some \<lparr> Category_ID = feeds_category_id r,
                                            Category_UserID = userID,
                                            Category_Title = Category_Title c \<rparr>,
                          Entries = [],
                          Icon = (case find (\<lambda>i. FeedIcon_FeedID i = feeds_id r) (feed_icons s) of
                                    None \<Rightarrow> None
                                  | Some i \<Rightarrow> Some \<lparr> FeedIcon_FeedID = feeds_id r,
                                                     FeedIcon_IconID = FeedIcon_IconID i \<rparr>) \<rparr>),
                      w1)
                 | _ \<Rightarrow> (Inl (Plain ''unable to fetch feed: converting NULL to string is unsupported''),
                        w1))))"

text \<open>
  \<open>Storage.CreateFeed\<close>: one INSERT, which returns the new id, then \<open>createEntry\<close>
  for each entry in turn, stopping at the first error. The feed and its entries
  are updated in place; the updated feed is returned with the error. The
  arguments of the INSERT are evaluated before it is sent: \<open>feed.Category.ID\<close>
  panics on a feed without category, and the statement does not run.
\<close>

fun createEntries ::
  "Env \<Rightarrow> World \<Rightarrow> Feed \<Rightarrow> Entry list \<Rightarrow> Entry list \<Rightarrow> (error option \<times> Entry list) \<times> World" where
  "createEntries env w feed done [] = ((None, done), w)"
| "createEntries env w feed done (e # es) =
     (let e1 = e\<lparr> Entry_FeedID := ID feed, Entry_UserID := UserID feed \<rparr>;
          (err, w1) = createEntry env w e1
      in case err of
           Some x \<Rightarrow> ((Some x, done @ e1 # es), w1)
         | None \<Rightarrow> createEntries env w1 feed (done @ [e1]) es)"

definition Storage_CreateFeed ::
  "Env \<Rightarrow> World \<Rightarrow> Feed \<Rightarrow> (error option \<times> Feed) outcome \<times> World" where
  "Storage_CreateFeed env w feed =
     (let w1 = emit (CreateFeed_call feed) w
      in case Category feed of
           None \<Rightarrow> (Panic nil_dereference, w1)
         | Some category \<Rightarrow>
            (case db_error env (trace w) of
               Some e \<Rightarrow> (Return (Some (Plain (''unable to create feed: '' @ e)), feed), w1)
             | None \<Rightarrow>
                 let s = store w1;
                     row = (feeds_defaults env (trace w))
                             \<lparr> feeds_id := feeds_id_seq s,
                               feeds_feed_url := FeedURL feed,
                               feeds_site_url := SiteURL feed,
                               feeds_title := Title feed,
                               feeds_category_id := Category_ID category,
                               feeds_user_id := UserID feed,
                               feeds_etag_header := EtagHeader feed,
                               feeds_last_modified_header := LastModifiedHeader feed,
                               feeds_crawler := Crawler feed,
                               feeds_username := Username feed,
                               feeds_password := Password feed \<rparr>;
                     w2 = w1\<lparr> store := s\<lparr> feeds := feeds s @ [row],
                                            feeds_id_seq := feeds_id_seq s + 1 \<rparr> \<rparr>;
                     feed1 = feed\<lparr> ID := feeds_id_seq s \<rparr>;
                     ((err, es), w3) = createEntries env w2 feed1 [] (Entries feed1)
                 in (Return (err, feed1\<lparr> Entries := es \<rparr>), w3)))"

text \<open>
  \<open>Storage.UpdateFeed\<close>: one UPDATE of fifteen columns on the rows with the feed's
  id and user. Every cookie is written with \<open>Valid: true\<close>. The arguments of the
  UPDATE are evaluated before it is sent: \<open>feed.Category.ID\<close> panics on a feed
  without category, and the statement does not run. \<open>update_feeds_row\<close> takes the
  category the pointer leads to.
\<close>

definition update_feeds_row :: "Feed \<Rightarrow> Category \<Rightarrow> FeedRow \<Rightarrow> FeedRow" where
  "update_feeds_row feed category r =
     r\<lparr> feeds_feed_url := FeedURL feed,
        feeds_site_url := SiteURL feed,
        feeds_title := Title feed,
        feeds_category_id := Category_ID category,
        feeds_etag_header := EtagHeader feed,
        feeds_last_modified_header := LastModifiedHeader feed,
        feeds_checked_at := CheckedAt feed,
        feeds_parsing_error_msg := ParsingErrorMsg feed,
        feeds_parsing_error_count := ParsingErrorCount feed,
        feeds_scraper_rules := ScraperRules feed,
        feeds_rewrite_rules := RewriteRules feed,
        feeds_cookies := (\<lambda>key. case Cookies feed key of
                                    None \<Rightarrow> None
                                  | Some v \<Rightarrow> Some (Some v)),
        feeds_crawler := Crawler feed,
        feeds_username := Username feed,
        feeds_password := Password feed \<rparr>"

definition UpdateFeed :: "Env \<Rightarrow> World \<Rightarrow> Feed \<Rightarrow> error option outcome \<times> World" where
  "UpdateFeed env w feed =
     (let w1 = emit (UpdateFeed_call feed) w
      in case Category feed of
           None \<Rightarrow> (Panic nil_dereference, w1)
         | Some category \<Rightarrow>
            (case db_error env (trace w) of
               Some e \<Rightarrow> (Return (Some (Plain (''Unable to update feed: '' @ e))), w1)
             | None \<Rightarrow>
                 (Return None,
                  w1\<lparr> store := (store w1)
                        \<lparr> feeds := map (\<lambda>r. if feeds_id r = ID feed \<and> feeds_user_id r = UserID feed
                                             then update_feeds_row feed category r else r)
                                       (feeds (store w1)) \<rparr> \<rparr>)))"

section \<open>The processing pipeline (reader/processor)\<close>

text \<open>
  A \<open>FeedProcessor\<close> holds the feed whose entries it rewrites; its store is the
  world that is passed along.
\<close>

record FeedProcessor =
  FeedProcessor_userID :: int64
  FeedProcessor_feed :: Feed
  FeedProcessor_scraperRules :: string
  FeedProcessor_rewriteRules :: string
  FeedProcessor_cookies :: "string \<rightharpoonup> string"
  FeedProcessor_crawler :: bool

definition NewFeedProcessor :: "int64 \<Rightarrow> Feed \<Rightarrow> FeedProcessor" where
  "NewFeedProcessor userID feed =
     \<lparr> FeedProcessor_userID = userID, FeedProcessor_feed = feed,
       FeedProcessor_scraperRules = [], FeedProcessor_rewriteRules = [],
       FeedProcessor_cookies = Map.empty, FeedProcessor_crawler = False \<rparr>"

definition WithCrawler :: "bool \<Rightarrow> FeedProcessor \<Rightarrow> FeedProcessor" where
  "WithCrawler v f = f\<lparr> FeedProcessor_crawler := v \<rparr>"

definition WithScraperRules :: "string \<Rightarrow> FeedProcessor \<Rightarrow> FeedProcessor" where
  "WithScraperRules rules f = f\<lparr> FeedProcessor_scraperRules := rules \<rparr>"

definition WithRewriteRules :: "string \<Rightarrow> FeedProcessor \<Rightarrow> FeedProcessor" where
  "WithRewriteRules rules f = f\<lparr> FeedProcessor_rewriteRules := rules \<rparr>"

text \<open>The processor copies the cookies key by key into a fresh map: the same map.\<close>

definition FeedProcessor_WithCookies :: "(string \<rightharpoonup> string) \<Rightarrow> FeedProcessor \<Rightarrow> FeedProcessor" where
  "FeedProcessor_WithCookies cs f = f\<lparr> FeedProcessor_cookies := (\<lambda>k. cs k) \<rparr>"

definition Rewriter :: "Env \<Rightarrow> World \<Rightarrow> string \<Rightarrow> string \<Rightarrow> string \<Rightarrow> string \<times> World" where
  "Rewriter env w entryURL content rules =
     (rewrite_Rewriter env entryURL content rules,
      emit (Rewriter_call entryURL content rules) w)"

definition Sanitize :: "Env \<Rightarrow> World \<Rightarrow> string \<Rightarrow> string \<Rightarrow> string \<times> World" where
  "Sanitize env w entryURL content =
     (sanitizer_Sanitize env entryURL content, emit (Sanitize_call entryURL content) w)"

text \<open>The body of the loop of \<open>Process\<close>, for one entry.\<close>

definition Process_entry :: "Env \<Rightarrow> FeedProcessor \<Rightarrow> World \<Rightarrow> Entry \<Rightarrow> Entry \<times> World" where
  "Process_entry env f w entry =
     (let (entry1, w1) =
            (if FeedProcessor_crawler f then
               (let (known, w') = EntryURLExists env w (FeedProcessor_userID f) (Entry_URL entry)
                in if known then (entry, w')
                   else (case Fetch env w' (Entry_URL entry) (FeedProcessor_scraperRules f)
                                 (FeedProcessor_cookies f) of
                           (Inl err, w'') \<Rightarrow> (entry, w'')
                         | (Inr content, w'') \<Rightarrow> (entry\<lparr> Entry_Content := content \<rparr>, w'')))
             else (entry, w));
          (rewritten, w2) = Rewriter env w1 (Entry_URL entry1) (Entry_Content entry1)
                              (FeedProcessor_rewriteRules f);
          entry2 = entry1\<lparr> Entry_Content := rewritten \<rparr>;
          (sanitized, w3) = Sanitize env w2 (Entry_URL entry2) (Entry_Content entry2)
      in (entry2\<lparr> Entry_Content := sanitized \<rparr>, w3))"

fun Process_entries :: "Env \<Rightarrow> FeedProcessor \<Rightarrow> World \<Rightarrow> Entry list \<Rightarrow> Entry list \<times> World" where
  "Process_entries env f w [] = ([], w)"
| "Process_entries env f w (entry # rest) =
     (let (entry', w1) = Process_entry env f w entry;
          (rest', w2) = Process_entries env f w1 rest
      in (entry' # rest', w2))"

definition Process :: "Env \<Rightarrow> FeedProcessor \<Rightarrow> World \<Rightarrow> FeedProcessor \<times> World" where
  "Process env f w =
     (let (es, w1) = Process_entries env f w (Entries (FeedProcessor_feed f))
      in (f\<lparr> FeedProcessor_feed := (FeedProcessor_feed f)\<lparr> Entries := es \<rparr> \<rparr>, w1))"

section \<open>The feed handler (reader/feed)\<close>

definition parseFeed_at :: "Env \<Rightarrow> World \<Rightarrow> string \<Rightarrow> (LocalizedError + Feed) \<times> World" where
  "parseFeed_at env w body = (parseFeed env body, emit (parseFeed_call body) w)"

definition FindIcon :: "Env \<Rightarrow> World \<Rightarrow> string \<Rightarrow> (error + Icon option) \<times> World" where
  "FindIcon env w siteURL = (icon_FindIcon env (trace w) siteURL, emit (FindIcon_call siteURL) w)"

subsection \<open>CreateFeed\<close>

text \<open>
  Lines 154 to 187 of \<open>CreateFeed\<close>, once the document has been parsed: process
  the entries, fill in the subscription, store it, look for an icon.
\<close>

definition CreateFeed_store ::
  "Env \<Rightarrow> World \<Rightarrow> int64 \<Rightarrow> int64 \<Rightarrow> bool \<Rightarrow> string \<Rightarrow> string \<Rightarrow> Response \<Rightarrow> Feed
     \<Rightarrow> (error + Feed) outcome \<times> World" where
  "CreateFeed_store env w userID categoryID crawler username password response subscription =
     (let feedProcessor = WithCrawler crawler (NewFeedProcessor userID subscription);
          (feedProcessor1, w1) = Process env feedProcessor w;
          subscription1 = (FeedProcessor_feed feedProcessor1)
            \<lparr> Category := Some \<lparr> Category_ID = categoryID, Category_UserID = 0,
                                 Category_Title = [] \<rparr>,
              EtagHeader := ETag response,
              LastModifiedHeader := LastModified response,
              FeedURL := EffectiveURL response,
              UserID := userID,
              Crawler := crawler,
              Username := username,
              Password := password \<rparr>;
          subscription2 = (if SiteURL subscription1 = []
                           then subscription1\<lparr> SiteURL := FeedURL subscription1 \<rparr>
                           else subscription1);
          (created, w2) = Storage_CreateFeed env w1 subscription2
      in case created of
           Panic p \<Rightarrow> (Panic p, w2)
         | Return (Some e, subscription3) \<Rightarrow> (Return (Inl e), w2)
         | Return (None, subscription3) \<Rightarrow>
             (let (found, w3) = FindIcon env w2 (SiteURL subscription3)
              in case found of
                   Inl e \<Rightarrow> (Return (Inr subscription3), w3)
                 | Inr None \<Rightarrow> (Return (Inr subscription3), w3)
                 | Inr (Some ic) \<Rightarrow>
                     (let (_, w4) = CreateFeedIcon env w3 subscription3 (Some ic)
                      in (Return (Inr subscription3), w4))))"

definition CreateFeed ::
  "Env \<Rightarrow> World \<Rightarrow> int64 \<Rightarrow> int64 \<Rightarrow> string \<Rightarrow> bool \<Rightarrow> string \<Rightarrow> string
     \<Rightarrow> (error + Feed) outcome \<times> World" where
  "CreateFeed env w userID categoryID feedURL crawler username password =
     (let (known, w1) = CategoryExists env w userID categoryID
      in if \<not> known then (Return (Inl (Localized (NewLocalizedError errCategoryNotFound []))), w1)
         else
          (let clt = WithCredentials username password (client_New feedURL);
               (got, w2) = Get env w1 clt
           in case got of
                Inl err \<Rightarrow>
                  (case err of
                     Localized l \<Rightarrow> (Return (Inl err), w2)
                   | Plain m \<Rightarrow>
                       (Return (Inl (Localized (NewLocalizedError errRequestFailed [ArgError err]))), w2))
              | Inr response \<Rightarrow>
                  if HasServerFailure env response
                  then (Return (Inl (Localized (NewLocalizedError errServerFailure
                                          [ArgInt (StatusCode response)]))), w2)
                  else if ContentLength response = 0
                  then (Return (Inl (Localized (NewLocalizedError errEmptyFeed []))), w2)
                  else
                   (let (dup, w3) = FeedURLExists env w2 userID (EffectiveURL response)
                    in if dup
                       then (Return (Inl (Localized (NewLocalizedError errDuplicate
                                               [ArgString (EffectiveURL response)]))), w3)
                       else
                        (case NormalizeBodyEncoding env response of
                           Inl err \<Rightarrow>
                             (Return (Inl (Localized (NewLocalizedError errEncoding [ArgError err]))), w3)
                         | Inr body \<Rightarrow>
                             (let (parsed, w4) = parseFeed_at env w3 body
                              in case parsed of
                                   Inl feedErr \<Rightarrow> (Return (Inl (Localized feedErr)), w4)
                                 | Inr subscription \<Rightarrow>
                                     CreateFeed_store env w4 userID categoryID crawler
                                       username password response subscription)))))"

subsection \<open>RefreshFeed\<close>

text \<open>
  The three statements that every persisting failure path repeats: count up, set
  the message, call \<open>UpdateFeed\<close>. The path then returns its own error: the error
  \<open>UpdateFeed\<close> returns is dropped.
\<close>

definition persist_failure ::
  "Env \<Rightarrow> World \<Rightarrow> Feed \<Rightarrow> string \<Rightarrow> error option outcome \<times> World" where
  "persist_failure env w originalFeed msg =
     (let feed1 = originalFeed\<lparr> ParsingErrorCount := ParsingErrorCount originalFeed + 1 \<rparr>;
          feed2 = feed1\<lparr> ParsingErrorMsg := msg \<rparr>
      in UpdateFeed env w feed2)"

text \<open>
  Lines 247 to 294, the block run when the response is modified. \<open>Inl ret\<close> is a
  \<open>return ret\<close> inside the block, \<open>Inr feed\<close> falls through to the end of
  \<open>RefreshFeed\<close> with the feed as updated so far. In the block, \<open>err\<close> is the
  second result of \<open>NormalizeBodyEncoding\<close>.
\<close>

definition RefreshFeed_modified ::
  "Env \<Rightarrow> World \<Rightarrow> int64 \<Rightarrow> Language \<Rightarrow> Feed \<Rightarrow> Response
     \<Rightarrow> (error option + Feed) outcome \<times> World" where
  "RefreshFeed_modified env w userID currentLanguage originalFeed response =
     (if ContentLength response = 0 then
        (let err = NewLocalizedError errEmptyFeed []
         in then_return
              (persist_failure env w originalFeed (Localize env err currentLanguage))
              (Inl (Some (Localized err))))
      else
        (let normalized = NormalizeBodyEncoding env response;
             err = (case normalized of Inl e \<Rightarrow> Some e | Inr body \<Rightarrow> None)
         in case normalized of
              Inl e \<Rightarrow>
                (Return (Inl (Some (Localized (NewLocalizedError errEncoding [ArgError e])))), w)
            | Inr body \<Rightarrow>
               (let (parsed, w1) = parseFeed_at env w body
                in case parsed of
                     Inl parseErr \<Rightarrow>
                       then_return
                         (persist_failure env w1 originalFeed
                            (Localize env parseErr currentLanguage))
                         (Inl err)
                   | Inr subscription \<Rightarrow>
                      (let feedProcessor =
                             WithCrawler (Crawler originalFeed)
                               (FeedProcessor_WithCookies (Cookies originalFeed)
                                 (WithRewriteRules (RewriteRules originalFeed)
                                   (WithScraperRules (ScraperRules originalFeed)
                                     (NewFeedProcessor userID subscription))));
                           (feedProcessor1, w2) = Process env feedProcessor w1;
                           subscription1 = FeedProcessor_feed feedProcessor1;
                           feed1 = originalFeed\<lparr> EtagHeader := ETag response,
                                                 LastModifiedHeader := LastModified response \<rparr>;
                           (uerr, w3) = UpdateEntries env w2 (UserID feed1) (ID feed1)
                                          (Entries subscription1) (\<not> Crawler feed1)
                       in case uerr of
                            Some e \<Rightarrow> (Return (Inl (Some e)), w3)
                          | None \<Rightarrow>
                             (let (has, w4) = HasIcon env w3 (ID feed1)
                              in if \<not> has then
                                   (let (found, w5) = FindIcon env w4 (SiteURL feed1)
                                    in case found of
                                         Inl e \<Rightarrow> (Return (Inr feed1), w5)
                                       | Inr ic \<Rightarrow>
                                           (let (_, w6) = CreateFeedIcon env w5 feed1 ic
                                            in (Return (Inr feed1), w6)))
                                 else (Return (Inr feed1), w4))))))"

text \<open>Lines 299 to 306: the end of a refresh that did not fail.\<close>

definition RefreshFeed_finish :: "Env \<Rightarrow> World \<Rightarrow> Feed \<Rightarrow> error option outcome \<times> World" where
  "RefreshFeed_finish env w originalFeed =
     (let feed1 = originalFeed\<lparr> ParsingErrorCount := 0 \<rparr>;
          feed2 = feed1\<lparr> ParsingErrorMsg := [] \<rparr>;
          feed3 = (if SiteURL feed2 = [] then feed2\<lparr> SiteURL := FeedURL feed2 \<rparr> else feed2)
      in UpdateFeed env w feed3)"

text \<open>Lines 228 to 307: what \<open>RefreshFeed\<close> does with a response.\<close>

definition RefreshFeed_response ::
  "Env \<Rightarrow> World \<Rightarrow> int64 \<Rightarrow> Language \<Rightarrow> Feed \<Rightarrow> Response
     \<Rightarrow> error option outcome \<times> World" where
  "RefreshFeed_response env w userID currentLanguage originalFeed0 response =
     (let originalFeed = originalFeed0\<lparr> CheckedAt := time_Now env (trace w) \<rparr>
      in if IsNotFound env response then
           (let err = NewLocalizedError errResourceNotFound []
            in then_return
                 (persist_failure env w originalFeed (Localize env err currentLanguage))
                 (Some (Localized err)))
         else if HasServerFailure env response then
           (let err = NewLocalizedError errServerFailure [ArgInt (StatusCode response)]
            in then_return
                 (persist_failure env w originalFeed (Localize env err currentLanguage))
                 (Some (Localized err)))
         else
           (let (block, w1) =
                  (if IsModified env response (EtagHeader originalFeed)
                        (LastModifiedHeader originalFeed)
                   then RefreshFeed_modified env w userID currentLanguage originalFeed response
                   else (Return (Inr originalFeed), w))
            in case block of
                 Panic p \<Rightarrow> (Panic p, w1)
               | Return (Inl ret) \<Rightarrow> (Return ret, w1)
               | Return (Inr feed) \<Rightarrow> RefreshFeed_finish env w1 feed))"

definition RefreshFeed ::
  "Env \<Rightarrow> World \<Rightarrow> int64 \<Rightarrow> int64 \<Rightarrow> error option outcome \<times> World" where
  "RefreshFeed env w userID feedID =
     (let (lang, w1) = UserLanguage env w userID;
          userLanguage = (case lang of Inl err \<Rightarrow> ''en_US'' | Inr l \<Rightarrow> l);
          currentLanguage = locale_GetLanguage env userLanguage;
          (loaded, w2) = FeedByID env w1 userID feedID
      in case loaded of
           Inl err \<Rightarrow> (Return (Some err), w2)
         | Inr None \<Rightarrow>
             (Return (Some (Localized (NewLocalizedError errNotFound [ArgInt feedID]))), w2)
         | Inr (Some originalFeed) \<Rightarrow>
            (let clt = WithCacheHeaders (EtagHeader originalFeed) (LastModifiedHeader originalFeed)
                         (WithCredentials (Username originalFeed) (Password originalFeed)
                            (client_New (FeedURL originalFeed)));
                 (got, w3) = Get env w2 clt
             in case got of
                  Inl err \<Rightarrow>
                    (let customErr =
                           (case err of
                              Localized lerr \<Rightarrow> lerr
                            | Plain m \<Rightarrow> NewLocalizedError errRequestFailed [ArgError err])
                     in then_return
                          (persist_failure env w3 originalFeed
                             (Localize env customErr currentLanguage))
                          (Some (Localized customErr)))
                | Inr response \<Rightarrow>
                    RefreshFeed_response env w3 userID currentLanguage originalFeed response))"

section \<open>Vocabulary for the statements\<close>

text \<open>The client \<open>RefreshFeed\<close> configures for a stored feed (lines 210 to 212).\<close>

definition refresh_client :: "Feed \<Rightarrow> Client" where
  "refresh_client originalFeed =
     WithCacheHeaders (EtagHeader originalFeed) (LastModifiedHeader originalFeed)
       (WithCredentials (Username originalFeed) (Password originalFeed)
          (client_New (FeedURL originalFeed)))"

text \<open>The processor \<open>RefreshFeed\<close> configures for a parsed feed (lines 271 to 275).\<close>

definition refresh_processor :: "int64 \<Rightarrow> Feed \<Rightarrow> Feed \<Rightarrow> FeedProcessor" where
  "refresh_processor userID originalFeed subscription =
     WithCrawler (Crawler originalFeed)
       (FeedProcessor_WithCookies (Cookies originalFeed)
          (WithRewriteRules (RewriteRules originalFeed)
             (WithScraperRules (ScraperRules originalFeed)
                (NewFeedProcessor userID subscription))))"

text \<open>The calls \<open>RefreshFeed\<close> has made when the response arrives.\<close>

definition refresh_prefix :: "int64 \<Rightarrow> int64 \<Rightarrow> Feed \<Rightarrow> Event list" where
  "refresh_prefix userID feedID originalFeed =
     [UserLanguage_call userID, FeedByID_call userID feedID,
      Get_call (refresh_client originalFeed)]"

text \<open>The language \<open>RefreshFeed\<close> translates messages into: the user's, or \<open>en_US\<close>.\<close>

definition refresh_language :: "Env \<Rightarrow> World \<Rightarrow> int64 \<Rightarrow> Language" where
  "refresh_language env w userID =
     locale_GetLanguage env
       (case store_UserLanguage env (store w) userID of Inl err \<Rightarrow> ''en_US'' | Inr l \<Rightarrow> l)"

text \<open>The feed \<open>FeedByID\<close> hands to \<open>RefreshFeed\<close>, if it finds one.\<close>

definition loaded_feed :: "Env \<Rightarrow> World \<Rightarrow> int64 \<Rightarrow> int64 \<Rightarrow> error + Feed option" where
  "loaded_feed env w userID feedID =
     fst (FeedByID env (emit (UserLanguage_call userID) w) userID feedID)"

text \<open>The events a world has recorded beyond those of an earlier world.\<close>

definition new_events :: "World \<Rightarrow> World \<Rightarrow> Event list" where
  "new_events w w' = drop (length (trace w)) (trace w')"

fun is_UpdateEntries_call :: "Event \<Rightarrow> bool" where
  "is_UpdateEntries_call (UpdateEntries_call u f es b) = True"
| "is_UpdateEntries_call e = False"

fun is_UpdateFeed_call :: "Event \<Rightarrow> bool" where
  "is_UpdateFeed_call (UpdateFeed_call f) = True"
| "is_UpdateFeed_call e = False"

fun fetched_url :: "Event \<Rightarrow> string option" where
  "fetched_url (Get_call clt) = Some (Client_url clt)"
| "fetched_url e = None"

text \<open>The error value the handler builds from \<open>errEmptyFeed\<close>.\<close>

definition EmptyFeedError :: error where
  "EmptyFeedError = Localized (NewLocalizedError errEmptyFeed [])"

text \<open>
  \<open>errEmptyFeed\<close> belongs to the handler: the client, the parser and storage report
  their own errors, never this one.
\<close>

definition collaborators_never_return_EmptyFeed :: "Env \<Rightarrow> bool" where
  "collaborators_never_return_EmptyFeed env =
     ((\<forall>t clt. client_Get env t clt \<noteq> Inl EmptyFeedError)
      \<and> (\<forall>body. parseFeed env body \<noteq> Inl (NewLocalizedError errEmptyFeed []))
      \<and> (\<forall>s userID feedID es overwrite.
            fst (store_UpdateEntries env s userID feedID es overwrite) \<noteq> Some EmptyFeedError)
      \<and> (\<forall>s e. fst (store_createEntry env s e) \<noteq> Some EmptyFeedError))"

text \<open>The calls the pipeline makes while it processes entries.\<close>

fun is_pipeline_call :: "Event \<Rightarrow> bool" where
  "is_pipeline_call (EntryURLExists_call u entryURL) = True"
| "is_pipeline_call (Get_call clt) = True"
| "is_pipeline_call (Rewriter_call entryURL content rules) = True"
| "is_pipeline_call (Sanitize_call entryURL content) = True"
| "is_pipeline_call e = False"

section \<open>A concrete environment and store\<close>

text \<open>
  Inputs on which the model is evaluated: a store with one user, one category, one
  feed with the crawler enabled and one stored entry, and stand-ins for the
  collaborators. None of the general statements below depends on them.
\<close>

text \<open>
  A selector engine for selectors that are tag names separated by blanks (the
  descendant combinator): the last tag is the node's, the others occur in this
  order among its ancestors.
\<close>

fun split_blanks :: "string \<Rightarrow> string \<Rightarrow> string list" where
  "split_blanks word [] = [word]"
| "split_blanks word (c # cs) =
     (if c = CHR '' '' then word # split_blanks [] cs else split_blanks (word @ [c]) cs)"

fun tag_of :: "Node \<Rightarrow> string" where
  "tag_of (TextNode s) = []"
| "tag_of (ElementNode t a cs) = t"

fun tags_along :: "Node list \<Rightarrow> Path \<Rightarrow> string list" where
  "tags_along ns [] = []"
| "tags_along ns (i # p) =
     (if i < length ns then tag_of (ns ! i) # tags_along (children (ns ! i)) p else [])"

fun occur_in_order :: "string list \<Rightarrow> string list \<Rightarrow> bool" where
  "occur_in_order [] ys = True"
| "occur_in_order (x # xs) [] = False"
| "occur_in_order (x # xs) (y # ys) =
     (if x = y then occur_in_order xs ys else occur_in_order (x # xs) ys)"

definition example_selector_matches :: "string \<Rightarrow> Document \<Rightarrow> Path \<Rightarrow> bool" where
  "example_selector_matches selector document p =
     (let wanted = split_blanks [] selector; have = tags_along document p
      in have \<noteq> [] \<and> last wanted = last have
         \<and> occur_in_order (butlast wanted) (butlast have))"

text \<open>A serializer: attributes unquoted, \<open>img\<close> without closing tag.\<close>

fun example_render :: "Node \<Rightarrow> string" where
  "example_render (TextNode s) = s"
| "example_render (ElementNode t as cs) =
     ''<'' @ t @ concat (map (\<lambda>(k, v). '' '' @ k @ ''='' @ v) as) @ ''>''
     @ (if t = ''img'' then [] else concat (map example_render cs) @ ''</'' @ t @ ''>'')"

definition example_document :: Document where
  "example_document =
     [ElementNode ''html'' []
        [ElementNode ''body'' []
           [ElementNode ''article'' []
              [ElementNode ''figure'' [] [ElementNode ''img'' [(''src'', ''a'')] []],
               ElementNode ''p'' [] [TextNode ''hello'']]]]]"

text \<open>
  Modelled from the spec: \<open>Storage.UpdateEntries\<close> (storage/entry.go is not among
  the files modelled here), the merge \<open>updateEntries(userID, feedID, newEntries, overwriteExisting)\<close>
  of the persistence boundary, with the entry URL as the identity of an entry within
  a user: a new entry is inserted, a known one is replaced only when asked to.
\<close>

fun example_merge :: "int64 \<Rightarrow> int64 \<Rightarrow> bool \<Rightarrow> Entry list \<Rightarrow> Entry list \<Rightarrow> Entry list" where
  "example_merge userID feedID overwrite stored [] = stored"
| "example_merge userID feedID overwrite stored (e # es) =
     (let e1 = e\<lparr> Entry_UserID := userID, Entry_FeedID := feedID \<rparr>;
          same = (\<lambda>x. Entry_UserID x = userID \<and> Entry_URL x = Entry_URL e1)
      in if list_ex same stored
         then example_merge userID feedID overwrite
                (if overwrite then map (\<lambda>x. if same x then e1 else x) stored else stored) es
         else example_merge userID feedID overwrite (stored @ [e1]) es)"

definition example_feed_url :: string where
  "example_feed_url = ''http://example.org/feed''"

definition example_response :: Response where
  "example_response =
     \<lparr> StatusCode = 200, ContentLength = 120, ContentType = ''application/rss+xml'',
       ETag = ''v2'', LastModified = ''Tue'', EffectiveURL = example_feed_url,
       Body = ''<rss>'' \<rparr>"

definition example_page :: Response where
  "example_page =
     \<lparr> StatusCode = 200, ContentLength = - 1, ContentType = ''text/html; charset=utf-8'',
       ETag = [], LastModified = [], EffectiveURL = ''http://example.org/new'',
       Body = ''<html>'' \<rparr>"

definition example_subscription :: Feed where
  "example_subscription =
     \<lparr> ID = 0, UserID = 0, FeedURL = [], SiteURL = ''http://example.org'',
       Title = ''Example'', CheckedAt = 0, EtagHeader = [], LastModifiedHeader = [],
       ParsingErrorMsg = [], ParsingErrorCount = 0, ScraperRules = [], RewriteRules = [],
       Cookies = Map.empty, Crawler = False, Username = [], Password = [],
       Category = None,
       Entries =
         [\<lparr> Entry_UserID = 0, Entry_FeedID = 0, Entry_URL = ''http://example.org/known'',
            Entry_Content = ''summary A'' \<rparr>,
          \<lparr> Entry_UserID = 0, Entry_FeedID = 0, Entry_URL = ''http://example.org/new'',
            Entry_Content = ''summary B'' \<rparr>],
       Icon = None \<rparr>"

definition example_env :: Env where
  "example_env =
     \<lparr> client_Get = (\<lambda>t clt. if Client_url clt = example_feed_url
                               then Inr example_response else Inr example_page),
       time_Now = (\<lambda>t. 1000),
       icon_FindIcon = (\<lambda>t u. Inr None),
       db_error = (\<lambda>t. None),
       IsNotFound = (\<lambda>r. StatusCode r = 404),
       HasServerFailure = (\<lambda>r. 400 \<le> sint (StatusCode r)),
       IsModified = (\<lambda>r etag lastModified.
                       \<not> (StatusCode r = 304 \<or> (ETag r \<noteq> [] \<and> ETag r = etag)
                          \<or> (LastModified r \<noteq> [] \<and> LastModified r = lastModified))),
       NormalizeBodyEncoding = (\<lambda>r. Inr (Body r)),
       parseFeed = (\<lambda>body. Inr example_subscription),
       locale_GetLanguage = (\<lambda>l. l),
       Localize = (\<lambda>err l. message err),
       rewrite_Rewriter = (\<lambda>u content rules. content @ ''+rewritten''),
       sanitizer_Sanitize = (\<lambda>u content. content @ ''+sanitized''),
       readability_ExtractContent = (\<lambda>page. Inr ''readable''),
       url_Domain = (\<lambda>u. u),
       predefinedRules = [(''example.org'', ''article img'')],
       NewDocumentFromReader = (\<lambda>page. Inr example_document),
       selector_matches = example_selector_matches,
       html_Render = (\<lambda>n. Some (example_render n)),
       timezone_Convert = (\<lambda>tz t. t),
       feeds_defaults = (\<lambda>t.
         \<lparr> feeds_id = 0, feeds_user_id = 0, feeds_feed_url = [], feeds_site_url = [],
           feeds_title = [], feeds_category_id = 0, feeds_etag_header = [],
           feeds_last_modified_header = [], feeds_checked_at = 1000,
           feeds_parsing_error_msg = [], feeds_parsing_error_count = 0,
           feeds_scraper_rules = [], feeds_rewrite_rules = [], feeds_cookies = Map.empty,
           feeds_crawler = False, feeds_username = [], feeds_password = [] \<rparr>),
       store_UserLanguage = (\<lambda>s userID.
         case find (\<lambda>u. users_id u = userID) (users s) of
           None \<Rightarrow> Inl (Plain ''sql: no rows in result set'')
         | Some u \<Rightarrow> Inr (users_language u)),
       store_CategoryExists = (\<lambda>s userID categoryID.
         list_ex (\<lambda>c. Category_UserID c = userID \<and> Category_ID c = categoryID) (categories s)),
       store_EntryURLExists = (\<lambda>s userID entryURL.
         list_ex (\<lambda>e. Entry_UserID e = userID \<and> Entry_URL e = entryURL) (entries s)),
       store_UpdateEntries = (\<lambda>s userID feedID es overwrite.
         (None, s\<lparr> entries := example_merge userID feedID overwrite (entries s) es \<rparr>)),
       store_HasIcon = (\<lambda>s feedID. list_ex (\<lambda>i. FeedIcon_FeedID i = feedID) (feed_icons s)),
       store_CreateFeedIcon = (\<lambda>s feed ic. (None, s)),
       store_createEntry = (\<lambda>s e. (None, s\<lparr> entries := entries s @ [e] \<rparr>)) \<rparr>"

definition example_row :: FeedRow where
  "example_row =
     \<lparr> feeds_id = 1, feeds_user_id = 1, feeds_feed_url = example_feed_url,
       feeds_site_url = ''http://example.org'', feeds_title = ''Example'',
       feeds_category_id = 1, feeds_etag_header = ''v1'',
       feeds_last_modified_header = ''Mon'', feeds_checked_at = 500,
       feeds_parsing_error_msg = ''old failure'', feeds_parsing_error_count = 2,
       feeds_scraper_rules = ''article img'', feeds_rewrite_rules = [],
       feeds_cookies = Map.empty, feeds_crawler = True, feeds_username = [],
       feeds_password = [] \<rparr>"

definition example_known_entry :: Entry where
  "example_known_entry =
     \<lparr> Entry_UserID = 1, Entry_FeedID = 1, Entry_URL = ''http://example.org/known'',
       Entry_Content = ''stored full text'' \<rparr>"

definition example_world :: World where
  "example_world =
     \<lparr> store =
         \<lparr> feeds = [example_row], feeds_id_seq = 2,
           categories = [\<lparr> Category_ID = 1, Category_UserID = 1, Category_Title = ''News'' \<rparr>],
           users = [\<lparr> users_id = 1, users_timezone = ''UTC'', users_language = ''en_US'' \<rparr>],
           feed_icons = [\<lparr> FeedIcon_FeedID = 1, FeedIcon_IconID = 7 \<rparr>],
           entries = [example_known_entry] \<rparr>,
       trace = [] \<rparr>"

text \<open>The feed \<open>FeedByID\<close> loads from \<open>example_world\<close>.\<close>

definition example_feed :: Feed where
  "example_feed =
     \<lparr> ID = 1, UserID = 1, FeedURL = example_feed_url, SiteURL = ''http://example.org'',
       Title = ''Example'', CheckedAt = 500, EtagHeader = ''v1'', LastModifiedHeader = ''Mon'',
       ParsingErrorMsg = ''old failure'', ParsingErrorCount = 2,
       ScraperRules = ''article img'', RewriteRules = [],
       Cookies = (\<lambda>key. None), Crawler = True, Username = [], Password = [],
       Category = Some \<lparr> Category_ID = 1, Category_UserID = 1, Category_Title = ''News'' \<rparr>,
       Entries = [],
       Icon = Some \<lparr> FeedIcon_FeedID = 1, FeedIcon_IconID = 7 \<rparr> \<rparr>"

text \<open>Variations of the network answer and of the collaborators.\<close>

definition answering :: "Response \<Rightarrow> Env" where
  "answering r = example_env\<lparr> client_Get := (\<lambda>t clt. Inr r) \<rparr>"

definition not_modified_response :: Response where
  "not_modified_response = example_response\<lparr> StatusCode := 304, ContentLength := 0, Body := [] \<rparr>"

definition not_found_response :: Response where
  "not_found_response = example_response\<lparr> StatusCode := 404 \<rparr>"

definition server_failure_response :: Response where
  "server_failure_response = example_response\<lparr> StatusCode := 500 \<rparr>"

definition empty_response :: Response where
  "empty_response = example_response\<lparr> ContentLength := 0, Body := [] \<rparr>"

definition unreachable_env :: Env where
  "unreachable_env = example_env\<lparr> client_Get := (\<lambda>t clt. Inl (Plain ''dial tcp: i/o timeout'')) \<rparr>"

definition bad_encoding_env :: Env where
  "bad_encoding_env =
     example_env\<lparr> NormalizeBodyEncoding := (\<lambda>r. Inl (Plain ''unsupported charset'')) \<rparr>"

definition parse_failure_env :: Env where
  "parse_failure_env =
     example_env\<lparr> parseFeed := (\<lambda>body. Inl (LocalizedError ''Unable to parse this feed'' [])) \<rparr>"

definition merge_failure_env :: Env where
  "merge_failure_env =
     example_env\<lparr> store_UpdateEntries :=
       (\<lambda>s userID feedID es overwrite. (Some (Plain ''pq: deadlock detected''), s)) \<rparr>"

text \<open>A submitted edit form, and the example feed as it would be without a category.\<close>

definition example_form :: FeedForm where
  "example_form =
     \<lparr> FeedForm_FeedURL = example_feed_url, FeedForm_SiteURL = ''http://example.org'',
       FeedForm_Title = ''Example, renamed'', FeedForm_ScraperRules = ''article'',
       FeedForm_RewriteRules = [], FeedForm_Cookies = Map.empty, FeedForm_Crawler = False,
       FeedForm_CategoryID = 1, FeedForm_Username = [], FeedForm_Password = [] \<rparr>"

definition uncategorized_feed :: Feed where
  "uncategorized_feed = example_feed\<lparr> Category := None \<rparr>"

section \<open>Properties of the scraper\<close>

subsection \<open>Strings and the rule table\<close>

lemma HasPrefix_iff: "HasPrefix s p \<longleftrightarrow> (\<exists>t. s = p @ t)"
  by (induction s p rule: HasPrefix.induct) auto

lemma Contains_iff: "Contains s sub \<longleftrightarrow> (\<exists>p q. s = p @ sub @ q)"
proof (induction s)
  case Nil
  then show ?case by simp
next
  case (Cons x s)
  show ?case
  proof
    assume "Contains (x # s) sub"
    then consider "HasPrefix (x # s) sub" | "Contains s sub" by auto
    then show "\<exists>p q. x # s = p @ sub @ q"
    proof cases
      case 1
      then obtain t where "x # s = sub @ t" by (auto simp: HasPrefix_iff)
      then have "x # s = [] @ sub @ t" by simp
      then show ?thesis by blast
    next
      case 2
      then obtain p q where "s = p @ sub @ q" using Cons.IH by blast
      then have "x # s = (x # p) @ sub @ q" by simp
      then show ?thesis by blast
    qed
  next
    assume "\<exists>p q. x # s = p @ sub @ q"
    then obtain p q where pq: "x # s = p @ sub @ q" by blast
    show "Contains (x # s) sub"
    proof (cases p)
      case Nil
      with pq have "HasPrefix (x # s) sub" by (auto simp: HasPrefix_iff)
      then show ?thesis by simp
    next
      case (Cons y p')
      with pq have "s = p' @ sub @ q" by simp
      then have "Contains s sub" using Cons.IH by blast
      then show ?thesis by simp
    qed
  qed
qed

lemma range_predefinedRules_find:
  "range_predefinedRules h visited =
     (case find (\<lambda>(domain, rules). Contains h domain) visited of
        None \<Rightarrow> [] | Some (domain, rules) \<Rightarrow> rules)"
  by (induction h visited rule: range_predefinedRules.induct) auto

lemma range_predefinedRules_no_match:
  "\<forall>(d, r) \<in> set visited. \<not> Contains h d \<Longrightarrow> range_predefinedRules h visited = []"
  by (induction h visited rule: range_predefinedRules.induct) auto

lemma range_predefinedRules_agree:
  assumes "\<forall>(d, r) \<in> set visited. Contains h d \<longrightarrow> r = r0"
      and "\<exists>(d, r) \<in> set visited. Contains h d"
  shows "range_predefinedRules h visited = r0"
  using assms by (induction h visited rule: range_predefinedRules.induct) auto

text \<open>
  C8. The claim is that two evaluations of the lookup return the same rule. What
  holds: one run of the loop returns the rule of the first visited entry whose key
  is contained in the URL's domain, and the empty string when there is none; two
  runs that visit the same entries, in whatever order, agree whenever all entries
  whose key is contained in the domain carry the same rule (in particular when at
  most one key matches).
\<close>

theorem getPredefinedScraperRules_first_match:
  "getPredefinedScraperRules domain_of visited websiteURL =
     (case find (\<lambda>(domain, rules). Contains (domain_of websiteURL) domain) visited of
        None \<Rightarrow> []
      | Some (domain, rules) \<Rightarrow> rules)
   \<and> (set visited' = set visited
        \<and> (\<forall>(d, r) \<in> set visited. \<forall>(d', r') \<in> set visited.
              Contains (domain_of websiteURL) d \<and> Contains (domain_of websiteURL) d' \<longrightarrow> r = r')
       \<longrightarrow> getPredefinedScraperRules domain_of visited' websiteURL =
            getPredefinedScraperRules domain_of visited websiteURL)"
proof (intro conjI impI)
  show "getPredefinedScraperRules domain_of visited websiteURL =
     (case find (\<lambda>(domain, rules). Contains (domain_of websiteURL) domain) visited of
        None \<Rightarrow> []
      | Some (domain, rules) \<Rightarrow> rules)"
    by (simp add: getPredefinedScraperRules_def range_predefinedRules_find)
next
  let ?h = "domain_of websiteURL"
  assume a: "set visited' = set visited
        \<and> (\<forall>(d, r) \<in> set visited. \<forall>(d', r') \<in> set visited.
              Contains ?h d \<and> Contains ?h d' \<longrightarrow> r = r')"
  show "getPredefinedScraperRules domain_of visited' websiteURL =
            getPredefinedScraperRules domain_of visited websiteURL"
  proof (cases "\<exists>(d, r) \<in> set visited. Contains ?h d")
    case False
    then have "\<forall>(d, r) \<in> set visited. \<not> Contains ?h d" by auto
    moreover from this a have "\<forall>(d, r) \<in> set visited'. \<not> Contains ?h d" by auto
    ultimately show ?thesis
      by (simp add: getPredefinedScraperRules_def range_predefinedRules_no_match)
  next
    case True
    then obtain d0 r0 where m: "(d0, r0) \<in> set visited" "Contains ?h d0" by auto
    have all: "\<forall>(d, r) \<in> set visited. Contains ?h d \<longrightarrow> r = r0"
      using a m by fastforce
    have 1: "range_predefinedRules ?h visited = r0"
      using range_predefinedRules_agree[OF all True] .
    have all': "\<forall>(d, r) \<in> set visited'. Contains ?h d \<longrightarrow> r = r0"
      using all a by simp
    have True': "\<exists>(d, r) \<in> set visited'. Contains ?h d"
      using True a by simp
    have 2: "range_predefinedRules ?h visited' = r0"
      using range_predefinedRules_agree[OF all' True'] .
    show ?thesis by (simp add: getPredefinedScraperRules_def 1 2)
  qed
qed

theorem getPredefinedScraperRules_first_match_witness:
  "getPredefinedScraperRules (\<lambda>u. u) [(''example.org'', ''article img''), (''example.com'', ''main'')]
     ''www.example.org'' = ''article img''
   \<and> getPredefinedScraperRules (\<lambda>u. u) [(''example.com'', ''main''), (''example.org'', ''article img'')]
     ''www.example.org'' = ''article img''"
  using getPredefinedScraperRules_first_match
          [of "\<lambda>u. u" "[(''example.org'', ''article img''), (''example.com'', ''main'')]"
              "''www.example.org''"
              "[(''example.com'', ''main''), (''example.org'', ''article img'')]"]
  by (simp add: insert_commute)

text \<open>
  The same two entries visited in the two possible orders, for a host that
  contains both keys: the lookup returns different rules.
\<close>

theorem getPredefinedScraperRules_order_counterexample:
  "getPredefinedScraperRules (\<lambda>u. u)
      [(''example.org'', ''article''), (''blog.example.org'', ''div.post'')] ''blog.example.org''
   \<noteq> getPredefinedScraperRules (\<lambda>u. u)
      [(''blog.example.org'', ''div.post''), (''example.org'', ''article'')] ''blog.example.org''"
  by (simp add: getPredefinedScraperRules_def)

subsection \<open>Document order\<close>

text \<open>
  With paths ordered lexicographically (an ancestor before its descendants, an
  earlier sibling's subtree before a later one's), the walk lists the element
  nodes in strictly increasing order, and so does every \<open>Find\<close>.
\<close>

lemma paths_sorted:
  "sorted_wrt (<) (paths n)"
  "sorted_wrt (<) (paths_list i cs) \<and> (\<forall>p \<in> set (paths_list i cs). \<exists>j q. p = j # q \<and> i \<le> j)"
proof (induction n and i cs rule: paths_paths_list.induct)
  case (1 s)
  then show ?case by simp
next
  case (2 t a cs)
  then show ?case by auto
next
  case (3 i)
  then show ?case by simp
next
  case (4 i c cs)
  have m: "sorted_wrt (<) (map ((#) i) (paths c))"
    using "4.IH"(1) by (simp add: sorted_wrt_map)
  have cross: "\<forall>x \<in> set (map ((#) i) (paths c)). \<forall>y \<in> set (paths_list (Suc i) cs). x < y"
    using "4.IH"(2) by fastforce
  have heads: "\<forall>p \<in> set (paths_list (Suc i) cs). \<exists>j q. p = j # q \<and> i \<le> j"
    using "4.IH"(2) by (meson Suc_leD)
  show ?case
    using m cross heads "4.IH"(2) by (auto simp: sorted_wrt_append)
qed

lemma Find_sorted: "sorted_wrt (<) (Find env document selector)"
  unfolding Find_def using paths_sorted(2)[of 0 document] by (simp add: sorted_wrt_filter)

lemma Each_append:
  "Each (\<lambda>s contents. contents @ g s) ps acc = acc @ concat (map (\<lambda>p. g [p]) ps)"
  by (induction ps arbitrary: acc) auto

lemma Parent_single: "Parent [p] = (if 2 \<le> length p then [butlast p] else [])"
  by (simp add: Parent_def)

text \<open>
  C7. When the document parses, the output of \<open>scrapContent\<close> is the concatenation,
  with nothing in between, of one contribution per matched node, taken in document
  order: the inner HTML of the node, or of its parent when the node matches \<open>img\<close>
  or \<open>iframe\<close>. The matched nodes are the element nodes of the document that match
  the rule, listed in strictly increasing document order.
\<close>

theorem scrapContent_document_order:
  assumes "NewDocumentFromReader env page = Inr document"
  shows "scrapContent env page rules =
           Inr (concat (map (\<lambda>p. if selector_matches env ''img'' document p
                                      \<or> selector_matches env ''iframe'' document p
                                   then Html env document (Parent [p])
                                   else Html env document [p])
                            (Find env document rules)))
         \<and> sorted_wrt (<) (Find env document rules)
         \<and> set (Find env document rules) =
             {p \<in> set (paths_list 0 document). selector_matches env rules document p}"
proof -
  have "scrapContent env page rules =
          Inr (Each (\<lambda>s contents. contents @
                       (if Is env document s ''img'' \<or> Is env document s ''iframe''
                        then Html env document (Parent s) else Html env document s))
                 (Find env document rules) [])"
    using assms by (simp add: scrapContent_def)
  also have "\<dots> = Inr (concat (map (\<lambda>p. if Is env document [p] ''img'' \<or> Is env document [p] ''iframe''
                        then Html env document (Parent [p]) else Html env document [p])
                            (Find env document rules)))"
    by (simp only: Each_append) simp
  finally show ?thesis
    by (simp add: Is_def Find_sorted) (simp add: Find_def)
qed

text \<open>
  The rule \<open>article img\<close> on a document with \<open><figure><img src=a></figure>\<close>
  inside its article: the image's parent is the figure, whose inner HTML is the
  image tag itself. A paragraph contributes its own inner HTML.
\<close>

theorem scrapContent_document_order_witness:
  "scrapContent example_env ''<html>'' ''article img'' = Inr ''<img src=a>''
   \<and> Find example_env example_document ''article img'' = [[0, 0, 0, 0, 0]]
   \<and> scrapContent example_env ''<html>'' ''article p'' = Inr ''hello''"
proof -
  have doc: "NewDocumentFromReader example_env ''<html>'' = Inr example_document"
    by (simp add: example_env_def)
  have found: "Find example_env example_document ''article img'' = [[0, 0, 0, 0, 0]]"
    by (simp add: Find_def example_env_def example_document_def example_selector_matches_def)
  have found_p: "Find example_env example_document ''article p'' = [[0, 0, 0, Suc 0]]"
    by (simp add: Find_def example_env_def example_document_def example_selector_matches_def)
  have img: "selector_matches example_env ''img'' example_document [0, 0, 0, 0, 0]"
    by (simp add: example_env_def example_document_def example_selector_matches_def)
  have p: "\<not> selector_matches example_env ''img'' example_document [0, 0, 0, Suc 0]"
     "\<not> selector_matches example_env ''iframe'' example_document [0, 0, 0, Suc 0]"
    by (simp_all add: example_env_def example_document_def example_selector_matches_def)
  have figure: "Html example_env example_document [[0, 0, 0, 0]] = ''<img src=a>''"
    by (simp add: Html_def example_env_def example_document_def)
  have par: "Html example_env example_document [[0, 0, 0, Suc 0]] = ''hello''"
    by (simp add: Html_def example_env_def example_document_def)
  show ?thesis
    using scrapContent_document_order[OF doc, of "''article img''"]
          scrapContent_document_order[OF doc, of "''article p''"]
    by (simp add: found found_p img p Parent_def figure par)
qed

section \<open>Storage calls and the first steps of a refresh\<close>

lemma trace_emit [simp]: "trace (emit e w) = trace w @ [e]"
  by (simp add: emit_def)

lemma store_emit [simp]: "store (emit e w) = store w"
  by (simp add: emit_def)

lemma emit_as_update: "emit e w = w\<lparr> trace := trace w @ [e] \<rparr>"
  by (simp add: emit_def)

lemma snd_FeedByID [simp]: "snd (FeedByID env w userID feedID) = emit (FeedByID_call userID feedID) w"
  by (simp add: FeedByID_def Let_def split: option.splits prod.splits)

lemma UpdateFeed_trace [simp]:
  "trace (snd (UpdateFeed env w feed)) = trace w @ [UpdateFeed_call feed]"
  by (simp add: UpdateFeed_def Let_def split: option.splits)

lemma UpdateFeed_entries [simp]:
  "entries (store (snd (UpdateFeed env w feed))) = entries (store w)"
  by (simp add: UpdateFeed_def Let_def split: option.splits)

lemma UpdateFeed_ok:
  "Category feed = Some c \<Longrightarrow> db_error env (trace w) = None \<Longrightarrow>
   UpdateFeed env w feed =
     (Return None,
      w\<lparr> trace := trace w @ [UpdateFeed_call feed],
         store := (store w)\<lparr> feeds :=
           map (\<lambda>r. if feeds_id r = ID feed \<and> feeds_user_id r = UserID feed
                    then update_feeds_row feed c r else r) (feeds (store w)) \<rparr> \<rparr>)"
  by (simp add: UpdateFeed_def Let_def emit_def)

lemma UpdateFeed_failed:
  "Category feed = Some c \<Longrightarrow> db_error env (trace w) = Some e \<Longrightarrow>
   UpdateFeed env w feed =
     (Return (Some (Plain (''Unable to update feed: '' @ e))),
      w\<lparr> trace := trace w @ [UpdateFeed_call feed] \<rparr>)"
  by (simp add: UpdateFeed_def Let_def emit_def)

lemma UpdateFeed_panic:
  "Category feed = None \<Longrightarrow>
   UpdateFeed env w feed = (Panic nil_dereference, w\<lparr> trace := trace w @ [UpdateFeed_call feed] \<rparr>)"
  by (simp add: UpdateFeed_def Let_def emit_def)

lemma UpdateFeed_returns:
  "Category feed = Some c \<Longrightarrow> \<exists>ret. fst (UpdateFeed env w feed) = Return ret"
  by (simp add: UpdateFeed_def Let_def split: option.splits)

lemma then_return_simps [simp]:
  "then_return (Return x, w) v = (Return v, w)"
  "then_return (Panic p, w) v = (Panic p, w)"
  by (simp_all add: then_return_def)

lemma snd_then_return [simp]: "snd (then_return call v) = snd call"
  by (simp add: then_return_def split: prod.splits outcome.splits)

lemma persist_failure_eq:
  "persist_failure env w feed msg =
     UpdateFeed env w (feed\<lparr> ParsingErrorCount := ParsingErrorCount feed + 1,
                             ParsingErrorMsg := msg \<rparr>)"
  by (simp add: persist_failure_def Let_def)

text \<open>A feed with a category is persisted without panic, and the path returns its error.\<close>

lemma persist_failure_then_return:
  assumes "Category feed = Some c"
  shows "then_return (persist_failure env w feed msg) v =
           (Return v, snd (persist_failure env w feed msg))"
proof -
  obtain ret where "fst (persist_failure env w feed msg) = Return ret"
    using UpdateFeed_returns[of "feed\<lparr> ParsingErrorCount := ParsingErrorCount feed + 1,
                                         ParsingErrorMsg := msg \<rparr>" c env w] assms
    by (auto simp: persist_failure_eq)
  then show ?thesis
    by (cases "persist_failure env w feed msg") simp
qed

text \<open>The feed \<open>FeedByID\<close> loads has a category.\<close>

lemma FeedByID_category:
  "fst (FeedByID env w userID feedID) = Inr (Some f) \<Longrightarrow> \<exists>c. Category f = Some c"
  by (auto simp: FeedByID_def Let_def split: option.splits)

lemma loaded_feed_category:
  "loaded_feed env w userID feedID = Inr (Some f) \<Longrightarrow> \<exists>c. Category f = Some c"
  unfolding loaded_feed_def by (rule FeedByID_category)

lemma RefreshFeed_loaded:
  assumes "loaded_feed env w userID feedID = Inr (Some f)"
  shows "RefreshFeed env w userID feedID =
     (case client_Get env (trace w @ [UserLanguage_call userID, FeedByID_call userID feedID])
             (refresh_client f) of
        Inl err \<Rightarrow>
          (let customErr = (case err of Localized lerr \<Rightarrow> lerr
                            | Plain m \<Rightarrow> NewLocalizedError errRequestFailed [ArgError err])
           in (Return (Some (Localized customErr)),
               snd (persist_failure env (w\<lparr> trace := trace w @ refresh_prefix userID feedID f \<rparr>) f
                      (Localize env customErr (refresh_language env w userID)))))
      | Inr response \<Rightarrow>
          RefreshFeed_response env (w\<lparr> trace := trace w @ refresh_prefix userID feedID f \<rparr>)
            userID (refresh_language env w userID) f response)"
proof -
  obtain r where r: "FeedByID env (emit (UserLanguage_call userID) w) userID feedID
                      = (Inr (Some f), emit (FeedByID_call userID feedID) (emit (UserLanguage_call userID) w))"
    using assms snd_FeedByID[of env "emit (UserLanguage_call userID) w" userID feedID]
    unfolding loaded_feed_def by (metis prod.collapse)
  have t: "trace (emit (FeedByID_call userID feedID) (emit (UserLanguage_call userID) w))
             = trace w @ [UserLanguage_call userID, FeedByID_call userID feedID]"
    by simp
  have e: "emit (Get_call c) (emit (FeedByID_call userID feedID) (emit (UserLanguage_call userID) w))
             = w\<lparr> trace := trace w @ [UserLanguage_call userID, FeedByID_call userID feedID, Get_call c] \<rparr>"
    for c by (simp add: emit_def)
  obtain c where c: "Category f = Some c"
    using loaded_feed_category[OF assms] by blast
  show ?thesis
    unfolding RefreshFeed_def UserLanguage_def
    by (simp add: r Let_def Get_def t e refresh_client_def refresh_prefix_def refresh_language_def
          persist_failure_then_return[OF c] split: sum.splits)
qed


lemma RefreshFeed_finish_eq:
  "RefreshFeed_finish env w feed =
     UpdateFeed env w (feed\<lparr> ParsingErrorCount := 0, ParsingErrorMsg := [],
                  SiteURL := (if SiteURL feed = [] then FeedURL feed else SiteURL feed) \<rparr>)"
proof (cases "SiteURL feed = []")
  case True
  then show ?thesis by (simp add: RefreshFeed_finish_def Let_def)
next
  case False
  then show ?thesis by (simp add: RefreshFeed_finish_def Let_def)
qed

lemma RefreshFeed_response_not_modified:
  assumes "\<not> IsNotFound env r" and "\<not> HasServerFailure env r"
      and "\<not> IsModified env r (EtagHeader f) (LastModifiedHeader f)"
  shows "RefreshFeed_response env w userID lang f r =
           RefreshFeed_finish env w (f\<lparr> CheckedAt := time_Now env (trace w) \<rparr>)"
  using assms by (simp add: RefreshFeed_response_def Let_def)

lemma example_feed_category:
  "Category example_feed = Some \<lparr> Category_ID = 1, Category_UserID = 1, Category_Title = ''News'' \<rparr>"
  by (simp add: example_feed_def)

lemma example_loaded:
  "db_error env = (\<lambda>t. None) \<Longrightarrow> timezone_Convert env = (\<lambda>tz t. t) \<Longrightarrow>
   loaded_feed env example_world 1 1 = Inr (Some example_feed)"
  by (simp add: loaded_feed_def FeedByID_def example_world_def example_row_def example_feed_def
        Let_def)

lemma example_loaded_answering: "loaded_feed (answering r) example_world 1 1 = Inr (Some example_feed)"
  by (rule example_loaded) (simp_all add: answering_def example_env_def)

section \<open>Properties of the processing pipeline\<close>

subsection \<open>One entry\<close>

lemma Fetch_world:
  "snd (Fetch env w entryURL rules cs) = emit (Get_call (WithCookies cs (client_New entryURL))) w"
  by (simp add: Fetch_def Get_def Let_def split: sum.splits)

lemma Process_entry_known:
  assumes "FeedProcessor_crawler f"
      and "store_EntryURLExists env (store w) (FeedProcessor_userID f) (Entry_URL entry)"
  shows "Process_entry env f w entry =
     (entry\<lparr> Entry_Content := sanitizer_Sanitize env (Entry_URL entry)
                 (rewrite_Rewriter env (Entry_URL entry) (Entry_Content entry)
                    (FeedProcessor_rewriteRules f)) \<rparr>,
      w\<lparr> trace := trace w @
           [EntryURLExists_call (FeedProcessor_userID f) (Entry_URL entry),
            Rewriter_call (Entry_URL entry) (Entry_Content entry) (FeedProcessor_rewriteRules f),
            Sanitize_call (Entry_URL entry)
              (rewrite_Rewriter env (Entry_URL entry) (Entry_Content entry)
                 (FeedProcessor_rewriteRules f))] \<rparr>)"
  using assms
  by (simp add: Process_entry_def EntryURLExists_def Rewriter_def Sanitize_def Let_def emit_def)

lemma Process_entry_unknown:
  assumes "FeedProcessor_crawler f"
      and "\<not> store_EntryURLExists env (store w) (FeedProcessor_userID f) (Entry_URL entry)"
      and "c = (case fst (Fetch env (emit (EntryURLExists_call (FeedProcessor_userID f) (Entry_URL entry)) w)
                       (Entry_URL entry) (FeedProcessor_scraperRules f) (FeedProcessor_cookies f)) of
                  Inl err \<Rightarrow> Entry_Content entry
                | Inr content \<Rightarrow> content)"
  shows "Process_entry env f w entry =
     (entry\<lparr> Entry_Content := sanitizer_Sanitize env (Entry_URL entry)
                 (rewrite_Rewriter env (Entry_URL entry) c (FeedProcessor_rewriteRules f)) \<rparr>,
      w\<lparr> trace := trace w @
           [EntryURLExists_call (FeedProcessor_userID f) (Entry_URL entry),
            Get_call (WithCookies (FeedProcessor_cookies f) (client_New (Entry_URL entry))),
            Rewriter_call (Entry_URL entry) c (FeedProcessor_rewriteRules f),
            Sanitize_call (Entry_URL entry)
              (rewrite_Rewriter env (Entry_URL entry) c (FeedProcessor_rewriteRules f))] \<rparr>)"
proof -
  let ?w' = "emit (EntryURLExists_call (FeedProcessor_userID f) (Entry_URL entry)) w"
  obtain res where F: "Fetch env ?w' (Entry_URL entry) (FeedProcessor_scraperRules f) (FeedProcessor_cookies f)
      = (res, emit (Get_call (WithCookies (FeedProcessor_cookies f) (client_New (Entry_URL entry)))) ?w')"
    using Fetch_world[of env ?w' "Entry_URL entry" "FeedProcessor_scraperRules f" "FeedProcessor_cookies f"]
    by (metis prod.collapse)
  show ?thesis
  proof (cases res)
    case (Inl err)
    with assms F show ?thesis
      by (simp add: Process_entry_def EntryURLExists_def Rewriter_def Sanitize_def Let_def emit_def)
  next
    case (Inr content)
    with assms F show ?thesis
      by (simp add: Process_entry_def EntryURLExists_def Rewriter_def Sanitize_def Let_def emit_def)
  qed
qed

lemma Process_entry_no_crawler:
  assumes "\<not> FeedProcessor_crawler f"
  shows "Process_entry env f w entry =
     (entry\<lparr> Entry_Content := sanitizer_Sanitize env (Entry_URL entry)
                 (rewrite_Rewriter env (Entry_URL entry) (Entry_Content entry)
                    (FeedProcessor_rewriteRules f)) \<rparr>,
      w\<lparr> trace := trace w @
           [Rewriter_call (Entry_URL entry) (Entry_Content entry) (FeedProcessor_rewriteRules f),
            Sanitize_call (Entry_URL entry)
              (rewrite_Rewriter env (Entry_URL entry) (Entry_Content entry)
                 (FeedProcessor_rewriteRules f))] \<rparr>)"
  using assms
  by (simp add: Process_entry_def Rewriter_def Sanitize_def Let_def emit_def)

text \<open>
  What one run of the loop body adds to the trace: an existence check and at most
  one fetch, then the rewrite, then the sanitizer.
\<close>

lemma Process_entry_summary:
  "\<exists>pre c.
     Process_entry env f w entry =
       (entry\<lparr> Entry_Content := sanitizer_Sanitize env (Entry_URL entry)
                   (rewrite_Rewriter env (Entry_URL entry) c (FeedProcessor_rewriteRules f)) \<rparr>,
        w\<lparr> trace := trace w @ pre @
             [Rewriter_call (Entry_URL entry) c (FeedProcessor_rewriteRules f),
              Sanitize_call (Entry_URL entry)
                (rewrite_Rewriter env (Entry_URL entry) c (FeedProcessor_rewriteRules f))] \<rparr>)
     \<and> (\<forall>e \<in> set pre. is_pipeline_call e)
     \<and> (\<forall>clt. Get_call clt \<in> set pre \<longrightarrow>
            Client_url clt = Entry_URL entry
            \<and> \<not> store_EntryURLExists env (store w) (FeedProcessor_userID f) (Entry_URL entry))
     \<and> (store_EntryURLExists env (store w) (FeedProcessor_userID f) (Entry_URL entry)
          \<or> \<not> FeedProcessor_crawler f \<longrightarrow> c = Entry_Content entry)"
proof (cases "FeedProcessor_crawler f")
  case False
  show ?thesis
    apply (rule exI[of _ "[]"], rule exI[of _ "Entry_Content entry"])
    using Process_entry_no_crawler[OF False, of env w entry] by simp
next
  case True
  show ?thesis
  proof (cases "store_EntryURLExists env (store w) (FeedProcessor_userID f) (Entry_URL entry)")
    case known: True
    show ?thesis
      apply (rule exI[of _ "[EntryURLExists_call (FeedProcessor_userID f) (Entry_URL entry)]"],
             rule exI[of _ "Entry_Content entry"])
      using Process_entry_known[OF True known] by simp
  next
    case unknown: False
    show ?thesis
      apply (rule exI[of _ "[EntryURLExists_call (FeedProcessor_userID f) (Entry_URL entry),
            Get_call (WithCookies (FeedProcessor_cookies f) (client_New (Entry_URL entry)))]"])
      apply (rule exI[of _ "case fst (Fetch env (emit (EntryURLExists_call (FeedProcessor_userID f) (Entry_URL entry)) w)
                       (Entry_URL entry) (FeedProcessor_scraperRules f) (FeedProcessor_cookies f)) of
                  Inl err \<Rightarrow> Entry_Content entry
                | Inr content \<Rightarrow> content"])
      using Process_entry_unknown[OF True unknown refl] unknown True
      by (simp add: WithCookies_def client_New_def)
  qed
qed

subsection \<open>All entries\<close>

lemma Process_entries_summary:
  "\<exists>evs. trace (snd (Process_entries env f w es)) = trace w @ evs
      \<and> store (snd (Process_entries env f w es)) = store w
      \<and> (\<forall>e \<in> set evs. is_pipeline_call e)
      \<and> (\<forall>clt. Get_call clt \<in> set evs \<longrightarrow>
            \<not> store_EntryURLExists env (store w) (FeedProcessor_userID f) (Client_url clt))
      \<and> list_all2
           (\<lambda>e e'. \<exists>c. e' = e\<lparr> Entry_Content := sanitizer_Sanitize env (Entry_URL e)
                               (rewrite_Rewriter env (Entry_URL e) c (FeedProcessor_rewriteRules f)) \<rparr>
                       \<and> (store_EntryURLExists env (store w) (FeedProcessor_userID f) (Entry_URL e)
                            \<or> \<not> FeedProcessor_crawler f \<longrightarrow> c = Entry_Content e))
           es (fst (Process_entries env f w es))"
proof (induction es arbitrary: w)
  case Nil
  then show ?case by simp
next
  case (Cons entry rest)
  obtain pre c where step:
    "Process_entry env f w entry =
       (entry\<lparr> Entry_Content := sanitizer_Sanitize env (Entry_URL entry)
                   (rewrite_Rewriter env (Entry_URL entry) c (FeedProcessor_rewriteRules f)) \<rparr>,
        w\<lparr> trace := trace w @ pre @
             [Rewriter_call (Entry_URL entry) c (FeedProcessor_rewriteRules f),
              Sanitize_call (Entry_URL entry)
                (rewrite_Rewriter env (Entry_URL entry) c (FeedProcessor_rewriteRules f))] \<rparr>)"
    and pre: "\<forall>e \<in> set pre. is_pipeline_call e"
    and get: "\<forall>clt. Get_call clt \<in> set pre \<longrightarrow>
            Client_url clt = Entry_URL entry
            \<and> \<not> store_EntryURLExists env (store w) (FeedProcessor_userID f) (Entry_URL entry)"
    and kept: "store_EntryURLExists env (store w) (FeedProcessor_userID f) (Entry_URL entry)
          \<or> \<not> FeedProcessor_crawler f \<longrightarrow> c = Entry_Content entry"
    using Process_entry_summary[of env f w entry] by blast
  let ?w1 = "w\<lparr> trace := trace w @ pre @
             [Rewriter_call (Entry_URL entry) c (FeedProcessor_rewriteRules f),
              Sanitize_call (Entry_URL entry)
                (rewrite_Rewriter env (Entry_URL entry) c (FeedProcessor_rewriteRules f))] \<rparr>"
  obtain evs where
    tr: "trace (snd (Process_entries env f ?w1 rest)) = trace ?w1 @ evs"
    and st: "store (snd (Process_entries env f ?w1 rest)) = store ?w1"
    and pc: "\<forall>e \<in> set evs. is_pipeline_call e"
    and gt: "\<forall>clt. Get_call clt \<in> set evs \<longrightarrow>
            \<not> store_EntryURLExists env (store ?w1) (FeedProcessor_userID f) (Client_url clt)"
    and la: "list_all2
           (\<lambda>e e'. \<exists>c. e' = e\<lparr> Entry_Content := sanitizer_Sanitize env (Entry_URL e)
                               (rewrite_Rewriter env (Entry_URL e) c (FeedProcessor_rewriteRules f)) \<rparr>
                       \<and> (store_EntryURLExists env (store ?w1) (FeedProcessor_userID f) (Entry_URL e)
                            \<or> \<not> FeedProcessor_crawler f \<longrightarrow> c = Entry_Content e))
           rest (fst (Process_entries env f ?w1 rest))"
    using Cons.IH[of ?w1] by blast
  have run: "Process_entries env f w (entry # rest) =
      (entry\<lparr> Entry_Content := sanitizer_Sanitize env (Entry_URL entry)
                   (rewrite_Rewriter env (Entry_URL entry) c (FeedProcessor_rewriteRules f)) \<rparr>
        # fst (Process_entries env f ?w1 rest),
       snd (Process_entries env f ?w1 rest))"
    by (simp add: step Let_def split: prod.splits)
  show ?case
    apply (rule exI[of _ "pre @ [Rewriter_call (Entry_URL entry) c (FeedProcessor_rewriteRules f),
              Sanitize_call (Entry_URL entry)
                (rewrite_Rewriter env (Entry_URL entry) c (FeedProcessor_rewriteRules f))] @ evs"])
    unfolding run
    using tr st pc gt la pre get kept
    by (auto simp: )
qed

lemma pipeline_call_not_update:
  "is_pipeline_call e \<Longrightarrow> \<not> is_UpdateEntries_call e \<and> \<not> is_UpdateFeed_call e"
  by (cases e) simp_all

lemma Process_summary:
  "\<exists>evs. trace (snd (Process env f w)) = trace w @ evs
      \<and> store (snd (Process env f w)) = store w
      \<and> (\<forall>e \<in> set evs. is_pipeline_call e)
      \<and> (\<forall>clt. Get_call clt \<in> set evs \<longrightarrow>
            \<not> store_EntryURLExists env (store w) (FeedProcessor_userID f) (Client_url clt))"
  using Process_entries_summary[of env f w "Entries (FeedProcessor_feed f)"]
  by (auto simp: Process_def Let_def split: prod.splits)

text \<open>
  C3. With the crawler enabled, processing an entry gives the same entry with its
  content replaced by \<open>Sanitize (Rewriter c)\<close>, and the calls recorded are an
  existence check, possibly a fetch, then \<open>Rewriter\<close> on \<open>c\<close>, then \<open>Sanitize\<close> on the
  rewritten content, last. When the entry's URL exists for the user, the only call
  before the rewrite is the existence check (no fetch) and \<open>c\<close> is the entry's own
  content; otherwise one fetch of the entry's URL is made and \<open>c\<close> is the scraped
  content, or the entry's own content when the fetch fails. Over a whole run of
  \<open>Process\<close>: storage is not written, no fetch goes to a URL that exists for the
  user, and every entry comes out as \<open>Sanitize (Rewriter c)\<close> of some \<open>c\<close>, its own
  content when its URL exists.
\<close>

theorem Process_dedup_rewrite_sanitize:
  assumes crawler: "FeedProcessor_crawler f"
  shows
    "(\<exists>pre c.
        Process_entry env f w entry =
          (entry\<lparr> Entry_Content := sanitizer_Sanitize env (Entry_URL entry)
                      (rewrite_Rewriter env (Entry_URL entry) c (FeedProcessor_rewriteRules f)) \<rparr>,
           w\<lparr> trace := trace w @ pre @
                [Rewriter_call (Entry_URL entry) c (FeedProcessor_rewriteRules f),
                 Sanitize_call (Entry_URL entry)
                   (rewrite_Rewriter env (Entry_URL entry) c (FeedProcessor_rewriteRules f))] \<rparr>)
        \<and> (store_EntryURLExists env (store w) (FeedProcessor_userID f) (Entry_URL entry) \<longrightarrow>
             pre = [EntryURLExists_call (FeedProcessor_userID f) (Entry_URL entry)]
             \<and> c = Entry_Content entry)
        \<and> (\<not> store_EntryURLExists env (store w) (FeedProcessor_userID f) (Entry_URL entry) \<longrightarrow>
             pre = [EntryURLExists_call (FeedProcessor_userID f) (Entry_URL entry),
                    Get_call (WithCookies (FeedProcessor_cookies f) (client_New (Entry_URL entry)))]
             \<and> c = (case fst (Fetch env
                                 (emit (EntryURLExists_call (FeedProcessor_userID f) (Entry_URL entry)) w)
                                 (Entry_URL entry) (FeedProcessor_scraperRules f)
                                 (FeedProcessor_cookies f)) of
                       Inl err \<Rightarrow> Entry_Content entry
                     | Inr content \<Rightarrow> content)))
     \<and> store (snd (Process env f w)) = store w
     \<and> (\<forall>clt. Get_call clt \<in> set (new_events w (snd (Process env f w))) \<longrightarrow>
           \<not> store_EntryURLExists env (store w) (FeedProcessor_userID f) (Client_url clt))
     \<and> list_all2
          (\<lambda>e e'. \<exists>c. e' = e\<lparr> Entry_Content := sanitizer_Sanitize env (Entry_URL e)
                              (rewrite_Rewriter env (Entry_URL e) c (FeedProcessor_rewriteRules f)) \<rparr>
                      \<and> (store_EntryURLExists env (store w) (FeedProcessor_userID f) (Entry_URL e)
                            \<longrightarrow> c = Entry_Content e))
          (Entries (FeedProcessor_feed f))
          (Entries (FeedProcessor_feed (fst (Process env f w))))"
proof (intro conjI)
  show "\<exists>pre c.
        Process_entry env f w entry =
          (entry\<lparr> Entry_Content := sanitizer_Sanitize env (Entry_URL entry)
                      (rewrite_Rewriter env (Entry_URL entry) c (FeedProcessor_rewriteRules f)) \<rparr>,
           w\<lparr> trace := trace w @ pre @
                [Rewriter_call (Entry_URL entry) c (FeedProcessor_rewriteRules f),
                 Sanitize_call (Entry_URL entry)
                   (rewrite_Rewriter env (Entry_URL entry) c (FeedProcessor_rewriteRules f))] \<rparr>)
        \<and> (store_EntryURLExists env (store w) (FeedProcessor_userID f) (Entry_URL entry) \<longrightarrow>
             pre = [EntryURLExists_call (FeedProcessor_userID f) (Entry_URL entry)]
             \<and> c = Entry_Content entry)
        \<and> (\<not> store_EntryURLExists env (store w) (FeedProcessor_userID f) (Entry_URL entry) \<longrightarrow>
             pre = [EntryURLExists_call (FeedProcessor_userID f) (Entry_URL entry),
                    Get_call (WithCookies (FeedProcessor_cookies f) (client_New (Entry_URL entry)))]
             \<and> c = (case fst (Fetch env
                                 (emit (EntryURLExists_call (FeedProcessor_userID f) (Entry_URL entry)) w)
                                 (Entry_URL entry) (FeedProcessor_scraperRules f)
                                 (FeedProcessor_cookies f)) of
                       Inl err \<Rightarrow> Entry_Content entry
                     | Inr content \<Rightarrow> content))"
  proof (cases "store_EntryURLExists env (store w) (FeedProcessor_userID f) (Entry_URL entry)")
    case True
    show ?thesis
      apply (rule exI[of _ "[EntryURLExists_call (FeedProcessor_userID f) (Entry_URL entry)]"],
             rule exI[of _ "Entry_Content entry"])
      using Process_entry_known[OF crawler True] True by simp
  next
    case False
    show ?thesis
      apply (rule exI[of _ "[EntryURLExists_call (FeedProcessor_userID f) (Entry_URL entry),
            Get_call (WithCookies (FeedProcessor_cookies f) (client_New (Entry_URL entry)))]"])
      apply (rule exI[of _ "case fst (Fetch env (emit (EntryURLExists_call (FeedProcessor_userID f) (Entry_URL entry)) w)
                       (Entry_URL entry) (FeedProcessor_scraperRules f) (FeedProcessor_cookies f)) of
                  Inl err \<Rightarrow> Entry_Content entry
                | Inr content \<Rightarrow> content"])
      using Process_entry_unknown[OF crawler False refl] False by simp
  qed
next
  obtain evs where
    tr: "trace (snd (Process_entries env f w (Entries (FeedProcessor_feed f)))) = trace w @ evs"
    and st: "store (snd (Process_entries env f w (Entries (FeedProcessor_feed f)))) = store w"
    and gt: "\<forall>clt. Get_call clt \<in> set evs \<longrightarrow>
            \<not> store_EntryURLExists env (store w) (FeedProcessor_userID f) (Client_url clt)"
    and la: "list_all2
           (\<lambda>e e'. \<exists>c. e' = e\<lparr> Entry_Content := sanitizer_Sanitize env (Entry_URL e)
                               (rewrite_Rewriter env (Entry_URL e) c (FeedProcessor_rewriteRules f)) \<rparr>
                       \<and> (store_EntryURLExists env (store w) (FeedProcessor_userID f) (Entry_URL e)
                            \<or> \<not> FeedProcessor_crawler f \<longrightarrow> c = Entry_Content e))
           (Entries (FeedProcessor_feed f))
           (fst (Process_entries env f w (Entries (FeedProcessor_feed f))))"
    using Process_entries_summary[of env f w "Entries (FeedProcessor_feed f)"] by blast
  have P: "Process env f w =
     (f\<lparr> FeedProcessor_feed := (FeedProcessor_feed f)
           \<lparr> Entries := fst (Process_entries env f w (Entries (FeedProcessor_feed f))) \<rparr> \<rparr>,
      snd (Process_entries env f w (Entries (FeedProcessor_feed f))))"
    by (simp add: Process_def Let_def split: prod.splits)
  show "store (snd (Process env f w)) = store w"
    by (simp add: P st)
  show "\<forall>clt. Get_call clt \<in> set (new_events w (snd (Process env f w))) \<longrightarrow>
           \<not> store_EntryURLExists env (store w) (FeedProcessor_userID f) (Client_url clt)"
    using gt by (simp add: P new_events_def tr)
  show "list_all2
          (\<lambda>e e'. \<exists>c. e' = e\<lparr> Entry_Content := sanitizer_Sanitize env (Entry_URL e)
                              (rewrite_Rewriter env (Entry_URL e) c (FeedProcessor_rewriteRules f)) \<rparr>
                      \<and> (store_EntryURLExists env (store w) (FeedProcessor_userID f) (Entry_URL e)
                            \<longrightarrow> c = Entry_Content e))
          (Entries (FeedProcessor_feed f))
          (Entries (FeedProcessor_feed (fst (Process env f w))))"
    using la by (simp add: P) (erule list_all2_mono, blast)
qed

subsection \<open>The pipeline on the example\<close>

lemma example_Find_img: "Find example_env example_document ''article img'' = [[0, 0, 0, 0, 0]]"
  by (simp add: Find_def example_env_def example_document_def example_selector_matches_def)

lemma example_scrapContent: "scrapContent example_env ''<html>'' ''article img'' = Inr ''<img src=a>''"
proof -
  have doc: "NewDocumentFromReader example_env ''<html>'' = Inr example_document"
    by (simp add: example_env_def)
  have img: "Is example_env example_document [[0, 0, 0, 0, 0]] ''img''"
    by (simp add: Is_def example_env_def example_document_def example_selector_matches_def)
  have figure: "Html example_env example_document [[0, 0, 0, 0]] = ''<img src=a>''"
    by (simp add: Html_def example_env_def example_document_def)
  show ?thesis
    by (simp add: scrapContent_def doc example_Find_img img Parent_def figure)
qed

lemma example_Fetch:
  "Fetch example_env w ''http://example.org/new'' ''article img'' cs =
     (Inr ''<img src=a>'', emit (Get_call (WithCookies cs (client_New ''http://example.org/new''))) w)"
proof -
  have g: "client_Get example_env t (WithCookies cs (client_New ''http://example.org/new'')) = Inr example_page" for t
    by (simp add: example_env_def WithCookies_def client_New_def example_feed_url_def)
  have h: "\<not> HasServerFailure example_env example_page"
    "Contains (ContentType example_page) ''text/html''"
    "NormalizeBodyEncoding example_env example_page = Inr ''<html>''"
    by (simp_all add: example_env_def example_page_def)
  show ?thesis
    by (simp add: Fetch_def Get_def g h Let_def example_scrapContent)
qed

lemma example_env_fields:
  "time_Now example_env = (\<lambda>t. 1000)"
  "db_error example_env = (\<lambda>t. None)"
  "icon_FindIcon example_env = (\<lambda>t u. Inr None)"
  "IsNotFound example_env = (\<lambda>r. StatusCode r = 404)"
  "HasServerFailure example_env = (\<lambda>r. 400 \<le> sint (StatusCode r))"
  "NormalizeBodyEncoding example_env = (\<lambda>r. Inr (Body r))"
  "parseFeed example_env = (\<lambda>body. Inr example_subscription)"
  "locale_GetLanguage example_env = (\<lambda>l. l)"
  "Localize example_env = (\<lambda>err l. message err)"
  "rewrite_Rewriter example_env = (\<lambda>u content rules. content @ ''+rewritten'')"
  "sanitizer_Sanitize example_env = (\<lambda>u content. content @ ''+sanitized'')"
  "store_EntryURLExists example_env = (\<lambda>s userID entryURL.
         list_ex (\<lambda>e. Entry_UserID e = userID \<and> Entry_URL e = entryURL) (entries s))"
  "store_UpdateEntries example_env = (\<lambda>s userID feedID es overwrite.
         (None, s\<lparr> entries := example_merge userID feedID overwrite (entries s) es \<rparr>))"
  "store_HasIcon example_env = (\<lambda>s feedID. list_ex (\<lambda>i. FeedIcon_FeedID i = feedID) (feed_icons s))"
  "store_CategoryExists example_env = (\<lambda>s userID categoryID.
         list_ex (\<lambda>c. Category_UserID c = userID \<and> Category_ID c = categoryID) (categories s))"
  by (simp_all add: example_env_def)

lemma example_processor:
  "refresh_processor 1 example_feed subscription =
     \<lparr> FeedProcessor_userID = 1, FeedProcessor_feed = subscription,
       FeedProcessor_scraperRules = ''article img'', FeedProcessor_rewriteRules = [],
       FeedProcessor_cookies = (\<lambda>key. None), FeedProcessor_crawler = True \<rparr>"
  by (simp add: refresh_processor_def WithCrawler_def FeedProcessor_WithCookies_def
        WithRewriteRules_def WithScraperRules_def NewFeedProcessor_def example_feed_def)

text \<open>The pipeline on the two parsed entries, against the example store.\<close>

lemma example_Process:
  assumes "entries (store w) = [example_known_entry]"
  shows "Process example_env (refresh_processor 1 example_feed example_subscription) w =
     ((refresh_processor 1 example_feed example_subscription)
        \<lparr> FeedProcessor_feed := example_subscription
           \<lparr> Entries :=
               [\<lparr> Entry_UserID = 0, Entry_FeedID = 0, Entry_URL = ''http://example.org/known'',
                  Entry_Content = ''summary A+rewritten+sanitized'' \<rparr>,
                \<lparr> Entry_UserID = 0, Entry_FeedID = 0, Entry_URL = ''http://example.org/new'',
                  Entry_Content = ''<img src=a>+rewritten+sanitized'' \<rparr>] \<rparr> \<rparr>,
      w\<lparr> trace := trace w @
           [EntryURLExists_call 1 ''http://example.org/known'',
            Rewriter_call ''http://example.org/known'' ''summary A'' [],
            Sanitize_call ''http://example.org/known'' ''summary A+rewritten'',
            EntryURLExists_call 1 ''http://example.org/new'',
            Get_call (WithCookies (\<lambda>key. None) (client_New ''http://example.org/new'')),
            Rewriter_call ''http://example.org/new'' ''<img src=a>'' [],
            Sanitize_call ''http://example.org/new'' ''<img src=a>+rewritten''] \<rparr>)"
proof -
  let ?fp = "refresh_processor 1 example_feed example_subscription"
  let ?a = "\<lparr> Entry_UserID = 0, Entry_FeedID = 0, Entry_URL = ''http://example.org/known'',
            Entry_Content = ''summary A'' \<rparr>"
  let ?b = "\<lparr> Entry_UserID = 0, Entry_FeedID = 0, Entry_URL = ''http://example.org/new'',
            Entry_Content = ''summary B'' \<rparr>"
  have fp: "FeedProcessor_crawler ?fp" "FeedProcessor_userID ?fp = 1"
    "FeedProcessor_scraperRules ?fp = ''article img''" "FeedProcessor_rewriteRules ?fp = []"
    "FeedProcessor_cookies ?fp = (\<lambda>key. None)" "FeedProcessor_feed ?fp = example_subscription"
    by (simp_all add: example_processor)
  have es: "Entries example_subscription = [?a, ?b]"
    by (simp add: example_subscription_def)
  have known: "store_EntryURLExists example_env (store w') (FeedProcessor_userID ?fp) (Entry_URL ?a)"
    if "entries (store w') = [example_known_entry]" for w'
    using that by (simp add: fp example_env_fields example_known_entry_def)
  have unknown: "\<not> store_EntryURLExists example_env (store w') (FeedProcessor_userID ?fp) (Entry_URL ?b)"
    if "entries (store w') = [example_known_entry]" for w'
    using that by (simp add: fp example_env_fields example_known_entry_def)
  have A: "Process_entry example_env ?fp w ?a =
     (?a\<lparr> Entry_Content := ''summary A+rewritten+sanitized'' \<rparr>,
      w\<lparr> trace := trace w @
           [EntryURLExists_call 1 ''http://example.org/known'',
            Rewriter_call ''http://example.org/known'' ''summary A'' [],
            Sanitize_call ''http://example.org/known'' ''summary A+rewritten''] \<rparr>)"
    using Process_entry_known[OF fp(1) known[OF assms]]
    by (simp add: fp example_env_fields)
  let ?w1 = "w\<lparr> trace := trace w @
           [EntryURLExists_call 1 ''http://example.org/known'',
            Rewriter_call ''http://example.org/known'' ''summary A'' [],
            Sanitize_call ''http://example.org/known'' ''summary A+rewritten''] \<rparr>"
  have s1: "entries (store ?w1) = [example_known_entry]" using assms by simp
  have B: "Process_entry example_env ?fp ?w1 ?b =
     (?b\<lparr> Entry_Content := ''<img src=a>+rewritten+sanitized'' \<rparr>,
      ?w1\<lparr> trace := trace ?w1 @
           [EntryURLExists_call 1 ''http://example.org/new'',
            Get_call (WithCookies (\<lambda>key. None) (client_New ''http://example.org/new'')),
            Rewriter_call ''http://example.org/new'' ''<img src=a>'' [],
            Sanitize_call ''http://example.org/new'' ''<img src=a>+rewritten''] \<rparr>)"
    using Process_entry_unknown[OF fp(1) unknown[OF s1] refl]
    by (simp add: fp example_env_fields example_Fetch)
  show ?thesis
    by (simp add: Process_def fp es A B)
qed

theorem Process_dedup_rewrite_sanitize_witness:
  "map Entry_Content
     (Entries (FeedProcessor_feed
        (fst (Process example_env (refresh_processor 1 example_feed example_subscription)
                example_world)))) =
     [''summary A+rewritten+sanitized'', ''<img src=a>+rewritten+sanitized'']
   \<and> map fetched_url
       (new_events example_world
          (snd (Process example_env (refresh_processor 1 example_feed example_subscription)
                  example_world))) =
       [None, None, None, None, Some ''http://example.org/new'', None, None]
   \<and> store_EntryURLExists example_env (store example_world) 1 ''http://example.org/known''
   \<and> \<not> store_EntryURLExists example_env (store example_world) 1 ''http://example.org/new''"
proof -
  have crawler: "FeedProcessor_crawler (refresh_processor 1 example_feed example_subscription)"
    by (simp add: example_processor)
  have st: "entries (store example_world) = [example_known_entry]"
    by (simp add: example_world_def)
  show ?thesis
    using Process_dedup_rewrite_sanitize[OF crawler, of example_env example_world
            "\<lparr> Entry_UserID = 0, Entry_FeedID = 0, Entry_URL = ''http://example.org/known'',
               Entry_Content = ''summary A'' \<rparr>"]
    by (simp add: example_Process[OF st] new_events_def WithCookies_def client_New_def
          example_env_fields st example_known_entry_def)
qed

section \<open>Properties of RefreshFeed\<close>

subsection \<open>A response that is not modified\<close>

text \<open>
  C2. The feed is loaded, the fetch returns a response that is neither a 404 nor
  a server failure, and the response is not modified relative to the stored
  caching tokens. Then the calls of the refresh are exactly: the three of the
  prefix (user language, load, fetch) and one \<open>UpdateFeed\<close>. There is no parse, no
  call of the pipeline and no entry update; the table of entries is as before.
  The record handed to \<open>UpdateFeed\<close> is the loaded one with \<open>CheckedAt\<close> set to the
  time of the check, \<open>ParsingErrorCount = 0\<close>, an empty \<open>ParsingErrorMsg\<close>, and
  \<open>SiteURL\<close> defaulted to \<open>FeedURL\<close> when empty; when the database runs the statement
  the refresh returns nil and the row holds these values (the loaded feed has a
  category, so \<open>UpdateFeed\<close> does not panic).
\<close>

theorem RefreshFeed_not_modified:
  assumes loaded: "loaded_feed env w userID feedID = Inr (Some f)"
      and got: "client_Get env (trace w @ [UserLanguage_call userID, FeedByID_call userID feedID])
                  (refresh_client f) = Inr r"
      and ok: "\<not> IsNotFound env r" "\<not> HasServerFailure env r"
      and nm: "\<not> IsModified env r (EtagHeader f) (LastModifiedHeader f)"
  shows "trace (snd (RefreshFeed env w userID feedID)) =
           trace w @ refresh_prefix userID feedID f @
             [UpdateFeed_call
                (f\<lparr> CheckedAt := time_Now env (trace w @ refresh_prefix userID feedID f),
                    ParsingErrorCount := 0, ParsingErrorMsg := [],
                    SiteURL := (if SiteURL f = [] then FeedURL f else SiteURL f) \<rparr>)]
         \<and> entries (store (snd (RefreshFeed env w userID feedID))) = entries (store w)
         \<and> (db_error env (trace w @ refresh_prefix userID feedID f) = None \<longrightarrow>
              fst (RefreshFeed env w userID feedID) = Return None
              \<and> (\<exists>category. Category f = Some category
                   \<and> feeds (store (snd (RefreshFeed env w userID feedID))) =
                       map (\<lambda>row. if feeds_id row = ID f \<and> feeds_user_id row = UserID f
                                  then update_feeds_row
                                         (f\<lparr> CheckedAt := time_Now env (trace w @ refresh_prefix userID feedID f),
                                             ParsingErrorCount := 0, ParsingErrorMsg := [],
                                             SiteURL := (if SiteURL f = [] then FeedURL f else SiteURL f) \<rparr>)
                                         category row
                                  else row)
                           (feeds (store w))))"
proof -
  let ?w3 = "w\<lparr> trace := trace w @ refresh_prefix userID feedID f \<rparr>"
  have run: "RefreshFeed env w userID feedID =
               RefreshFeed_finish env ?w3 (f\<lparr> CheckedAt := time_Now env (trace ?w3) \<rparr>)"
    using RefreshFeed_loaded[OF loaded] got RefreshFeed_response_not_modified[OF ok nm]
    by simp
  let ?p = "f\<lparr> CheckedAt := time_Now env (trace w @ refresh_prefix userID feedID f),
                ParsingErrorCount := 0, ParsingErrorMsg := [],
                SiteURL := (if SiteURL f = [] then FeedURL f else SiteURL f) \<rparr>"
  have run': "RefreshFeed env w userID feedID = UpdateFeed env ?w3 ?p"
    unfolding run RefreshFeed_finish_eq by simp
  have 1: "trace (snd (UpdateFeed env ?w3 ?p)) = trace w @ refresh_prefix userID feedID f @ [UpdateFeed_call ?p]"
    by (simp only: UpdateFeed_trace) simp
  have 2: "entries (store (snd (UpdateFeed env ?w3 ?p))) = entries (store w)"
    by (simp only: UpdateFeed_entries) simp
  obtain c where c: "Category f = Some c"
    using loaded_feed_category[OF loaded] by blast
  have 3: "fst (UpdateFeed env ?w3 ?p) = Return None \<and>
           (\<exists>category. Category f = Some category \<and>
              feeds (store (snd (UpdateFeed env ?w3 ?p))) =
                map (\<lambda>row. if feeds_id row = ID f \<and> feeds_user_id row = UserID f
                           then update_feeds_row ?p category row else row) (feeds (store w)))"
    if "db_error env (trace w @ refresh_prefix userID feedID f) = None"
  proof -
    have db: "db_error env (trace ?w3) = None" using that by simp
    have cp: "Category ?p = Some c" using c by simp
    have "UpdateFeed env ?w3 ?p =
            (Return None,
             ?w3\<lparr> trace := trace ?w3 @ [UpdateFeed_call ?p],
                   store := (store ?w3)\<lparr> feeds :=
                     map (\<lambda>r. if feeds_id r = ID ?p \<and> feeds_user_id r = UserID ?p
                              then update_feeds_row ?p c r else r) (feeds (store ?w3)) \<rparr> \<rparr>)"
      by (rule UpdateFeed_ok[OF cp db])
    then show ?thesis using c by simp
  qed
  show ?thesis
    unfolding run' using 1 2 3 by blast
qed

theorem RefreshFeed_not_modified_witness:
  "trace (snd (RefreshFeed (answering not_modified_response) example_world 1 1)) =
     refresh_prefix 1 1 example_feed @
       [UpdateFeed_call (example_feed\<lparr> CheckedAt := 1000, ParsingErrorCount := 0,
                                          ParsingErrorMsg := [] \<rparr>)]
   \<and> entries (store (snd (RefreshFeed (answering not_modified_response) example_world 1 1)))
       = [example_known_entry]
   \<and> fst (RefreshFeed (answering not_modified_response) example_world 1 1) = Return None
   \<and> map feeds_parsing_error_count
        (feeds (store (snd (RefreshFeed (answering not_modified_response) example_world 1 1)))) = [0]
   \<and> map feeds_checked_at
        (feeds (store (snd (RefreshFeed (answering not_modified_response) example_world 1 1)))) = [1000]"
proof -
  let ?env = "answering not_modified_response"
  have got: "client_Get ?env (trace example_world @ [UserLanguage_call 1, FeedByID_call 1 1])
               (refresh_client example_feed) = Inr not_modified_response"
    by (simp add: answering_def)
  have ok: "\<not> IsNotFound ?env not_modified_response" "\<not> HasServerFailure ?env not_modified_response"
    by (simp_all add: answering_def example_env_def not_modified_response_def example_response_def)
  have nm: "\<not> IsModified ?env not_modified_response (EtagHeader example_feed)
                (LastModifiedHeader example_feed)"
    by (simp add: answering_def example_env_def not_modified_response_def)
  have db: "db_error ?env t = None" for t
    by (simp add: answering_def example_env_def)
  have now: "time_Now ?env t = 1000" for t
    by (simp add: answering_def example_env_def)
  have site: "SiteURL example_feed \<noteq> []" by (simp add: example_feed_def)
  show ?thesis
    using RefreshFeed_not_modified[OF example_loaded_answering got ok nm]
    by (simp add: now db site)
       (simp add: now db example_world_def example_row_def example_feed_def update_feeds_row_def)
qed

subsection \<open>The branches of a refresh\<close>

lemma persist_failure_trace:
  "trace (snd (persist_failure env w feed msg)) =
     trace w @ [UpdateFeed_call (feed\<lparr> ParsingErrorCount := ParsingErrorCount feed + 1,
                                           ParsingErrorMsg := msg \<rparr>)]"
  by (simp add: persist_failure_eq)

lemma persist_failure_entries:
  "entries (store (snd (persist_failure env w feed msg))) = entries (store w)"
  by (simp add: persist_failure_eq)

lemma persist_failure_ok:
  "Category feed = Some c \<Longrightarrow> db_error env (trace w) = None \<Longrightarrow>
   feeds (store (snd (persist_failure env w feed msg))) =
     map (\<lambda>r. if feeds_id r = ID feed \<and> feeds_user_id r = UserID feed
              then update_feeds_row (feed\<lparr> ParsingErrorCount := ParsingErrorCount feed + 1,
                                              ParsingErrorMsg := msg \<rparr>) c r
              else r) (feeds (store w))"
  by (simp add: persist_failure_eq UpdateFeed_ok[where c = c])

lemma new_events_append [simp]:
  "trace w' = trace w @ evs \<Longrightarrow> new_events w w' = evs"
  by (simp add: new_events_def)

lemma new_events_persist_failure:
  "new_events w (snd (persist_failure env (w\<lparr> trace := trace w @ evs \<rparr>) feed msg)) =
     evs @ [UpdateFeed_call (feed\<lparr> ParsingErrorCount := ParsingErrorCount feed + 1,
                                     ParsingErrorMsg := msg \<rparr>)]"
  by (simp add: new_events_def persist_failure_trace)

lemma loaded_feed_row:
  assumes "loaded_feed env w userID feedID = Inr (Some f)"
  shows "\<exists>row \<in> set (feeds (store w)).
           feeds_id row = feedID \<and> feeds_user_id row = userID
           \<and> ID f = feedID \<and> UserID f = userID \<and> Crawler f = feeds_crawler row
           \<and> ParsingErrorCount f = feeds_parsing_error_count row
           \<and> ParsingErrorMsg f = feeds_parsing_error_msg row"
proof -
  from assms obtain row where
    f: "find (\<lambda>r. feeds_user_id r = userID \<and> feeds_id r = feedID) (feeds (store w)) = Some row"
    and c: "ID f = feeds_id row \<and> UserID f = feeds_user_id row \<and> Crawler f = feeds_crawler row
           \<and> ParsingErrorCount f = feeds_parsing_error_count row
           \<and> ParsingErrorMsg f = feeds_parsing_error_msg row"
    by (auto simp: loaded_feed_def FeedByID_def Let_def split: option.splits)
  from f have "row \<in> set (feeds (store w))" "feeds_user_id row = userID \<and> feeds_id row = feedID"
    by (auto simp: find_Some_iff)
  with c show ?thesis by auto
qed

lemma RefreshFeed_response_not_found:
  assumes "IsNotFound env r" and "Category f = Some c"
  shows "RefreshFeed_response env w userID lang f r =
     (Return (Some (Localized (NewLocalizedError errResourceNotFound []))),
      snd (persist_failure env w (f\<lparr> CheckedAt := time_Now env (trace w) \<rparr>)
        (Localize env (NewLocalizedError errResourceNotFound []) lang)))"
  using assms
  by (simp add: RefreshFeed_response_def Let_def persist_failure_then_return[where c = c])

lemma RefreshFeed_response_server_failure:
  assumes "\<not> IsNotFound env r" and "HasServerFailure env r" and "Category f = Some c"
  shows "RefreshFeed_response env w userID lang f r =
     (Return (Some (Localized (NewLocalizedError errServerFailure [ArgInt (StatusCode r)]))),
      snd (persist_failure env w (f\<lparr> CheckedAt := time_Now env (trace w) \<rparr>)
        (Localize env (NewLocalizedError errServerFailure [ArgInt (StatusCode r)]) lang)))"
  using assms
  by (simp add: RefreshFeed_response_def Let_def persist_failure_then_return[where c = c])

lemma RefreshFeed_response_modified:
  assumes "\<not> IsNotFound env r" and "\<not> HasServerFailure env r"
      and "IsModified env r (EtagHeader f) (LastModifiedHeader f)"
  shows "RefreshFeed_response env w userID lang f r =
     (case RefreshFeed_modified env w userID lang (f\<lparr> CheckedAt := time_Now env (trace w) \<rparr>) r of
        (Panic p, w1) \<Rightarrow> (Panic p, w1)
      | (Return (Inl ret), w1) \<Rightarrow> (Return ret, w1)
      | (Return (Inr feed), w1) \<Rightarrow> RefreshFeed_finish env w1 feed)"
  using assms
  by (simp add: RefreshFeed_response_def Let_def split: prod.splits sum.splits outcome.splits)

lemma RefreshFeed_modified_empty:
  assumes "ContentLength r = 0" and "Category f = Some c"
  shows "RefreshFeed_modified env w userID lang f r =
     (Return (Inl (Some (Localized (NewLocalizedError errEmptyFeed [])))),
      snd (persist_failure env w f (Localize env (NewLocalizedError errEmptyFeed []) lang)))"
  using assms
  by (simp add: RefreshFeed_modified_def Let_def persist_failure_then_return[where c = c])

lemma RefreshFeed_modified_encoding:
  assumes "ContentLength r \<noteq> 0" and "NormalizeBodyEncoding env r = Inl e"
  shows "RefreshFeed_modified env w userID lang f r =
     (Return (Inl (Some (Localized (NewLocalizedError errEncoding [ArgError e])))), w)"
  using assms by (simp add: RefreshFeed_modified_def Let_def)

lemma RefreshFeed_modified_parse_failure:
  assumes "ContentLength r \<noteq> 0" and "NormalizeBodyEncoding env r = Inr body"
      and "parseFeed env body = Inl parseErr" and "Category f = Some c"
  shows "RefreshFeed_modified env w userID lang f r =
     (Return (Inl None),
      snd (persist_failure env (emit (parseFeed_call body) w) f (Localize env parseErr lang)))"
  using assms
  by (simp add: RefreshFeed_modified_def parseFeed_at_def Let_def
        persist_failure_then_return[where c = c])

lemma UpdateEntries_trace [simp]:
  "trace (snd (UpdateEntries env w u fid es b)) = trace w @ [UpdateEntries_call u fid es b]"
  by (simp add: UpdateEntries_def Let_def split: prod.splits)

lemma snd_HasIcon [simp]: "snd (HasIcon env w fid) = emit (HasIcon_call fid) w"
  by (simp add: HasIcon_def)

lemma snd_FindIcon [simp]: "snd (FindIcon env w u) = emit (FindIcon_call u) w"
  by (simp add: FindIcon_def)

lemma CreateFeedIcon_trace [simp]:
  "trace (snd (CreateFeedIcon env w feed ic)) = trace w @ [CreateFeedIcon_call feed ic]"
  by (simp add: CreateFeedIcon_def Let_def split: prod.splits)

text \<open>
  A refresh that has parsed the document runs the pipeline, makes the merge call,
  and after it only looks for an icon.
\<close>

lemma RefreshFeed_modified_parsed:
  assumes "ContentLength r \<noteq> 0" and "NormalizeBodyEncoding env r = Inr body"
      and "parseFeed env body = Inr subscription"
  shows "\<exists>evs rest.
     trace (snd (RefreshFeed_modified env w userID lang f r)) =
       trace w @ parseFeed_call body # evs @
         UpdateEntries_call (UserID f) (ID f)
           (Entries (FeedProcessor_feed
              (fst (Process env (refresh_processor userID f subscription)
                      (emit (parseFeed_call body) w)))))
           (\<not> Crawler f) # rest
     \<and> (\<forall>e \<in> set evs. is_pipeline_call e)
     \<and> (\<forall>e \<in> set rest. \<not> is_UpdateEntries_call e \<and> \<not> is_UpdateFeed_call e)"
proof -
  let ?w1 = "emit (parseFeed_call body) w"
  let ?fp = "refresh_processor userID f subscription"
  obtain fp1 w2 where P: "Process env ?fp ?w1 = (fp1, w2)" by (cases "Process env ?fp ?w1")
  obtain evs where evs: "trace w2 = trace ?w1 @ evs" "\<forall>e \<in> set evs. is_pipeline_call e"
    using Process_summary[of env ?fp ?w1] P by auto
  let ?feed1 = "f\<lparr> EtagHeader := ETag r, LastModifiedHeader := LastModified r \<rparr>"
  let ?ue = "UpdateEntries_call (UserID f) (ID f) (Entries (FeedProcessor_feed fp1)) (\<not> Crawler f)"
  obtain uerr w3 where U: "UpdateEntries env w2 (UserID f) (ID f) (Entries (FeedProcessor_feed fp1))
                              (\<not> Crawler f) = (uerr, w3)"
    by (cases "UpdateEntries env w2 (UserID f) (ID f) (Entries (FeedProcessor_feed fp1)) (\<not> Crawler f)")
  have w3: "trace w3 = trace w2 @ [?ue]"
    using arg_cong[OF U, of "\<lambda>x. trace (snd x)"] by simp
  have M: "RefreshFeed_modified env w userID lang f r =
     (case uerr of
        Some e \<Rightarrow> (Return (Inl (Some e)), w3)
      | None \<Rightarrow>
          (let (has, w4) = HasIcon env w3 (ID ?feed1)
           in if \<not> has then
                (let (found, w5) = FindIcon env w4 (SiteURL ?feed1)
                 in case found of
                      Inl e \<Rightarrow> (Return (Inr ?feed1), w5)
                    | Inr ic \<Rightarrow>
                        (let (_, w6) = CreateFeedIcon env w5 ?feed1 ic in (Return (Inr ?feed1), w6)))
              else (Return (Inr ?feed1), w4)))"
    using assms P U
    by (simp add: RefreshFeed_modified_def parseFeed_at_def Let_def refresh_processor_def)
  have "\<exists>rest. trace (snd (RefreshFeed_modified env w userID lang f r)) = trace w3 @ rest
          \<and> (\<forall>e \<in> set rest. \<not> is_UpdateEntries_call e \<and> \<not> is_UpdateFeed_call e)"
  proof (cases uerr)
    case (Some e)
    then show ?thesis by (simp add: M)
  next
    case None
    obtain has w4 where H: "HasIcon env w3 (ID ?feed1) = (has, w4)"
      by (cases "HasIcon env w3 (ID ?feed1)")
    have w4: "w4 = emit (HasIcon_call (ID f)) w3"
      using arg_cong[OF H, of snd] by simp
    show ?thesis
    proof (cases has)
      case True
      then show ?thesis using None H w4 by (simp add: M)
    next
      case False
      obtain found w5 where F: "FindIcon env w4 (SiteURL ?feed1) = (found, w5)"
        by (cases "FindIcon env w4 (SiteURL ?feed1)")
      have w5: "w5 = emit (FindIcon_call (SiteURL f)) w4"
        using arg_cong[OF F, of snd] by simp
      show ?thesis
      proof (cases found)
        case (Inl e)
        then show ?thesis using None H False F w4 w5 by (simp add: M)
      next
        case (Inr ic)
        obtain x w6 where C: "CreateFeedIcon env w5 ?feed1 ic = (x, w6)"
          by (cases "CreateFeedIcon env w5 ?feed1 ic")
        have w6: "trace w6 = trace w5 @ [CreateFeedIcon_call ?feed1 ic]"
          using arg_cong[OF C, of "\<lambda>x. trace (snd x)"] by simp
        show ?thesis using None H False F Inr C w4 w5 w6 by (simp add: M)
      qed
    qed
  qed
  then obtain rest where rest: "trace (snd (RefreshFeed_modified env w userID lang f r)) = trace w3 @ rest"
      "\<forall>e \<in> set rest. \<not> is_UpdateEntries_call e \<and> \<not> is_UpdateFeed_call e" by blast
  have "fp1 = fst (Process env ?fp ?w1)" using P by simp
  then show ?thesis
    using rest w3 evs by (intro exI[of _ evs] exI[of _ rest]) simp
qed

text \<open>
  What the block returns once the document has parsed depends on the merge call
  alone: its error, or the feed with the new caching tokens. The pipeline does not
  write to storage, so the merge runs on the store as it was.
\<close>

lemma RefreshFeed_modified_parsed_block:
  assumes "ContentLength r \<noteq> 0" and "NormalizeBodyEncoding env r = Inr body"
      and "parseFeed env body = Inr subscription"
  shows "fst (RefreshFeed_modified env w userID lang f r) =
     (case fst (store_UpdateEntries env (store w) (UserID f) (ID f)
                  (Entries (FeedProcessor_feed
                     (fst (Process env (refresh_processor userID f subscription)
                             (emit (parseFeed_call body) w)))))
                  (\<not> Crawler f)) of
        Some e \<Rightarrow> Return (Inl (Some e))
      | None \<Rightarrow> Return (Inr (f\<lparr> EtagHeader := ETag r, LastModifiedHeader := LastModified r \<rparr>)))"
proof -
  let ?w1 = "emit (parseFeed_call body) w"
  let ?fp = "refresh_processor userID f subscription"
  obtain fp1 w2 where P: "Process env ?fp ?w1 = (fp1, w2)" by (cases "Process env ?fp ?w1")
  have st: "store w2 = store w"
    using Process_summary[of env ?fp ?w1] P by auto
  obtain uerr s where S: "store_UpdateEntries env (store w) (UserID f) (ID f)
                            (Entries (FeedProcessor_feed fp1)) (\<not> Crawler f) = (uerr, s)"
    by (cases "store_UpdateEntries env (store w) (UserID f) (ID f)
                 (Entries (FeedProcessor_feed fp1)) (\<not> Crawler f)")
  show ?thesis
    using assms P S st
    by (simp add: RefreshFeed_modified_def parseFeed_at_def Let_def refresh_processor_def
          UpdateEntries_def split: prod.splits option.splits sum.splits)
qed

lemma RefreshFeed_modified_merge_failure:
  assumes "ContentLength r \<noteq> 0" and "NormalizeBodyEncoding env r = Inr body"
      and "parseFeed env body = Inr subscription"
      and "fst (store_UpdateEntries env (store w) (UserID f) (ID f)
                  (Entries (FeedProcessor_feed
                     (fst (Process env (refresh_processor userID f subscription)
                             (emit (parseFeed_call body) w)))))
                  (\<not> Crawler f)) = Some e"
  shows "fst (RefreshFeed_modified env w userID lang f r) = Return (Inl (Some e))
     \<and> store (snd (RefreshFeed_modified env w userID lang f r)) =
         snd (store_UpdateEntries env (store w) (UserID f) (ID f)
                (Entries (FeedProcessor_feed
                   (fst (Process env (refresh_processor userID f subscription)
                           (emit (parseFeed_call body) w)))))
                (\<not> Crawler f))
     \<and> (\<exists>evs. trace (snd (RefreshFeed_modified env w userID lang f r)) =
                 trace w @ parseFeed_call body # evs @
                   [UpdateEntries_call (UserID f) (ID f)
                      (Entries (FeedProcessor_feed
                         (fst (Process env (refresh_processor userID f subscription)
                                 (emit (parseFeed_call body) w)))))
                      (\<not> Crawler f)]
               \<and> (\<forall>e \<in> set evs. is_pipeline_call e))"
proof -
  let ?w1 = "emit (parseFeed_call body) w"
  let ?fp = "refresh_processor userID f subscription"
  obtain fp1 w2 where P: "Process env ?fp ?w1 = (fp1, w2)" by (cases "Process env ?fp ?w1")
  obtain evs where evs: "trace w2 = trace w @ parseFeed_call body # evs"
      "\<forall>e \<in> set evs. is_pipeline_call e" and st: "store w2 = store w"
    using Process_summary[of env ?fp ?w1] P by auto
  obtain s where S: "store_UpdateEntries env (store w) (UserID f) (ID f)
                       (Entries (FeedProcessor_feed fp1)) (\<not> Crawler f) = (Some e, s)"
    using assms(4) P
    by (cases "store_UpdateEntries env (store w) (UserID f) (ID f)
                 (Entries (FeedProcessor_feed fp1)) (\<not> Crawler f)") simp
  have M: "RefreshFeed_modified env w userID lang f r =
             (Return (Inl (Some e)),
              emit (UpdateEntries_call (UserID f) (ID f) (Entries (FeedProcessor_feed fp1))
                      (\<not> Crawler f)) (w2\<lparr> store := s \<rparr>))"
    using assms(1-3) P S st
    by (simp add: RefreshFeed_modified_def parseFeed_at_def Let_def refresh_processor_def
          UpdateEntries_def)
  show ?thesis
    using P S evs by (simp add: M)
qed

text \<open>The failure paths, each as one equation.\<close>

lemma RefreshFeed_transport_failure:
  assumes loaded: "loaded_feed env w userID feedID = Inr (Some f)"
      and g: "client_Get env (trace w @ [UserLanguage_call userID, FeedByID_call userID feedID])
                (refresh_client f) = Inl err"
      and e: "e = (case err of Localized lerr \<Rightarrow> lerr
                   | Plain m \<Rightarrow> NewLocalizedError errRequestFailed [ArgError err])"
  shows "RefreshFeed env w userID feedID =
     (Return (Some (Localized e)),
      snd (persist_failure env (w\<lparr> trace := trace w @ refresh_prefix userID feedID f \<rparr>) f
        (Localize env e (refresh_language env w userID))))"
  using RefreshFeed_loaded[OF loaded] g e by (simp add: Let_def)

lemma RefreshFeed_not_found:
  assumes loaded: "loaded_feed env w userID feedID = Inr (Some f)"
      and g: "client_Get env (trace w @ [UserLanguage_call userID, FeedByID_call userID feedID])
                (refresh_client f) = Inr r"
      and nf: "IsNotFound env r"
  shows "RefreshFeed env w userID feedID =
     (Return (Some (Localized (NewLocalizedError errResourceNotFound []))),
      snd (persist_failure env (w\<lparr> trace := trace w @ refresh_prefix userID feedID f \<rparr>)
        (f\<lparr> CheckedAt := time_Now env (trace w @ refresh_prefix userID feedID f) \<rparr>)
        (Localize env (NewLocalizedError errResourceNotFound []) (refresh_language env w userID))))"
  using RefreshFeed_loaded[OF loaded] g loaded_feed_category[OF loaded]
  by (auto simp: RefreshFeed_response_not_found[OF nf])

lemma RefreshFeed_server_failure:
  assumes loaded: "loaded_feed env w userID feedID = Inr (Some f)"
      and g: "client_Get env (trace w @ [UserLanguage_call userID, FeedByID_call userID feedID])
                (refresh_client f) = Inr r"
      and sf: "\<not> IsNotFound env r" "HasServerFailure env r"
  shows "RefreshFeed env w userID feedID =
     (Return (Some (Localized (NewLocalizedError errServerFailure [ArgInt (StatusCode r)]))),
      snd (persist_failure env (w\<lparr> trace := trace w @ refresh_prefix userID feedID f \<rparr>)
        (f\<lparr> CheckedAt := time_Now env (trace w @ refresh_prefix userID feedID f) \<rparr>)
        (Localize env (NewLocalizedError errServerFailure [ArgInt (StatusCode r)])
           (refresh_language env w userID))))"
  using RefreshFeed_loaded[OF loaded] g loaded_feed_category[OF loaded]
  by (auto simp: RefreshFeed_response_server_failure[OF sf])

lemma RefreshFeed_empty_body:
  assumes loaded: "loaded_feed env w userID feedID = Inr (Some f)"
      and g: "client_Get env (trace w @ [UserLanguage_call userID, FeedByID_call userID feedID])
                (refresh_client f) = Inr r"
      and ok: "\<not> IsNotFound env r" "\<not> HasServerFailure env r"
      and modified: "IsModified env r (EtagHeader f) (LastModifiedHeader f)"
      and len: "ContentLength r = 0"
  shows "RefreshFeed env w userID feedID =
     (Return (Some (Localized (NewLocalizedError errEmptyFeed []))),
      snd (persist_failure env (w\<lparr> trace := trace w @ refresh_prefix userID feedID f \<rparr>)
        (f\<lparr> CheckedAt := time_Now env (trace w @ refresh_prefix userID feedID f) \<rparr>)
        (Localize env (NewLocalizedError errEmptyFeed []) (refresh_language env w userID))))"
proof -
  obtain c where c: "Category (f\<lparr> CheckedAt := time_Now env (trace w @ refresh_prefix userID feedID f) \<rparr>)
                       = Some c"
    using loaded_feed_category[OF loaded] by auto
  show ?thesis
    using RefreshFeed_loaded[OF loaded] g RefreshFeed_response_modified[OF ok modified]
          RefreshFeed_modified_empty[OF len c]
    by simp
qed

lemma RefreshFeed_parse_failure:
  assumes loaded: "loaded_feed env w userID feedID = Inr (Some f)"
      and got: "client_Get env (trace w @ [UserLanguage_call userID, FeedByID_call userID feedID])
                  (refresh_client f) = Inr r"
      and ok: "\<not> IsNotFound env r" "\<not> HasServerFailure env r"
      and modified: "IsModified env r (EtagHeader f) (LastModifiedHeader f)"
      and len: "ContentLength r \<noteq> 0"
      and body: "NormalizeBodyEncoding env r = Inr body"
      and failed: "parseFeed env body = Inl parseErr"
  shows "fst (RefreshFeed env w userID feedID) = Return None
         \<and> new_events w (snd (RefreshFeed env w userID feedID)) =
             refresh_prefix userID feedID f @
               [parseFeed_call body,
                UpdateFeed_call
                  (f\<lparr> CheckedAt := time_Now env (trace w @ refresh_prefix userID feedID f),
                      ParsingErrorCount := ParsingErrorCount f + 1,
                      ParsingErrorMsg := Localize env parseErr (refresh_language env w userID) \<rparr>)]"
proof -
  let ?w3 = "w\<lparr> trace := trace w @ refresh_prefix userID feedID f \<rparr>"
  obtain c where c: "Category (f\<lparr> CheckedAt := time_Now env (trace ?w3) \<rparr>) = Some c"
    using loaded_feed_category[OF loaded] by auto
  have run: "RefreshFeed env w userID feedID =
           (Return None, snd (persist_failure env (emit (parseFeed_call body) ?w3)
                    (f\<lparr> CheckedAt := time_Now env (trace ?w3) \<rparr>)
                    (Localize env parseErr (refresh_language env w userID))))"
    using RefreshFeed_loaded[OF loaded] got RefreshFeed_response_modified[OF ok modified]
          RefreshFeed_modified_parse_failure[OF len body failed c]
    by simp
  show ?thesis
    by (simp add: run new_events_def persist_failure_trace)
qed

lemma example_language: "store_UserLanguage env = store_UserLanguage example_env \<Longrightarrow>
   locale_GetLanguage env = (\<lambda>l. l) \<Longrightarrow> refresh_language env example_world 1 = ''en_US''"
  by (simp add: refresh_language_def example_env_def example_world_def)

lemma example_loaded_env:
  "loaded_feed unreachable_env example_world 1 1 = Inr (Some example_feed)"
  "loaded_feed parse_failure_env example_world 1 1 = Inr (Some example_feed)"
  "loaded_feed example_env example_world 1 1 = Inr (Some example_feed)"
  by (rule example_loaded; simp add: unreachable_env_def parse_failure_env_def example_env_def)+

lemma example_loaded_bad_encoding:
  "loaded_feed bad_encoding_env example_world 1 1 = Inr (Some example_feed)"
  by (rule example_loaded; simp add: bad_encoding_env_def example_env_def)

lemma example_loaded_merge_failure:
  "loaded_feed merge_failure_env example_world 1 1 = Inr (Some example_feed)"
  by (rule example_loaded; simp add: merge_failure_env_def example_env_def)


text \<open>
  A storage error of the entry merge: \<open>RefreshFeed\<close> returns it at once. No
  \<open>UpdateFeed\<close> call is made, and storage is what the failed merge left.
\<close>

lemma RefreshFeed_merge_failure:
  assumes loaded: "loaded_feed env w userID feedID = Inr (Some f)"
      and got: "client_Get env (trace w @ [UserLanguage_call userID, FeedByID_call userID feedID])
                  (refresh_client f) = Inr r"
      and ok: "\<not> IsNotFound env r" "\<not> HasServerFailure env r"
      and modified: "IsModified env r (EtagHeader f) (LastModifiedHeader f)"
      and len: "ContentLength r \<noteq> 0"
      and body: "NormalizeBodyEncoding env r = Inr body"
      and parsed: "parseFeed env body = Inr subscription"
      and failure:
        "fst (store_UpdateEntries env (store w) userID feedID
                (Entries (FeedProcessor_feed
                   (fst (Process env (refresh_processor userID f subscription)
                           (w\<lparr> trace := trace w @ refresh_prefix userID feedID f
                                            @ [parseFeed_call body] \<rparr>)))))
                (\<not> Crawler f)) = Some e"
  shows "fst (RefreshFeed env w userID feedID) = Return (Some e)
     \<and> filter is_UpdateFeed_call (new_events w (snd (RefreshFeed env w userID feedID))) = []
     \<and> store (snd (RefreshFeed env w userID feedID)) =
         snd (store_UpdateEntries env (store w) userID feedID
                (Entries (FeedProcessor_feed
                   (fst (Process env (refresh_processor userID f subscription)
                           (w\<lparr> trace := trace w @ refresh_prefix userID feedID f
                                            @ [parseFeed_call body] \<rparr>)))))
                (\<not> Crawler f))"
proof -
  let ?w3 = "w\<lparr> trace := trace w @ refresh_prefix userID feedID f \<rparr>"
  let ?f1 = "f\<lparr> CheckedAt := time_Now env (trace ?w3) \<rparr>"
  let ?L = "refresh_language env w userID"
  let ?M = "RefreshFeed_modified env ?w3 userID ?L ?f1 r"
  have ids: "ID f = feedID" "UserID f = userID"
    using loaded_feed_row[OF loaded] by auto
  have proc: "refresh_processor userID (f\<lparr> CheckedAt := t \<rparr>) subscription
                = refresh_processor userID f subscription" for t
    by (simp add: refresh_processor_def)
  have w4: "emit (parseFeed_call body) ?w3 =
              w\<lparr> trace := trace w @ refresh_prefix userID feedID f @ [parseFeed_call body] \<rparr>"
    by (simp add: emit_def)
  have failure': "fst (store_UpdateEntries env (store ?w3) (UserID ?f1) (ID ?f1)
                  (Entries (FeedProcessor_feed
                     (fst (Process env (refresh_processor userID ?f1 subscription)
                             (emit (parseFeed_call body) ?w3)))))
                  (\<not> Crawler ?f1)) = Some e"
    using failure by (simp add: proc w4 ids)
  note F = RefreshFeed_modified_merge_failure[OF len body parsed failure', of ?L]
  obtain evs where
    M1: "fst ?M = Return (Inl (Some e))"
    and M2: "store (snd ?M) =
         snd (store_UpdateEntries env (store ?w3) (UserID ?f1) (ID ?f1)
                (Entries (FeedProcessor_feed
                   (fst (Process env (refresh_processor userID ?f1 subscription)
                           (emit (parseFeed_call body) ?w3)))))
                (\<not> Crawler ?f1))"
    and M3: "trace (snd ?M) =
                 trace ?w3 @ parseFeed_call body # evs @
                   [UpdateEntries_call (UserID ?f1) (ID ?f1)
                      (Entries (FeedProcessor_feed
                         (fst (Process env (refresh_processor userID ?f1 subscription)
                                 (emit (parseFeed_call body) ?w3)))))
                      (\<not> Crawler ?f1)]"
    and evs: "\<forall>e \<in> set evs. is_pipeline_call e"
    using F by blast
  have run: "RefreshFeed env w userID feedID = (Return (Some e), snd ?M)"
    using RefreshFeed_loaded[OF loaded] got RefreshFeed_response_modified[OF ok modified] M1
    by (cases ?M) simp
  have no: "filter is_UpdateFeed_call evs = []"
    using evs pipeline_call_not_update by (auto simp: filter_empty_conv)
  have 1: "fst (RefreshFeed env w userID feedID) = Return (Some e)"
    by (simp add: run)
  have "\<exists>ue. new_events w (snd (RefreshFeed env w userID feedID)) =
          refresh_prefix userID feedID f @ parseFeed_call body # evs @ [ue]
          \<and> \<not> is_UpdateFeed_call ue"
    using M3 by (simp add: run new_events_def)
  then have 2: "filter is_UpdateFeed_call (new_events w (snd (RefreshFeed env w userID feedID))) = []"
    using no by (auto simp: refresh_prefix_def)
  have 3: "store (snd (RefreshFeed env w userID feedID)) =
         snd (store_UpdateEntries env (store w) userID feedID
                (Entries (FeedProcessor_feed
                   (fst (Process env (refresh_processor userID f subscription)
                           (w\<lparr> trace := trace w @ refresh_prefix userID feedID f
                                            @ [parseFeed_call body] \<rparr>)))))
                (\<not> Crawler f))"
    using M2 by (simp add: run proc w4 ids)
  show ?thesis using 1 2 3 by simp
qed

text \<open>
  A refresh that gets past the fetch and the document ends with the one
  \<open>UpdateFeed\<close> call of lines 299 to 306, on a feed whose error state is reset.
\<close>

lemma RefreshFeed_reaches_the_end:
  assumes loaded: "loaded_feed env w userID feedID = Inr (Some f)"
      and got: "client_Get env (trace w @ [UserLanguage_call userID, FeedByID_call userID feedID])
                  (refresh_client f) = Inr r"
      and ok: "\<not> IsNotFound env r" "\<not> HasServerFailure env r"
      and path: "\<not> IsModified env r (EtagHeader f) (LastModifiedHeader f)
                 \<or> ContentLength r \<noteq> 0 \<and> NormalizeBodyEncoding env r = Inr body
                    \<and> parseFeed env body = Inr subscription
                    \<and> fst (store_UpdateEntries env (store w) userID feedID
                          (Entries (FeedProcessor_feed
                             (fst (Process env (refresh_processor userID f subscription)
                                     (w\<lparr> trace := trace w @ refresh_prefix userID feedID f
                                                      @ [parseFeed_call body] \<rparr>)))))
                          (\<not> Crawler f)) = None"
  shows "\<exists>feed. filter is_UpdateFeed_call (new_events w (snd (RefreshFeed env w userID feedID)))
                  = [UpdateFeed_call feed]
             \<and> ParsingErrorCount feed = 0 \<and> ParsingErrorMsg feed = []"
proof (cases "IsModified env r (EtagHeader f) (LastModifiedHeader f)")
  case False
  have "RefreshFeed env w userID feedID =
          RefreshFeed_finish env (w\<lparr> trace := trace w @ refresh_prefix userID feedID f \<rparr>)
            (f\<lparr> CheckedAt := time_Now env (trace w @ refresh_prefix userID feedID f) \<rparr>)"
    using RefreshFeed_loaded[OF loaded] got RefreshFeed_response_not_modified[OF ok False]
    by simp
  then show ?thesis
    by (simp add: RefreshFeed_finish_eq new_events_def refresh_prefix_def)
next
  case modified: True
  with path have len: "ContentLength r \<noteq> 0" and body: "NormalizeBodyEncoding env r = Inr body"
    and parsed: "parseFeed env body = Inr subscription"
    and merged: "fst (store_UpdateEntries env (store w) userID feedID
                          (Entries (FeedProcessor_feed
                             (fst (Process env (refresh_processor userID f subscription)
                                     (w\<lparr> trace := trace w @ refresh_prefix userID feedID f
                                                      @ [parseFeed_call body] \<rparr>)))))
                          (\<not> Crawler f)) = None"
    by simp_all
  let ?w3 = "w\<lparr> trace := trace w @ refresh_prefix userID feedID f \<rparr>"
  let ?f1 = "f\<lparr> CheckedAt := time_Now env (trace ?w3) \<rparr>"
  let ?L = "refresh_language env w userID"
  let ?M = "RefreshFeed_modified env ?w3 userID ?L ?f1 r"
  have ids: "ID f = feedID" "UserID f = userID"
    using loaded_feed_row[OF loaded] by auto
  have proc: "refresh_processor userID (f\<lparr> CheckedAt := t \<rparr>) subscription
                = refresh_processor userID f subscription" for t
    by (simp add: refresh_processor_def)
  have w4: "emit (parseFeed_call body) ?w3 =
              w\<lparr> trace := trace w @ refresh_prefix userID feedID f @ [parseFeed_call body] \<rparr>"
    by (simp add: emit_def)
  have block: "fst ?M = Return (Inr (?f1\<lparr> EtagHeader := ETag r, LastModifiedHeader := LastModified r \<rparr>))"
    using RefreshFeed_modified_parsed_block[OF len body parsed, of ?w3 userID ?L ?f1] merged
    by (simp add: proc w4 ids)
  obtain evs rest where
    M: "trace (snd ?M) =
          trace ?w3 @ parseFeed_call body # evs @
            UpdateEntries_call (UserID ?f1) (ID ?f1)
              (Entries (FeedProcessor_feed
                 (fst (Process env (refresh_processor userID ?f1 subscription)
                         (emit (parseFeed_call body) ?w3)))))
              (\<not> Crawler ?f1) # rest"
    and evs: "\<forall>e \<in> set evs. is_pipeline_call e"
    and rest: "\<forall>e \<in> set rest. \<not> is_UpdateEntries_call e \<and> \<not> is_UpdateFeed_call e"
    using RefreshFeed_modified_parsed[OF len body parsed, of ?w3 userID ?L ?f1] by blast
  have run: "RefreshFeed env w userID feedID =
               RefreshFeed_finish env (snd ?M)
                 (?f1\<lparr> EtagHeader := ETag r, LastModifiedHeader := LastModified r \<rparr>)"
    using RefreshFeed_loaded[OF loaded] got RefreshFeed_response_modified[OF ok modified] block
    by (cases ?M) simp
  have no: "filter is_UpdateFeed_call evs = []" "filter is_UpdateFeed_call rest = []"
    using evs rest pipeline_call_not_update by (auto simp: filter_empty_conv)
  have "\<exists>ue feed. new_events w (snd (RefreshFeed env w userID feedID)) =
          refresh_prefix userID feedID f @ parseFeed_call body # evs @ ue # rest @ [UpdateFeed_call feed]
          \<and> \<not> is_UpdateFeed_call ue \<and> ParsingErrorCount feed = 0 \<and> ParsingErrorMsg feed = []"
    using M by (simp add: run RefreshFeed_finish_eq new_events_def)
  then show ?thesis
    using no by (auto simp: refresh_prefix_def)
qed
subsection \<open>The merge call\<close>

text \<open>
  The merge modelled from the spec, asked not to update existing entries, keeps
  what is stored and only appends.
\<close>

lemma example_merge_keeps_stored:
  "\<exists>added. example_merge userID feedID False stored es = stored @ added"
proof (induction es arbitrary: stored)
  case Nil
  then show ?case by simp
next
  case (Cons e es)
  let ?e1 = "e\<lparr> Entry_UserID := userID, Entry_FeedID := feedID \<rparr>"
  show ?case
  proof (cases "list_ex (\<lambda>x. Entry_UserID x = userID \<and> Entry_URL x = Entry_URL ?e1) stored")
    case True
    then have "example_merge userID feedID False stored (e # es) =
                 example_merge userID feedID False stored es"
      by (simp add: Let_def)
    then show ?thesis using Cons.IH[of stored] by simp
  next
    case False
    then have "example_merge userID feedID False stored (e # es) =
                 example_merge userID feedID False (stored @ [?e1]) es"
      by (simp add: Let_def)
    moreover obtain added where
      "example_merge userID feedID False (stored @ [?e1]) es = (stored @ [?e1]) @ added"
      using Cons.IH[of "stored @ [?e1]"] by blast
    ultimately show ?thesis by simp
  qed
qed

text \<open>
  C4. The feed is loaded, the response is modified and not empty, and the document
  parses. Then the refresh makes exactly one call of \<open>UpdateEntries\<close>: for the feed's
  user and id, with the entries as the pipeline left them, and with the flag
  "update existing entries" equal to the negation of the loaded feed's \<open>Crawler\<close>,
  which is the column \<open>crawler\<close> of the feed's row. With the crawler enabled the
  flag is false: storage is asked not to touch the entries it already has.
\<close>

theorem RefreshFeed_merge_flag:
  assumes loaded: "loaded_feed env w userID feedID = Inr (Some f)"
      and got: "client_Get env (trace w @ [UserLanguage_call userID, FeedByID_call userID feedID])
                  (refresh_client f) = Inr r"
      and ok: "\<not> IsNotFound env r" "\<not> HasServerFailure env r"
      and modified: "IsModified env r (EtagHeader f) (LastModifiedHeader f)"
      and len: "ContentLength r \<noteq> 0"
      and body: "NormalizeBodyEncoding env r = Inr body"
      and parsed: "parseFeed env body = Inr subscription"
  shows "filter is_UpdateEntries_call (new_events w (snd (RefreshFeed env w userID feedID))) =
           [UpdateEntries_call userID feedID
              (Entries (FeedProcessor_feed
                 (fst (Process env (refresh_processor userID f subscription)
                         (w\<lparr> trace := trace w @ refresh_prefix userID feedID f
                                          @ [parseFeed_call body] \<rparr>)))))
              (\<not> Crawler f)]
         \<and> (\<exists>row \<in> set (feeds (store w)).
               feeds_id row = feedID \<and> feeds_user_id row = userID
               \<and> Crawler f = feeds_crawler row)"
proof -
  let ?w3 = "w\<lparr> trace := trace w @ refresh_prefix userID feedID f \<rparr>"
  let ?f1 = "f\<lparr> CheckedAt := time_Now env (trace ?w3) \<rparr>"
  let ?L = "refresh_language env w userID"
  let ?M = "RefreshFeed_modified env ?w3 userID ?L ?f1 r"
  have ids: "ID f = feedID" "UserID f = userID"
    using loaded_feed_row[OF loaded] by auto
  have proc: "refresh_processor userID (f\<lparr> CheckedAt := t \<rparr>) subscription
                = refresh_processor userID f subscription" for t
    by (simp add: refresh_processor_def)
  have w4: "emit (parseFeed_call body) ?w3 =
              w\<lparr> trace := trace w @ refresh_prefix userID feedID f @ [parseFeed_call body] \<rparr>"
    by (simp add: emit_def)
  obtain evs rest where
    M: "trace (snd ?M) =
          trace ?w3 @ parseFeed_call body # evs @
            UpdateEntries_call (UserID ?f1) (ID ?f1)
              (Entries (FeedProcessor_feed
                 (fst (Process env (refresh_processor userID ?f1 subscription)
                         (emit (parseFeed_call body) ?w3)))))
              (\<not> Crawler ?f1) # rest"
    and evs: "\<forall>e \<in> set evs. is_pipeline_call e"
    and rest: "\<forall>e \<in> set rest. \<not> is_UpdateEntries_call e \<and> \<not> is_UpdateFeed_call e"
    using RefreshFeed_modified_parsed[OF len body parsed, of ?w3 userID ?L ?f1] by blast
  have run: "RefreshFeed env w userID feedID =
               (case ?M of
                  (Panic p, w1) \<Rightarrow> (Panic p, w1)
                | (Return (Inl ret), w1) \<Rightarrow> (Return ret, w1)
                | (Return (Inr feed), w1) \<Rightarrow> RefreshFeed_finish env w1 feed)"
    using RefreshFeed_loaded[OF loaded] got RefreshFeed_response_modified[OF ok modified]
    by simp
  have "\<exists>tail. trace (snd (RefreshFeed env w userID feedID)) = trace (snd ?M) @ tail
          \<and> (\<forall>e \<in> set tail. \<not> is_UpdateEntries_call e)"
  proof (cases ?M)
    case (Pair outcome w1)
    show ?thesis
    proof (cases outcome)
      case (Return block)
      with Pair show ?thesis
        by (cases block) (simp_all add: run RefreshFeed_finish_eq)
    next
      case (Panic p)
      with Pair show ?thesis by (simp add: run)
    qed
  qed
  then obtain tail where tail:
    "trace (snd (RefreshFeed env w userID feedID)) = trace (snd ?M) @ tail"
    "\<forall>e \<in> set tail. \<not> is_UpdateEntries_call e" by blast
  have no: "filter is_UpdateEntries_call evs = []" "filter is_UpdateEntries_call rest = []"
           "filter is_UpdateEntries_call tail = []"
    using evs rest tail(2) pipeline_call_not_update by (auto simp: filter_empty_conv)
  have "new_events w (snd (RefreshFeed env w userID feedID)) =
          refresh_prefix userID feedID f @ parseFeed_call body # evs @
            UpdateEntries_call userID feedID
              (Entries (FeedProcessor_feed
                 (fst (Process env (refresh_processor userID f subscription)
                         (w\<lparr> trace := trace w @ refresh_prefix userID feedID f
                                          @ [parseFeed_call body] \<rparr>)))))
              (\<not> Crawler f) # rest @ tail"
    using tail(1) M by (simp add: new_events_def proc w4 ids)
  then show ?thesis
    using no loaded_feed_row[OF loaded] by (auto simp: refresh_prefix_def)
qed

text \<open>
  A refresh of the example feed (crawler enabled) that finds one known and one new
  entry; the merge is the one modelled from the spec. The stored entry keeps its
  content, the new one is inserted with the scraped, rewritten and sanitized content.
\<close>

lemma example_RefreshFeed:
  "filter is_UpdateEntries_call
     (new_events example_world (snd (RefreshFeed example_env example_world 1 1))) =
     [UpdateEntries_call 1 1
        [\<lparr> Entry_UserID = 0, Entry_FeedID = 0, Entry_URL = ''http://example.org/known'',
           Entry_Content = ''summary A+rewritten+sanitized'' \<rparr>,
         \<lparr> Entry_UserID = 0, Entry_FeedID = 0, Entry_URL = ''http://example.org/new'',
           Entry_Content = ''<img src=a>+rewritten+sanitized'' \<rparr>]
        False]
   \<and> entries (store (snd (RefreshFeed example_env example_world 1 1))) =
       [example_known_entry,
        \<lparr> Entry_UserID = 1, Entry_FeedID = 1, Entry_URL = ''http://example.org/new'',
          Entry_Content = ''<img src=a>+rewritten+sanitized'' \<rparr>]"
proof -
  let ?w3 = "example_world\<lparr> trace := trace example_world @ refresh_prefix 1 1 example_feed \<rparr>"
  let ?f1 = "example_feed\<lparr> CheckedAt := 1000 \<rparr>"
  have g: "client_Get example_env t (refresh_client example_feed) = Inr example_response" for t
    by (simp add: example_env_def refresh_client_def example_feed_def
          WithCacheHeaders_def WithCredentials_def client_New_def)
  have ok: "\<not> IsNotFound example_env example_response" "\<not> HasServerFailure example_env example_response"
    by (simp_all add: example_env_fields example_response_def)
  have modified: "IsModified example_env example_response (EtagHeader example_feed)
                    (LastModifiedHeader example_feed)"
    by (simp add: example_env_def example_response_def example_feed_def)
  have resp: "ContentLength example_response \<noteq> 0" "Body example_response = ''<rss>''"
     "ETag example_response = ''v2''" "LastModified example_response = ''Tue''"
    by (simp_all add: example_response_def)
  have proc: "refresh_processor 1 (example_feed\<lparr> CheckedAt := t \<rparr>) s
                = refresh_processor 1 example_feed s" for t s
    by (simp add: refresh_processor_def)
  have st: "entries (store (emit e ?w3)) = [example_known_entry]" for e
    by (simp add: example_world_def)
  have st0: "entries (store example_world) = [example_known_entry]"
    "feed_icons (store example_world) = [\<lparr> FeedIcon_FeedID = 1, FeedIcon_IconID = 7 \<rparr>]"
    by (simp_all add: example_world_def)
  have f: "UserID example_feed = 1" "ID example_feed = 1" "Crawler example_feed"
          "SiteURL example_feed \<noteq> []"
    by (simp_all add: example_feed_def)
  have es: "ScraperRules example_feed = ''article img''" "RewriteRules example_feed = []"
    "Cookies example_feed = (\<lambda>key. None)"
    by (simp_all add: example_feed_def)
  have M: "RefreshFeed_modified example_env ?w3 1 lang ?f1 example_response =
     (Return (Inr (?f1\<lparr> EtagHeader := ''v2'', LastModifiedHeader := ''Tue'' \<rparr>)),
      example_world\<lparr>
        store := (store example_world)\<lparr> entries :=
           [example_known_entry,
            \<lparr> Entry_UserID = 1, Entry_FeedID = 1, Entry_URL = ''http://example.org/new'',
              Entry_Content = ''<img src=a>+rewritten+sanitized'' \<rparr>] \<rparr>,
        trace := trace example_world @ refresh_prefix 1 1 example_feed @
           [parseFeed_call ''<rss>'',
            EntryURLExists_call 1 ''http://example.org/known'',
            Rewriter_call ''http://example.org/known'' ''summary A'' [],
            Sanitize_call ''http://example.org/known'' ''summary A+rewritten'',
            EntryURLExists_call 1 ''http://example.org/new'',
            Get_call (WithCookies (\<lambda>key. None) (client_New ''http://example.org/new'')),
            Rewriter_call ''http://example.org/new'' ''<img src=a>'' [],
            Sanitize_call ''http://example.org/new'' ''<img src=a>+rewritten'',
            UpdateEntries_call 1 1
              [\<lparr> Entry_UserID = 0, Entry_FeedID = 0, Entry_URL = ''http://example.org/known'',
                 Entry_Content = ''summary A+rewritten+sanitized'' \<rparr>,
               \<lparr> Entry_UserID = 0, Entry_FeedID = 0, Entry_URL = ''http://example.org/new'',
                 Entry_Content = ''<img src=a>+rewritten+sanitized'' \<rparr>]
              False,
            HasIcon_call 1] \<rparr>)" for lang
    unfolding RefreshFeed_modified_def
    by (simp add: resp example_env_fields parseFeed_at_def Let_def
          refresh_processor_def WithCrawler_def FeedProcessor_WithCookies_def
          WithRewriteRules_def WithScraperRules_def NewFeedProcessor_def
          Process_def example_subscription_def Process_entry_def EntryURLExists_def
          example_Fetch Rewriter_def Sanitize_def UpdateEntries_def HasIcon_def emit_def
          f es st0 example_known_entry_def)
  have run: "RefreshFeed example_env example_world 1 1 =
     (case RefreshFeed_modified example_env ?w3 1 (refresh_language example_env example_world 1)
             ?f1 example_response of
        (Panic p, w1) \<Rightarrow> (Panic p, w1)
      | (Return (Inl ret), w1) \<Rightarrow> (Return ret, w1)
      | (Return (Inr feed), w1) \<Rightarrow> RefreshFeed_finish example_env w1 feed)"
    using RefreshFeed_loaded[OF example_loaded_env(3)] g RefreshFeed_response_modified[OF ok modified]
    by (simp add: example_env_fields)
  show ?thesis
    by (simp add: run M RefreshFeed_finish_eq new_events_def) (simp add: refresh_prefix_def)
qed

theorem RefreshFeed_merge_flag_witness:
  "filter is_UpdateEntries_call
     (new_events example_world (snd (RefreshFeed example_env example_world 1 1))) =
     [UpdateEntries_call 1 1
        [\<lparr> Entry_UserID = 0, Entry_FeedID = 0, Entry_URL = ''http://example.org/known'',
           Entry_Content = ''summary A+rewritten+sanitized'' \<rparr>,
         \<lparr> Entry_UserID = 0, Entry_FeedID = 0, Entry_URL = ''http://example.org/new'',
           Entry_Content = ''<img src=a>+rewritten+sanitized'' \<rparr>]
        False]
   \<and> feeds_crawler example_row
   \<and> entries (store (snd (RefreshFeed example_env example_world 1 1))) =
       [example_known_entry,
        \<lparr> Entry_UserID = 1, Entry_FeedID = 1, Entry_URL = ''http://example.org/new'',
          Entry_Content = ''<img src=a>+rewritten+sanitized'' \<rparr>]"
proof -
  have g: "client_Get example_env (trace example_world @ [UserLanguage_call 1, FeedByID_call 1 1])
             (refresh_client example_feed) = Inr example_response"
    by (simp add: example_env_def refresh_client_def example_feed_def
          WithCacheHeaders_def WithCredentials_def client_New_def)
  have ok: "\<not> IsNotFound example_env example_response" "\<not> HasServerFailure example_env example_response"
    by (simp_all add: example_env_fields example_response_def)
  have modified: "IsModified example_env example_response (EtagHeader example_feed)
                    (LastModifiedHeader example_feed)"
    by (simp add: example_env_def example_response_def example_feed_def)
  have len: "ContentLength example_response \<noteq> 0"
    by (simp add: example_response_def)
  have body: "NormalizeBodyEncoding example_env example_response = Inr ''<rss>''"
    by (simp add: example_env_fields example_response_def)
  have parsed: "parseFeed example_env ''<rss>'' = Inr example_subscription"
    by (simp add: example_env_fields)
  show ?thesis
    using RefreshFeed_merge_flag[OF example_loaded_env(3) g ok modified len body parsed]
          example_RefreshFeed
    by (simp add: example_row_def)
qed

subsection \<open>A body whose encoding cannot be normalized\<close>

text \<open>
  C6. The claim is that the encoding failure is returned without persisting the
  feed row, unlike every sibling failure path of the refresh. What holds, the feed
  being loaded, over all paths of the refresh:
  \<^item> When the response is modified and not empty and \<open>NormalizeBodyEncoding\<close> fails,
    \<open>RefreshFeed\<close> returns the encoding error and the world is the one at the
    arrival of the response: storage is unchanged, there is no \<open>UpdateFeed\<close> call,
    so neither the count nor the message of the row is written.
  \<^item> Transport failure, 404, server failure, empty body and parse failure each
    make one \<open>UpdateFeed\<close> call, with the count increased by one.
  \<^item> An error of the entry merge (\<open>UpdateEntries\<close>, lines 282 to 284) is returned as
    it is, and like the encoding failure without any \<open>UpdateFeed\<close> call: storage is
    what the failed merge left.
  \<^item> Every other refresh (not modified, or parsed and merged) ends with the one
    \<open>UpdateFeed\<close> call of lines 299 to 306, on a feed with the count reset to 0 and
    the message empty.
\<close>

theorem RefreshFeed_encoding_failure:
  assumes loaded: "loaded_feed env w userID feedID = Inr (Some f)"
  shows
    "(client_Get env (trace w @ [UserLanguage_call userID, FeedByID_call userID feedID])
         (refresh_client f) = Inr r
       \<and> \<not> IsNotFound env r \<and> \<not> HasServerFailure env r
       \<and> IsModified env r (EtagHeader f) (LastModifiedHeader f)
       \<and> ContentLength r \<noteq> 0 \<and> NormalizeBodyEncoding env r = Inl e
      \<longrightarrow> RefreshFeed env w userID feedID =
             (Return (Some (Localized (NewLocalizedError errEncoding [ArgError e]))),
              w\<lparr> trace := trace w @ refresh_prefix userID feedID f \<rparr>)
          \<and> store (snd (RefreshFeed env w userID feedID)) = store w
          \<and> filter is_UpdateFeed_call (new_events w (snd (RefreshFeed env w userID feedID))) = [])
     \<and> (client_Get env (trace w @ [UserLanguage_call userID, FeedByID_call userID feedID])
           (refresh_client f) = Inl err
         \<or> client_Get env (trace w @ [UserLanguage_call userID, FeedByID_call userID feedID])
              (refresh_client f) = Inr r
            \<and> (IsNotFound env r \<or> HasServerFailure env r
                \<or> IsModified env r (EtagHeader f) (LastModifiedHeader f)
                   \<and> (ContentLength r = 0
                       \<or> (\<exists>body parseErr. NormalizeBodyEncoding env r = Inr body
                             \<and> parseFeed env body = Inl parseErr)))
      \<longrightarrow> (\<exists>feed. filter is_UpdateFeed_call
                       (new_events w (snd (RefreshFeed env w userID feedID))) = [UpdateFeed_call feed]
                  \<and> ParsingErrorCount feed = ParsingErrorCount f + 1))
     \<and> (client_Get env (trace w @ [UserLanguage_call userID, FeedByID_call userID feedID])
           (refresh_client f) = Inr r
         \<and> \<not> IsNotFound env r \<and> \<not> HasServerFailure env r
         \<and> IsModified env r (EtagHeader f) (LastModifiedHeader f)
         \<and> ContentLength r \<noteq> 0 \<and> NormalizeBodyEncoding env r = Inr document
         \<and> parseFeed env document = Inr subscription
         \<and> fst (store_UpdateEntries env (store w) userID feedID
                  (Entries (FeedProcessor_feed
                     (fst (Process env (refresh_processor userID f subscription)
                             (w\<lparr> trace := trace w @ refresh_prefix userID feedID f
                                              @ [parseFeed_call document] \<rparr>)))))
                  (\<not> Crawler f)) = Some mergeErr
      \<longrightarrow> fst (RefreshFeed env w userID feedID) = Return (Some mergeErr)
          \<and> filter is_UpdateFeed_call (new_events w (snd (RefreshFeed env w userID feedID))) = []
          \<and> store (snd (RefreshFeed env w userID feedID)) =
              snd (store_UpdateEntries env (store w) userID feedID
                     (Entries (FeedProcessor_feed
                        (fst (Process env (refresh_processor userID f subscription)
                                (w\<lparr> trace := trace w @ refresh_prefix userID feedID f
                                                 @ [parseFeed_call document] \<rparr>)))))
                     (\<not> Crawler f)))
     \<and> (client_Get env (trace w @ [UserLanguage_call userID, FeedByID_call userID feedID])
           (refresh_client f) = Inr r
         \<and> \<not> IsNotFound env r \<and> \<not> HasServerFailure env r
         \<and> (\<not> IsModified env r (EtagHeader f) (LastModifiedHeader f)
             \<or> ContentLength r \<noteq> 0 \<and> NormalizeBodyEncoding env r = Inr document
                \<and> parseFeed env document = Inr subscription
                \<and> fst (store_UpdateEntries env (store w) userID feedID
                         (Entries (FeedProcessor_feed
                            (fst (Process env (refresh_processor userID f subscription)
                                    (w\<lparr> trace := trace w @ refresh_prefix userID feedID f
                                                     @ [parseFeed_call document] \<rparr>)))))
                         (\<not> Crawler f)) = None)
      \<longrightarrow> (\<exists>feed. filter is_UpdateFeed_call
                       (new_events w (snd (RefreshFeed env w userID feedID))) = [UpdateFeed_call feed]
                  \<and> ParsingErrorCount feed = 0 \<and> ParsingErrorMsg feed = []))"
proof (intro conjI impI)
  assume a: "client_Get env (trace w @ [UserLanguage_call userID, FeedByID_call userID feedID])
         (refresh_client f) = Inr r
       \<and> \<not> IsNotFound env r \<and> \<not> HasServerFailure env r
       \<and> IsModified env r (EtagHeader f) (LastModifiedHeader f)
       \<and> ContentLength r \<noteq> 0 \<and> NormalizeBodyEncoding env r = Inl e"
  then have ok: "\<not> IsNotFound env r" "\<not> HasServerFailure env r"
    and modified: "IsModified env r (EtagHeader f) (LastModifiedHeader f)"
    and len: "ContentLength r \<noteq> 0" and failed: "NormalizeBodyEncoding env r = Inl e"
    by simp_all
  let ?w3 = "w\<lparr> trace := trace w @ refresh_prefix userID feedID f \<rparr>"
  show run: "RefreshFeed env w userID feedID =
           (Return (Some (Localized (NewLocalizedError errEncoding [ArgError e]))), ?w3)"
    using RefreshFeed_loaded[OF loaded] a RefreshFeed_response_modified[OF ok modified]
          RefreshFeed_modified_encoding[OF len failed]
    by simp
  show "store (snd (RefreshFeed env w userID feedID)) = store w"
    by (simp add: run)
  show "filter is_UpdateFeed_call (new_events w (snd (RefreshFeed env w userID feedID))) = []"
    by (simp add: run new_events_def refresh_prefix_def)
next
  assume a: "client_Get env (trace w @ [UserLanguage_call userID, FeedByID_call userID feedID])
           (refresh_client f) = Inl err
         \<or> client_Get env (trace w @ [UserLanguage_call userID, FeedByID_call userID feedID])
              (refresh_client f) = Inr r
            \<and> (IsNotFound env r \<or> HasServerFailure env r
                \<or> IsModified env r (EtagHeader f) (LastModifiedHeader f)
                   \<and> (ContentLength r = 0
                       \<or> (\<exists>body parseErr. NormalizeBodyEncoding env r = Inr body
                             \<and> parseFeed env body = Inl parseErr)))"
  have P: "\<exists>feed. filter is_UpdateFeed_call (new_events w w') = [UpdateFeed_call feed]
                  \<and> ParsingErrorCount feed = ParsingErrorCount f + 1"
    if "w' = snd (persist_failure env (w\<lparr> trace := trace w @ refresh_prefix userID feedID f \<rparr>) g msg)"
       and "ParsingErrorCount g = ParsingErrorCount f" for w' g msg
    using that by (simp add: new_events_persist_failure refresh_prefix_def)
  let ?got = "client_Get env (trace w @ [UserLanguage_call userID, FeedByID_call userID feedID])
                (refresh_client f)"
  from a consider
      (transport) "?got = Inl err"
    | (nf) "?got = Inr r" "IsNotFound env r"
    | (sf) "?got = Inr r" "\<not> IsNotFound env r" "HasServerFailure env r"
    | (empty) "?got = Inr r" "\<not> IsNotFound env r" "\<not> HasServerFailure env r"
              "IsModified env r (EtagHeader f) (LastModifiedHeader f)" "ContentLength r = 0"
    | (parse) body parseErr where "?got = Inr r" "\<not> IsNotFound env r" "\<not> HasServerFailure env r"
              "IsModified env r (EtagHeader f) (LastModifiedHeader f)" "ContentLength r \<noteq> 0"
              "NormalizeBodyEncoding env r = Inr body" "parseFeed env body = Inl parseErr"
    by blast
  then show "\<exists>feed. filter is_UpdateFeed_call
                       (new_events w (snd (RefreshFeed env w userID feedID))) = [UpdateFeed_call feed]
                  \<and> ParsingErrorCount feed = ParsingErrorCount f + 1"
  proof cases
    case transport
    show ?thesis
      by (rule P[of _ f]) (simp_all add: RefreshFeed_transport_failure[OF loaded transport refl])
  next
    case nf
    show ?thesis
      by (rule P[of _ "f\<lparr> CheckedAt := time_Now env (trace w @ refresh_prefix userID feedID f) \<rparr>"])
         (simp_all add: RefreshFeed_not_found[OF loaded nf])
  next
    case sf
    show ?thesis
      by (rule P[of _ "f\<lparr> CheckedAt := time_Now env (trace w @ refresh_prefix userID feedID f) \<rparr>"])
         (simp_all add: RefreshFeed_server_failure[OF loaded sf])
  next
    case empty
    show ?thesis
      by (rule P[of _ "f\<lparr> CheckedAt := time_Now env (trace w @ refresh_prefix userID feedID f) \<rparr>"])
         (simp_all add: RefreshFeed_empty_body[OF loaded empty])
  next
    case parse
    show ?thesis
      using RefreshFeed_parse_failure[OF loaded parse] by (simp add: refresh_prefix_def)
  qed
next
  assume a: "client_Get env (trace w @ [UserLanguage_call userID, FeedByID_call userID feedID])
           (refresh_client f) = Inr r
         \<and> \<not> IsNotFound env r \<and> \<not> HasServerFailure env r
         \<and> IsModified env r (EtagHeader f) (LastModifiedHeader f)
         \<and> ContentLength r \<noteq> 0 \<and> NormalizeBodyEncoding env r = Inr document
         \<and> parseFeed env document = Inr subscription
         \<and> fst (store_UpdateEntries env (store w) userID feedID
                  (Entries (FeedProcessor_feed
                     (fst (Process env (refresh_processor userID f subscription)
                             (w\<lparr> trace := trace w @ refresh_prefix userID feedID f
                                              @ [parseFeed_call document] \<rparr>)))))
                  (\<not> Crawler f)) = Some mergeErr"
  then have got: "client_Get env (trace w @ [UserLanguage_call userID, FeedByID_call userID feedID])
                    (refresh_client f) = Inr r"
    and ok: "\<not> IsNotFound env r" "\<not> HasServerFailure env r"
    and modified: "IsModified env r (EtagHeader f) (LastModifiedHeader f)"
    and len: "ContentLength r \<noteq> 0" and body: "NormalizeBodyEncoding env r = Inr document"
    and parsed: "parseFeed env document = Inr subscription"
    and failure: "fst (store_UpdateEntries env (store w) userID feedID
                  (Entries (FeedProcessor_feed
                     (fst (Process env (refresh_processor userID f subscription)
                             (w\<lparr> trace := trace w @ refresh_prefix userID feedID f
                                              @ [parseFeed_call document] \<rparr>)))))
                  (\<not> Crawler f)) = Some mergeErr"
    by simp_all
  note F = RefreshFeed_merge_failure[OF loaded got ok modified len body parsed failure]
  show "fst (RefreshFeed env w userID feedID) = Return (Some mergeErr)"
    using F by simp
  show "filter is_UpdateFeed_call (new_events w (snd (RefreshFeed env w userID feedID))) = []"
    using F by simp
  show "store (snd (RefreshFeed env w userID feedID)) =
              snd (store_UpdateEntries env (store w) userID feedID
                     (Entries (FeedProcessor_feed
                        (fst (Process env (refresh_processor userID f subscription)
                                (w\<lparr> trace := trace w @ refresh_prefix userID feedID f
                                                 @ [parseFeed_call document] \<rparr>)))))
                     (\<not> Crawler f))"
    using F by simp
next
  assume a: "client_Get env (trace w @ [UserLanguage_call userID, FeedByID_call userID feedID])
           (refresh_client f) = Inr r
         \<and> \<not> IsNotFound env r \<and> \<not> HasServerFailure env r
         \<and> (\<not> IsModified env r (EtagHeader f) (LastModifiedHeader f)
             \<or> ContentLength r \<noteq> 0 \<and> NormalizeBodyEncoding env r = Inr document
                \<and> parseFeed env document = Inr subscription
                \<and> fst (store_UpdateEntries env (store w) userID feedID
                         (Entries (FeedProcessor_feed
                            (fst (Process env (refresh_processor userID f subscription)
                                    (w\<lparr> trace := trace w @ refresh_prefix userID feedID f
                                                     @ [parseFeed_call document] \<rparr>)))))
                         (\<not> Crawler f)) = None)"
  then have got: "client_Get env (trace w @ [UserLanguage_call userID, FeedByID_call userID feedID])
                    (refresh_client f) = Inr r"
    and ok: "\<not> IsNotFound env r" "\<not> HasServerFailure env r"
    and path: "\<not> IsModified env r (EtagHeader f) (LastModifiedHeader f)
             \<or> ContentLength r \<noteq> 0 \<and> NormalizeBodyEncoding env r = Inr document
                \<and> parseFeed env document = Inr subscription
                \<and> fst (store_UpdateEntries env (store w) userID feedID
                         (Entries (FeedProcessor_feed
                            (fst (Process env (refresh_processor userID f subscription)
                                    (w\<lparr> trace := trace w @ refresh_prefix userID feedID f
                                                     @ [parseFeed_call document] \<rparr>)))))
                         (\<not> Crawler f)) = None"
    by simp_all
  show "\<exists>feed. filter is_UpdateFeed_call
                       (new_events w (snd (RefreshFeed env w userID feedID))) = [UpdateFeed_call feed]
                  \<and> ParsingErrorCount feed = 0 \<and> ParsingErrorMsg feed = []"
    by (rule RefreshFeed_reaches_the_end[OF loaded got ok path])
qed

theorem RefreshFeed_encoding_failure_witness:
  "RefreshFeed bad_encoding_env example_world 1 1 =
     (Return (Some (Localized (NewLocalizedError errEncoding
                                  [ArgError (Plain ''unsupported charset'')]))),
      example_world\<lparr> trace := refresh_prefix 1 1 example_feed \<rparr>)
   \<and> feeds (store (snd (RefreshFeed bad_encoding_env example_world 1 1))) = [example_row]
   \<and> map is_UpdateFeed_call
        (new_events example_world (snd (RefreshFeed unreachable_env example_world 1 1)))
       = [False, False, False, True]
   \<and> fst (RefreshFeed merge_failure_env example_world 1 1) =
       Return (Some (Plain ''pq: deadlock detected''))
   \<and> filter is_UpdateFeed_call
        (new_events example_world (snd (RefreshFeed merge_failure_env example_world 1 1))) = []
   \<and> length (filter is_UpdateFeed_call
        (new_events example_world
           (snd (RefreshFeed (answering not_modified_response) example_world 1 1)))) = 1"
proof -
  let ?env = "bad_encoding_env"
  have g: "client_Get ?env t (refresh_client example_feed) = Inr example_response" for t
    by (simp add: bad_encoding_env_def example_env_def refresh_client_def example_feed_def
          WithCacheHeaders_def WithCredentials_def client_New_def)
  have ok: "\<not> IsNotFound ?env example_response" "\<not> HasServerFailure ?env example_response"
    by (simp_all add: bad_encoding_env_def example_env_def example_response_def)
  have modified: "IsModified ?env example_response (EtagHeader example_feed)
                    (LastModifiedHeader example_feed)"
    by (simp add: bad_encoding_env_def example_env_def example_response_def example_feed_def)
  have len: "ContentLength example_response \<noteq> 0"
    by (simp add: example_response_def)
  have failed: "NormalizeBodyEncoding ?env example_response = Inl (Plain ''unsupported charset'')"
    by (simp add: bad_encoding_env_def)
  have tr: "trace example_world = []" "feeds (store example_world) = [example_row]"
    by (simp_all add: example_world_def)
  have u: "client_Get unreachable_env t c = Inl (Plain ''dial tcp: i/o timeout'')" for t c
    by (simp add: unreachable_env_def)
  have 1: "RefreshFeed bad_encoding_env example_world 1 1 =
     (Return (Some (Localized (NewLocalizedError errEncoding
                                  [ArgError (Plain ''unsupported charset'')]))),
      example_world\<lparr> trace := refresh_prefix 1 1 example_feed \<rparr>)"
    using RefreshFeed_encoding_failure[OF example_loaded_bad_encoding, THEN conjunct1,
            of example_response "Plain ''unsupported charset''"]
    by (simp add: g ok modified len failed tr)
  have 2: "\<exists>feed. filter is_UpdateFeed_call
             (new_events example_world (snd (RefreshFeed unreachable_env example_world 1 1)))
             = [UpdateFeed_call feed]"
    using RefreshFeed_encoding_failure[OF example_loaded_env(1), THEN conjunct2, THEN conjunct1,
            of "Plain ''dial tcp: i/o timeout''"]
    by (auto simp: u)
  have 3: "map is_UpdateFeed_call
        (new_events example_world (snd (RefreshFeed unreachable_env example_world 1 1)))
       = [False, False, False, True]"
    using 2 RefreshFeed_transport_failure[OF example_loaded_env(1) u refl]
    by (simp add: new_events_persist_failure refresh_prefix_def)
  let ?m = "merge_failure_env"
  have mg: "client_Get ?m t (refresh_client example_feed) = Inr example_response" for t
    by (simp add: merge_failure_env_def example_env_def refresh_client_def example_feed_def
          WithCacheHeaders_def WithCredentials_def client_New_def)
  have mok: "\<not> IsNotFound ?m example_response" "\<not> HasServerFailure ?m example_response"
    by (simp_all add: merge_failure_env_def example_env_def example_response_def)
  have mmod: "IsModified ?m example_response (EtagHeader example_feed)
                (LastModifiedHeader example_feed)"
    by (simp add: merge_failure_env_def example_env_def example_response_def example_feed_def)
  have mbody: "NormalizeBodyEncoding ?m example_response = Inr ''<rss>''"
    by (simp add: merge_failure_env_def example_env_def example_response_def)
  have mparsed: "parseFeed ?m ''<rss>'' = Inr example_subscription"
    by (simp add: merge_failure_env_def example_env_def)
  have mfail: "fst (store_UpdateEntries ?m s u fid es b) = Some (Plain ''pq: deadlock detected'')"
    for s u fid es b
    by (simp add: merge_failure_env_def)
  have 4: "fst (RefreshFeed merge_failure_env example_world 1 1) =
             Return (Some (Plain ''pq: deadlock detected''))
           \<and> filter is_UpdateFeed_call
                (new_events example_world (snd (RefreshFeed merge_failure_env example_world 1 1))) = []"
    using RefreshFeed_encoding_failure[OF example_loaded_merge_failure,
            THEN conjunct2, THEN conjunct2, THEN conjunct1,
            of example_response "''<rss>''" example_subscription "Plain ''pq: deadlock detected''"]
    by (simp add: mg mok mmod len mbody mparsed mfail)
  let ?n = "answering not_modified_response"
  have ng: "client_Get ?n t c = Inr not_modified_response" for t c
    by (simp add: answering_def)
  have nok: "\<not> IsNotFound ?n not_modified_response" "\<not> HasServerFailure ?n not_modified_response"
    by (simp_all add: answering_def example_env_def not_modified_response_def example_response_def)
  have nm: "\<not> IsModified ?n not_modified_response (EtagHeader example_feed)
                (LastModifiedHeader example_feed)"
    by (simp add: answering_def example_env_def not_modified_response_def)
  have 5: "length (filter is_UpdateFeed_call
        (new_events example_world
           (snd (RefreshFeed (answering not_modified_response) example_world 1 1)))) = 1"
    using RefreshFeed_encoding_failure[OF example_loaded_answering,
            THEN conjunct2, THEN conjunct2, THEN conjunct2,
            of not_modified_response not_modified_response]
    by (auto simp: ng nok nm)
  show ?thesis using 1 3 4 5 by (simp add: tr)
qed

text \<open>
  A refresh whose entry merge is refused by the database: the error is returned,
  no \<open>UpdateFeed\<close> call is made, and the row of the feed keeps the count 2 and the
  message it had.
\<close>

theorem RefreshFeed_merge_failure_counterexample:
  "fst (RefreshFeed merge_failure_env example_world 1 1) =
     Return (Some (Plain ''pq: deadlock detected''))
   \<and> filter is_UpdateFeed_call
        (new_events example_world (snd (RefreshFeed merge_failure_env example_world 1 1))) = []
   \<and> feeds (store example_world) = [example_row]
   \<and> feeds (store (snd (RefreshFeed merge_failure_env example_world 1 1))) = [example_row]
   \<and> feeds_parsing_error_count example_row = 2
   \<and> feeds_parsing_error_msg example_row = ''old failure''"
proof -
  let ?m = "merge_failure_env"
  have g: "client_Get ?m (trace example_world @ [UserLanguage_call 1, FeedByID_call 1 1])
             (refresh_client example_feed) = Inr example_response"
    by (simp add: merge_failure_env_def example_env_def refresh_client_def example_feed_def
          WithCacheHeaders_def WithCredentials_def client_New_def)
  have ok: "\<not> IsNotFound ?m example_response" "\<not> HasServerFailure ?m example_response"
    by (simp_all add: merge_failure_env_def example_env_def example_response_def)
  have modified: "IsModified ?m example_response (EtagHeader example_feed)
                (LastModifiedHeader example_feed)"
    by (simp add: merge_failure_env_def example_env_def example_response_def example_feed_def)
  have len: "ContentLength example_response \<noteq> 0"
    by (simp add: example_response_def)
  have body: "NormalizeBodyEncoding ?m example_response = Inr ''<rss>''"
    by (simp add: merge_failure_env_def example_env_def example_response_def)
  have parsed: "parseFeed ?m ''<rss>'' = Inr example_subscription"
    by (simp add: merge_failure_env_def example_env_def)
  have refused: "store_UpdateEntries ?m s u fid es b = (Some (Plain ''pq: deadlock detected''), s)"
    for s u fid es b
    by (simp add: merge_failure_env_def)
  have failure: "fst (store_UpdateEntries ?m s u fid es b) = Some (Plain ''pq: deadlock detected'')"
    for s u fid es b
    by (simp add: refused)
  show ?thesis
    using RefreshFeed_merge_failure[OF example_loaded_merge_failure g ok modified len body parsed failure]
    by (simp add: refused) (simp add: example_world_def example_row_def)
qed
subsection \<open>The record persisted when the fetch fails\<close>

text \<open>
  C9. The claim is that the persisted record differs from the loaded one only in
  \<open>ParsingErrorCount\<close> and \<open>ParsingErrorMsg\<close>. What holds: after a transport failure
  the record handed to \<open>UpdateFeed\<close> is the loaded one with the count increased by
  one and the message set, nothing else; after a 404 and after a server failure
  it has, in addition, \<open>CheckedAt\<close> set to the time the response arrived. All other
  fields (caching tokens, \<open>SiteURL\<close> included) are those loaded, and the error is
  returned.
\<close>

theorem RefreshFeed_fetch_failure_record:
  assumes loaded: "loaded_feed env w userID feedID = Inr (Some f)"
  shows
    "(client_Get env (trace w @ [UserLanguage_call userID, FeedByID_call userID feedID])
        (refresh_client f) = Inl err \<longrightarrow>
        fst (RefreshFeed env w userID feedID) =
          Return (Some (Localized (case err of Localized lerr \<Rightarrow> lerr
                           | Plain m \<Rightarrow> NewLocalizedError errRequestFailed [ArgError err])))
        \<and> new_events w (snd (RefreshFeed env w userID feedID)) =
            refresh_prefix userID feedID f @
              [UpdateFeed_call
                 (f\<lparr> ParsingErrorCount := ParsingErrorCount f + 1,
                     ParsingErrorMsg :=
                       Localize env
                         (case err of Localized lerr \<Rightarrow> lerr
                          | Plain m \<Rightarrow> NewLocalizedError errRequestFailed [ArgError err])
                         (refresh_language env w userID) \<rparr>)])
     \<and> (client_Get env (trace w @ [UserLanguage_call userID, FeedByID_call userID feedID])
          (refresh_client f) = Inr r \<and> IsNotFound env r \<longrightarrow>
        fst (RefreshFeed env w userID feedID) =
          Return (Some (Localized (NewLocalizedError errResourceNotFound [])))
        \<and> new_events w (snd (RefreshFeed env w userID feedID)) =
            refresh_prefix userID feedID f @
              [UpdateFeed_call
                 (f\<lparr> CheckedAt := time_Now env (trace w @ refresh_prefix userID feedID f),
                     ParsingErrorCount := ParsingErrorCount f + 1,
                     ParsingErrorMsg :=
                       Localize env (NewLocalizedError errResourceNotFound [])
                         (refresh_language env w userID) \<rparr>)])
     \<and> (client_Get env (trace w @ [UserLanguage_call userID, FeedByID_call userID feedID])
          (refresh_client f) = Inr r \<and> \<not> IsNotFound env r \<and> HasServerFailure env r \<longrightarrow>
        fst (RefreshFeed env w userID feedID) =
          Return (Some (Localized (NewLocalizedError errServerFailure [ArgInt (StatusCode r)])))
        \<and> new_events w (snd (RefreshFeed env w userID feedID)) =
            refresh_prefix userID feedID f @
              [UpdateFeed_call
                 (f\<lparr> CheckedAt := time_Now env (trace w @ refresh_prefix userID feedID f),
                     ParsingErrorCount := ParsingErrorCount f + 1,
                     ParsingErrorMsg :=
                       Localize env (NewLocalizedError errServerFailure [ArgInt (StatusCode r)])
                         (refresh_language env w userID) \<rparr>)])"
proof (intro conjI impI)
  assume g: "client_Get env (trace w @ [UserLanguage_call userID, FeedByID_call userID feedID])
        (refresh_client f) = Inl err"
  let ?e = "case err of Localized lerr \<Rightarrow> lerr
            | Plain m \<Rightarrow> NewLocalizedError errRequestFailed [ArgError err]"
  note run = RefreshFeed_transport_failure[OF loaded g refl]
  show "fst (RefreshFeed env w userID feedID) = Return (Some (Localized ?e))"
    by (simp add: run)
  show "new_events w (snd (RefreshFeed env w userID feedID)) =
            refresh_prefix userID feedID f @
              [UpdateFeed_call
                 (f\<lparr> ParsingErrorCount := ParsingErrorCount f + 1,
                     ParsingErrorMsg := Localize env ?e (refresh_language env w userID) \<rparr>)]"
    by (simp add: run new_events_persist_failure)
next
  assume g: "client_Get env (trace w @ [UserLanguage_call userID, FeedByID_call userID feedID])
          (refresh_client f) = Inr r \<and> IsNotFound env r"
  then have run: "RefreshFeed env w userID feedID =
     (Return (Some (Localized (NewLocalizedError errResourceNotFound []))),
      snd (persist_failure env (w\<lparr> trace := trace w @ refresh_prefix userID feedID f \<rparr>)
        (f\<lparr> CheckedAt := time_Now env (trace w @ refresh_prefix userID feedID f) \<rparr>)
        (Localize env (NewLocalizedError errResourceNotFound []) (refresh_language env w userID))))"
    using RefreshFeed_not_found[OF loaded] by blast
  show "fst (RefreshFeed env w userID feedID) =
          Return (Some (Localized (NewLocalizedError errResourceNotFound [])))"
    by (simp add: run)
  show "new_events w (snd (RefreshFeed env w userID feedID)) =
            refresh_prefix userID feedID f @
              [UpdateFeed_call
                 (f\<lparr> CheckedAt := time_Now env (trace w @ refresh_prefix userID feedID f),
                     ParsingErrorCount := ParsingErrorCount f + 1,
                     ParsingErrorMsg :=
                       Localize env (NewLocalizedError errResourceNotFound [])
                         (refresh_language env w userID) \<rparr>)]"
    by (simp add: run new_events_persist_failure)
next
  assume g: "client_Get env (trace w @ [UserLanguage_call userID, FeedByID_call userID feedID])
          (refresh_client f) = Inr r \<and> \<not> IsNotFound env r \<and> HasServerFailure env r"
  then have run: "RefreshFeed env w userID feedID =
     (Return (Some (Localized (NewLocalizedError errServerFailure [ArgInt (StatusCode r)]))),
      snd (persist_failure env (w\<lparr> trace := trace w @ refresh_prefix userID feedID f \<rparr>)
        (f\<lparr> CheckedAt := time_Now env (trace w @ refresh_prefix userID feedID f) \<rparr>)
        (Localize env (NewLocalizedError errServerFailure [ArgInt (StatusCode r)])
           (refresh_language env w userID))))"
    using RefreshFeed_server_failure[OF loaded] by blast
  show "fst (RefreshFeed env w userID feedID) =
          Return (Some (Localized (NewLocalizedError errServerFailure [ArgInt (StatusCode r)])))"
    by (simp add: run)
  show "new_events w (snd (RefreshFeed env w userID feedID)) =
            refresh_prefix userID feedID f @
              [UpdateFeed_call
                 (f\<lparr> CheckedAt := time_Now env (trace w @ refresh_prefix userID feedID f),
                     ParsingErrorCount := ParsingErrorCount f + 1,
                     ParsingErrorMsg :=
                       Localize env (NewLocalizedError errServerFailure [ArgInt (StatusCode r)])
                         (refresh_language env w userID) \<rparr>)]"
    by (simp add: run new_events_persist_failure)
qed

theorem RefreshFeed_fetch_failure_record_witness:
  "new_events example_world (snd (RefreshFeed unreachable_env example_world 1 1)) =
     refresh_prefix 1 1 example_feed @
       [UpdateFeed_call (example_feed\<lparr> ParsingErrorCount := 3,
           ParsingErrorMsg := ''Unable to execute request: %v'' \<rparr>)]
   \<and> new_events example_world (snd (RefreshFeed (answering not_found_response) example_world 1 1)) =
     refresh_prefix 1 1 example_feed @
       [UpdateFeed_call (example_feed\<lparr> CheckedAt := 1000, ParsingErrorCount := 3,
           ParsingErrorMsg := errResourceNotFound \<rparr>)]
   \<and> new_events example_world (snd (RefreshFeed (answering server_failure_response) example_world 1 1)) =
     refresh_prefix 1 1 example_feed @
       [UpdateFeed_call (example_feed\<lparr> CheckedAt := 1000, ParsingErrorCount := 3,
           ParsingErrorMsg := ''Unable to fetch feed (Status Code = %d)'' \<rparr>)]"
proof -
  have count: "ParsingErrorCount example_feed + 1 = 3" by (simp add: example_feed_def)
  have 1: "client_Get unreachable_env t c = Inl (Plain ''dial tcp: i/o timeout'')" for t c
    by (simp add: unreachable_env_def)
  have 2: "client_Get (answering x) t c = Inr x" for x t c
    by (simp add: answering_def)
  have nf: "IsNotFound (answering x) not_found_response" for x
    by (simp add: answering_def example_env_def not_found_response_def)
  have sf: "\<not> IsNotFound (answering x) server_failure_response"
           "HasServerFailure (answering x) server_failure_response" for x
    by (simp_all add: answering_def example_env_def server_failure_response_def example_response_def)
  have lang: "refresh_language unreachable_env example_world 1 = ''en_US''"
     "refresh_language (answering x) example_world 1 = ''en_US''" for x
    by (rule example_language; simp add: unreachable_env_def answering_def example_env_def)+
  have loc: "Localize unreachable_env e l = message e" "Localize (answering x) e l = message e"
    "time_Now (answering x) t = 1000" for e l x t
    by (simp_all add: unreachable_env_def answering_def example_env_def)
  show ?thesis
    using RefreshFeed_fetch_failure_record[OF example_loaded_env(1), of "Plain ''dial tcp: i/o timeout''"]
          RefreshFeed_fetch_failure_record[OF example_loaded_answering, of not_found_response _ not_found_response]
          RefreshFeed_fetch_failure_record[OF example_loaded_answering, of server_failure_response _ server_failure_response]
    by (simp add: 1 2 nf sf lang loc count NewLocalizedError_def errRequestFailed_def
          errServerFailure_def)
qed

text \<open>
  A 404 answer: the record handed to \<open>UpdateFeed\<close> has the time of the check,
  1000, in \<open>CheckedAt\<close>, where the loaded record has 500.
\<close>

theorem RefreshFeed_not_found_CheckedAt_counterexample:
  "loaded_feed (answering not_found_response) example_world 1 1 = Inr (Some example_feed)
   \<and> CheckedAt example_feed = 500
   \<and> new_events example_world (snd (RefreshFeed (answering not_found_response) example_world 1 1)) =
       refresh_prefix 1 1 example_feed @
         [UpdateFeed_call (example_feed\<lparr> CheckedAt := 1000, ParsingErrorCount := 3,
             ParsingErrorMsg := errResourceNotFound \<rparr>)]"
proof -
  let ?env = "answering not_found_response"
  have g: "client_Get ?env (trace example_world @ [UserLanguage_call 1, FeedByID_call 1 1])
             (refresh_client example_feed) = Inr not_found_response"
    by (simp add: answering_def)
  have nf: "IsNotFound ?env not_found_response"
    by (simp add: answering_def example_env_def not_found_response_def)
  have now: "time_Now ?env t = 1000" "Localize ?env e l = message e" for t e l
    by (simp_all add: answering_def example_env_def)
  have count: "ParsingErrorCount example_feed + 1 = 3" "CheckedAt example_feed = 500"
    by (simp_all add: example_feed_def)
  show ?thesis
    by (simp add: RefreshFeed_not_found[OF example_loaded_answering g nf] example_loaded_answering
          new_events_persist_failure now count NewLocalizedError_def)
qed

subsection \<open>A document that does not parse\<close>

text \<open>
  C1. Transport failure, 404, server failure and an empty body are persisted and
  returned (\<open>RefreshFeed_transport_failure\<close>, \<open>RefreshFeed_not_found\<close>,
  \<open>RefreshFeed_server_failure\<close>, \<open>RefreshFeed_empty_body\<close>). A parse failure is
  persisted too, but the value returned is \<open>err\<close>, the error of the encoding
  normalization, which is nil at that point (\<open>RefreshFeed_parse_failure\<close>). On the
  example feed with a parser that fails: the count goes from 2 to 3, the message
  is set, and \<open>RefreshFeed\<close> returns nil.
\<close>

theorem RefreshFeed_parse_failure_returns_nil:
  "fst (RefreshFeed parse_failure_env example_world 1 1) = Return None
   \<and> new_events example_world (snd (RefreshFeed parse_failure_env example_world 1 1)) =
       refresh_prefix 1 1 example_feed @
         [parseFeed_call ''<rss>'',
          UpdateFeed_call (example_feed\<lparr> CheckedAt := 1000, ParsingErrorCount := 3,
             ParsingErrorMsg := ''Unable to parse this feed'' \<rparr>)]"
proof -
  let ?env = "parse_failure_env"
  have g: "client_Get ?env (trace example_world @ [UserLanguage_call 1, FeedByID_call 1 1])
             (refresh_client example_feed) = Inr example_response"
    by (simp add: parse_failure_env_def example_env_def refresh_client_def example_feed_def
          WithCacheHeaders_def WithCredentials_def client_New_def)
  have ok: "\<not> IsNotFound ?env example_response" "\<not> HasServerFailure ?env example_response"
    by (simp_all add: parse_failure_env_def example_env_def example_response_def)
  have modified: "IsModified ?env example_response (EtagHeader example_feed)
                    (LastModifiedHeader example_feed)"
    by (simp add: parse_failure_env_def example_env_def example_response_def example_feed_def)
  have len: "ContentLength example_response \<noteq> 0"
    by (simp add: example_response_def)
  have body: "NormalizeBodyEncoding ?env example_response = Inr ''<rss>''"
    by (simp add: parse_failure_env_def example_env_def example_response_def)
  have failed: "parseFeed ?env ''<rss>'' = Inl (LocalizedError ''Unable to parse this feed'' [])"
    by (simp add: parse_failure_env_def)
  have vals: "time_Now ?env t = 1000" "Localize ?env e l = message e"
             "ParsingErrorCount example_feed + 1 = 3" for t e l
    by (simp_all add: parse_failure_env_def example_env_def example_feed_def)
  show ?thesis
    using RefreshFeed_parse_failure[OF example_loaded_env(2) g ok modified len body failed]
    by (simp add: vals)
qed

section \<open>The empty-feed error\<close>

subsection \<open>Where an error value can come from\<close>

lemma UpdateFeed_result: "fst (UpdateFeed env w feed) \<noteq> Return (Some (Localized l))"
  by (simp add: UpdateFeed_def Let_def split: option.splits)

lemma loaded_feed_error: "loaded_feed env w userID feedID = Inl err \<Longrightarrow> \<exists>m. err = Plain m"
  by (auto simp: loaded_feed_def FeedByID_def Let_def split: option.splits)

lemma RefreshFeed_not_loaded:
  "loaded_feed env w userID feedID = Inl err \<Longrightarrow>
     fst (RefreshFeed env w userID feedID) = Return (Some err)"
  "loaded_feed env w userID feedID = Inr None \<Longrightarrow>
     fst (RefreshFeed env w userID feedID) =
       Return (Some (Localized (NewLocalizedError errNotFound [ArgInt feedID])))"
  unfolding loaded_feed_def RefreshFeed_def UserLanguage_def
  by (auto simp: Let_def split: prod.splits)

lemma handler_errors_distinct:
  "Localized (NewLocalizedError errNotFound [ArgInt n]) \<noteq> EmptyFeedError"
  "Localized (NewLocalizedError errRequestFailed [ArgError e]) \<noteq> EmptyFeedError"
  "Localized (NewLocalizedError errResourceNotFound []) \<noteq> EmptyFeedError"
  "Localized (NewLocalizedError errServerFailure [ArgInt n]) \<noteq> EmptyFeedError"
  "Localized (NewLocalizedError errEncoding [ArgError e]) \<noteq> EmptyFeedError"
  "Localized (NewLocalizedError errCategoryNotFound []) \<noteq> EmptyFeedError"
  "Localized (NewLocalizedError errDuplicate [ArgString u]) \<noteq> EmptyFeedError"
  "Plain m \<noteq> EmptyFeedError"
  by (simp_all add: EmptyFeedError_def NewLocalizedError_def errResourceNotFound_def
        errEmptyFeed_def errCategoryNotFound_def)

lemma RefreshFeed_modified_parsed_result:
  assumes "ContentLength r \<noteq> 0" and "NormalizeBodyEncoding env r = Inr body"
      and "parseFeed env body = Inr subscription"
      and "collaborators_never_return_EmptyFeed env"
  shows "fst (RefreshFeed_modified env w userID lang f r) \<noteq> Return (Inl (Some EmptyFeedError))"
proof -
  have ue: "fst (UpdateEntries env w' u fid es b) \<noteq> Some EmptyFeedError" for w' u fid es b
    using assms(4)
    by (auto simp: collaborators_never_return_EmptyFeed_def UpdateEntries_def Let_def
          split: prod.splits dest: arg_cong[where f = fst])
  show ?thesis
    using assms(1-3) ue
    by (auto simp: RefreshFeed_modified_def parseFeed_at_def Let_def
          split: prod.splits option.splits sum.splits if_splits
          dest: arg_cong[where f = fst])
qed

lemma RefreshFeed_EmptyFeed_iff:
  assumes H: "collaborators_never_return_EmptyFeed env"
  shows "fst (RefreshFeed env w userID feedID) = Return (Some EmptyFeedError) \<longleftrightarrow>
           (\<exists>f r. loaded_feed env w userID feedID = Inr (Some f)
              \<and> client_Get env (trace w @ [UserLanguage_call userID, FeedByID_call userID feedID])
                   (refresh_client f) = Inr r
              \<and> \<not> IsNotFound env r \<and> \<not> HasServerFailure env r
              \<and> IsModified env r (EtagHeader f) (LastModifiedHeader f)
              \<and> ContentLength r = 0)"
proof (cases "loaded_feed env w userID feedID")
  case (Inl err)
  then show ?thesis
    using RefreshFeed_not_loaded(1)[OF Inl] loaded_feed_error[OF Inl]
    by (auto simp: handler_errors_distinct)
next
  case (Inr found)
  show ?thesis
  proof (cases found)
    case None
    then show ?thesis
      using RefreshFeed_not_loaded(2)[of env w userID feedID] Inr
      by (simp add: handler_errors_distinct)
  next
    case (Some f)
    have loaded: "loaded_feed env w userID feedID = Inr (Some f)" using Inr Some by simp
    let ?got = "client_Get env (trace w @ [UserLanguage_call userID, FeedByID_call userID feedID])
                   (refresh_client f)"
    show ?thesis
    proof (cases ?got)
      case (Inl err)
      have "err \<noteq> EmptyFeedError"
        using H Inl by (auto simp: collaborators_never_return_EmptyFeed_def)
      then have "fst (RefreshFeed env w userID feedID) \<noteq> Return (Some EmptyFeedError)"
        using RefreshFeed_transport_failure[OF loaded Inl refl]
        by (cases err) (simp_all add: handler_errors_distinct)
      then show ?thesis using loaded Inl by simp
    next
      case got: (Inr r)
      consider (nf) "IsNotFound env r"
        | (sf) "\<not> IsNotFound env r" "HasServerFailure env r"
        | (nm) "\<not> IsNotFound env r" "\<not> HasServerFailure env r"
               "\<not> IsModified env r (EtagHeader f) (LastModifiedHeader f)"
        | (md) "\<not> IsNotFound env r" "\<not> HasServerFailure env r"
               "IsModified env r (EtagHeader f) (LastModifiedHeader f)"
        by blast
      then show ?thesis
      proof cases
        case nf
        then show ?thesis
          using RefreshFeed_not_found[OF loaded got nf] loaded got
          by (simp add: handler_errors_distinct)
      next
        case sf
        then show ?thesis
          using RefreshFeed_server_failure[OF loaded got sf] loaded got
          by (simp add: handler_errors_distinct)
      next
        case nm
        have "RefreshFeed env w userID feedID =
                RefreshFeed_finish env (w\<lparr> trace := trace w @ refresh_prefix userID feedID f \<rparr>)
                  (f\<lparr> CheckedAt := time_Now env (trace w @ refresh_prefix userID feedID f) \<rparr>)"
          using RefreshFeed_loaded[OF loaded] got RefreshFeed_response_not_modified[OF nm]
          by simp
        then have "fst (RefreshFeed env w userID feedID) \<noteq> Return (Some EmptyFeedError)"
          by (simp add: RefreshFeed_finish_eq UpdateFeed_result EmptyFeedError_def)
        then show ?thesis using loaded got nm by simp
      next
        case md
        let ?w3 = "w\<lparr> trace := trace w @ refresh_prefix userID feedID f \<rparr>"
        let ?f1 = "f\<lparr> CheckedAt := time_Now env (trace ?w3) \<rparr>"
        let ?M = "RefreshFeed_modified env ?w3 userID (refresh_language env w userID) ?f1 r"
        have run: "RefreshFeed env w userID feedID =
               (case ?M of
                  (Panic p, w1) \<Rightarrow> (Panic p, w1)
                | (Return (Inl ret), w1) \<Rightarrow> (Return ret, w1)
                | (Return (Inr feed), w1) \<Rightarrow> RefreshFeed_finish env w1 feed)"
          using RefreshFeed_loaded[OF loaded] got RefreshFeed_response_modified[OF md]
          by simp
        show ?thesis
        proof (cases "ContentLength r = 0")
          case True
          then show ?thesis
            using RefreshFeed_empty_body[OF loaded got md True] loaded got md
            by (simp add: EmptyFeedError_def)
        next
          case len: False
          have "fst (RefreshFeed env w userID feedID) \<noteq> Return (Some EmptyFeedError)"
          proof (cases "NormalizeBodyEncoding env r")
            case (Inl e)
            then show ?thesis
              by (simp add: run RefreshFeed_modified_encoding[OF len Inl] handler_errors_distinct)
          next
            case body: (Inr body)
            show ?thesis
            proof (cases "parseFeed env body")
              case (Inl parseErr)
              obtain c where "Category ?f1 = Some c"
                using loaded_feed_category[OF loaded] by auto
              then show ?thesis
                by (simp add: run RefreshFeed_modified_parse_failure[OF len body Inl])
            next
              case (Inr subscription)
              have ne: "fst ?M \<noteq> Return (Inl (Some EmptyFeedError))"
                using RefreshFeed_modified_parsed_result[OF len body Inr H] .
              show ?thesis
              proof (cases ?M)
                case (Pair outcome w1)
                show ?thesis
                proof (cases outcome)
                  case (Return block)
                  with Pair ne show ?thesis
                    by (cases block)
                       (simp_all add: run RefreshFeed_finish_eq UpdateFeed_result EmptyFeedError_def)
                next
                  case (Panic p)
                  with Pair show ?thesis by (simp add: run)
                qed
              qed
            qed
          qed
          then show ?thesis using loaded got len by simp
        qed
      qed
    qed
  qed
qed

lemma createEntries_result:
  assumes H: "collaborators_never_return_EmptyFeed env"
  shows "fst (fst (createEntries env w feed done es)) \<noteq> Some EmptyFeedError"
proof (induction es arbitrary: w "done")
  case Nil
  then show ?case by simp
next
  case (Cons e es)
  have ce: "fst (createEntry env w' x) \<noteq> Some EmptyFeedError" for w' x
    using H
    by (auto simp: collaborators_never_return_EmptyFeed_def createEntry_def Let_def
          split: prod.splits dest: arg_cong[where f = fst])
  show ?case
    using ce[of w "e\<lparr> Entry_FeedID := ID feed, Entry_UserID := UserID feed \<rparr>"] Cons.IH
    by (auto simp: Let_def split: prod.splits option.splits)
qed

lemma Storage_CreateFeed_result:
  assumes H: "collaborators_never_return_EmptyFeed env"
  shows "fst (Storage_CreateFeed env w feed) \<noteq> Return (Some EmptyFeedError, feed')"
  using createEntries_result[OF H]
  by (auto simp: Storage_CreateFeed_def Let_def handler_errors_distinct
        split: option.splits prod.splits dest: arg_cong[where f = "\<lambda>x. fst (fst x)"])

lemma CreateFeed_store_result:
  assumes H: "collaborators_never_return_EmptyFeed env"
  shows "fst (CreateFeed_store env w userID categoryID crawler username password r subscription)
           \<noteq> Return (Inl EmptyFeedError)"
proof -
  have sc: "Storage_CreateFeed env w' feed = (Return (Some e, feed'), w'') \<Longrightarrow> e \<noteq> EmptyFeedError"
    for w' feed e feed' w''
    using Storage_CreateFeed_result[OF H, of w' feed feed'] by auto
  show ?thesis
    by (auto simp: CreateFeed_store_def Let_def
          split: prod.splits option.splits sum.splits outcome.splits dest: sc)
qed

lemma CreateFeed_empty:
  assumes "store_CategoryExists env (store w) userID categoryID"
      and "client_Get env (trace w @ [CategoryExists_call userID categoryID])
             (WithCredentials username password (client_New feedURL)) = Inr r"
      and "\<not> HasServerFailure env r" and "ContentLength r = 0"
  shows "CreateFeed env w userID categoryID feedURL crawler username password =
           (Return (Inl EmptyFeedError),
            w\<lparr> trace := trace w @ [CategoryExists_call userID categoryID,
                   Get_call (WithCredentials username password (client_New feedURL))] \<rparr>)"
  using assms
  by (simp add: CreateFeed_def CategoryExists_def Get_def Let_def EmptyFeedError_def emit_def)

lemma CreateFeed_EmptyFeed_iff:
  assumes H: "collaborators_never_return_EmptyFeed env"
  shows "fst (CreateFeed env w userID categoryID feedURL crawler username password) = Return (Inl EmptyFeedError)
          \<longleftrightarrow> store_CategoryExists env (store w) userID categoryID
              \<and> (\<exists>r. client_Get env (trace w @ [CategoryExists_call userID categoryID])
                         (WithCredentials username password (client_New feedURL)) = Inr r
                       \<and> \<not> HasServerFailure env r \<and> ContentLength r = 0)"
proof (cases "store_CategoryExists env (store w) userID categoryID")
  case False
  then show ?thesis
    by (simp add: CreateFeed_def CategoryExists_def Let_def handler_errors_distinct)
next
  case cat: True
  let ?got = "client_Get env (trace w @ [CategoryExists_call userID categoryID])
                         (WithCredentials username password (client_New feedURL))"
  show ?thesis
  proof (cases ?got)
    case (Inl err)
    have "err \<noteq> EmptyFeedError"
      using H Inl by (auto simp: collaborators_never_return_EmptyFeed_def)
    then show ?thesis
      using cat Inl
      by (cases err)
         (simp_all add: CreateFeed_def CategoryExists_def Get_def Let_def handler_errors_distinct)
  next
    case got: (Inr r)
    show ?thesis
    proof (cases "\<not> HasServerFailure env r \<and> ContentLength r = 0")
      case True
      then show ?thesis
        using CreateFeed_empty[OF cat got] cat got by simp
    next
      case False
      have pf: "parseFeed env body = Inl x \<Longrightarrow> Localized x = EmptyFeedError \<Longrightarrow> False" for body x
        using H by (auto simp: collaborators_never_return_EmptyFeed_def EmptyFeedError_def)
      have st: "fst (CreateFeed_store env w' userID categoryID crawler username password r s)
                 \<noteq> Return (Inl EmptyFeedError)" for w' s
        using CreateFeed_store_result[OF H] .
      have "fst (CreateFeed env w userID categoryID feedURL crawler username password)
              \<noteq> Return (Inl EmptyFeedError)"
        using cat got False st
        by (auto simp: CreateFeed_def CategoryExists_def Get_def parseFeed_at_def Let_def
              handler_errors_distinct EmptyFeedError_def[symmetric]
              split: prod.splits sum.splits dest: pf)
      then show ?thesis using cat got False by auto
    qed
  qed
qed

lemma answering_foreign: "collaborators_never_return_EmptyFeed (answering r)"
  by (simp add: collaborators_never_return_EmptyFeed_def answering_def example_env_def)

subsection \<open>The length check\<close>

text \<open>
  C5. The claim is that \<open>CreateFeed\<close> and \<open>RefreshFeed\<close> return the empty-feed error
  exactly when the response's \<open>ContentLength\<close> is 0. What holds, the collaborators
  reporting only their own errors: \<open>CreateFeed\<close> returns it exactly when the category
  exists, the fetch answers, the answer is no server failure, and its
  \<open>ContentLength\<close> is 0; storage is then as it was and only the category check and
  the fetch have been made, so no feed row is created. \<open>RefreshFeed\<close> returns it
  exactly when the feed is loaded, the fetch answers, the answer is neither a 404
  nor a server failure, is modified relative to the stored caching tokens, and
  its \<open>ContentLength\<close> is 0. An answer with \<open>ContentLength = -1\<close> (no header) never
  yields the error.
\<close>

theorem EmptyFeed_exactly_at_the_length_check:
  assumes H: "collaborators_never_return_EmptyFeed env"
  shows
    "(fst (CreateFeed env w userID categoryID feedURL crawler username password) = Return (Inl EmptyFeedError)
        \<longleftrightarrow> store_CategoryExists env (store w) userID categoryID
            \<and> (\<exists>r. client_Get env (trace w @ [CategoryExists_call userID categoryID])
                       (WithCredentials username password (client_New feedURL)) = Inr r
                     \<and> \<not> HasServerFailure env r \<and> ContentLength r = 0))
     \<and> (fst (CreateFeed env w userID categoryID feedURL crawler username password) = Return (Inl EmptyFeedError)
        \<longrightarrow> store (snd (CreateFeed env w userID categoryID feedURL crawler username password)) = store w
            \<and> new_events w (snd (CreateFeed env w userID categoryID feedURL crawler username password)) =
                [CategoryExists_call userID categoryID,
                 Get_call (WithCredentials username password (client_New feedURL))])
     \<and> (fst (RefreshFeed env w userID feedID) = Return (Some EmptyFeedError)
        \<longleftrightarrow> (\<exists>f r. loaded_feed env w userID feedID = Inr (Some f)
               \<and> client_Get env (trace w @ [UserLanguage_call userID, FeedByID_call userID feedID])
                    (refresh_client f) = Inr r
               \<and> \<not> IsNotFound env r \<and> \<not> HasServerFailure env r
               \<and> IsModified env r (EtagHeader f) (LastModifiedHeader f)
               \<and> ContentLength r = 0))
     \<and> (client_Get env (trace w @ [CategoryExists_call userID categoryID])
           (WithCredentials username password (client_New feedURL)) = Inr r1
         \<and> ContentLength r1 = - 1
        \<longrightarrow> fst (CreateFeed env w userID categoryID feedURL crawler username password)
              \<noteq> Return (Inl EmptyFeedError))
     \<and> (loaded_feed env w userID feedID = Inr (Some f2)
         \<and> client_Get env (trace w @ [UserLanguage_call userID, FeedByID_call userID feedID])
              (refresh_client f2) = Inr r2
         \<and> ContentLength r2 = - 1
        \<longrightarrow> fst (RefreshFeed env w userID feedID) \<noteq> Return (Some EmptyFeedError))"
proof (intro conjI impI)
  show c: "fst (CreateFeed env w userID categoryID feedURL crawler username password) = Return (Inl EmptyFeedError)
        \<longleftrightarrow> store_CategoryExists env (store w) userID categoryID
            \<and> (\<exists>r. client_Get env (trace w @ [CategoryExists_call userID categoryID])
                       (WithCredentials username password (client_New feedURL)) = Inr r
                     \<and> \<not> HasServerFailure env r \<and> ContentLength r = 0)"
    using CreateFeed_EmptyFeed_iff[OF H] .
  show r: "fst (RefreshFeed env w userID feedID) = Return (Some EmptyFeedError)
        \<longleftrightarrow> (\<exists>f r. loaded_feed env w userID feedID = Inr (Some f)
               \<and> client_Get env (trace w @ [UserLanguage_call userID, FeedByID_call userID feedID])
                    (refresh_client f) = Inr r
               \<and> \<not> IsNotFound env r \<and> \<not> HasServerFailure env r
               \<and> IsModified env r (EtagHeader f) (LastModifiedHeader f)
               \<and> ContentLength r = 0)"
    using RefreshFeed_EmptyFeed_iff[OF H] .
  {
    assume "fst (CreateFeed env w userID categoryID feedURL crawler username password) = Return (Inl EmptyFeedError)"
    with c obtain r0 where
      "store_CategoryExists env (store w) userID categoryID"
      "client_Get env (trace w @ [CategoryExists_call userID categoryID])
                       (WithCredentials username password (client_New feedURL)) = Inr r0"
      "\<not> HasServerFailure env r0" "ContentLength r0 = 0" by blast
    from CreateFeed_empty[OF this]
    show "store (snd (CreateFeed env w userID categoryID feedURL crawler username password)) = store w"
      and "new_events w (snd (CreateFeed env w userID categoryID feedURL crawler username password)) =
                [CategoryExists_call userID categoryID,
                 Get_call (WithCredentials username password (client_New feedURL))]"
      by (simp_all add: new_events_def)
  }
  {
    assume a: "client_Get env (trace w @ [CategoryExists_call userID categoryID])
           (WithCredentials username password (client_New feedURL)) = Inr r1
         \<and> ContentLength r1 = - 1"
    show "fst (CreateFeed env w userID categoryID feedURL crawler username password)
              \<noteq> Return (Inl EmptyFeedError)"
    proof
      assume "fst (CreateFeed env w userID categoryID feedURL crawler username password)
              = Return (Inl EmptyFeedError)"
      with c a have "ContentLength r1 = 0" by auto
      with a show False by simp
    qed
  }
  {
    assume a: "loaded_feed env w userID feedID = Inr (Some f2)
         \<and> client_Get env (trace w @ [UserLanguage_call userID, FeedByID_call userID feedID])
              (refresh_client f2) = Inr r2
         \<and> ContentLength r2 = - 1"
    show "fst (RefreshFeed env w userID feedID) \<noteq> Return (Some EmptyFeedError)"
    proof
      assume "fst (RefreshFeed env w userID feedID) = Return (Some EmptyFeedError)"
      with r a have "ContentLength r2 = 0" by auto
      with a show False by simp
    qed
  }
qed

theorem EmptyFeed_exactly_at_the_length_check_witness:
  "fst (CreateFeed (answering empty_response) example_world 1 1 example_feed_url False [] [])
     = Return (Inl EmptyFeedError)
   \<and> store (snd (CreateFeed (answering empty_response) example_world 1 1 example_feed_url False [] []))
     = store example_world
   \<and> fst (RefreshFeed (answering empty_response) example_world 1 1) = Return (Some EmptyFeedError)
   \<and> fst (CreateFeed (answering example_page) example_world 1 1 example_feed_url False [] [])
     \<noteq> Return (Inl EmptyFeedError)
   \<and> fst (RefreshFeed (answering example_page) example_world 1 1) \<noteq> Return (Some EmptyFeedError)"
proof -
  have g: "client_Get (answering x) t c = Inr x" for x t c
    by (simp add: answering_def)
  have cat: "store_CategoryExists (answering x) (store example_world) 1 1" for x
    by (simp add: answering_def example_env_def example_world_def)
  have e: "\<not> IsNotFound (answering x) empty_response" "\<not> HasServerFailure (answering x) empty_response"
    "IsModified (answering x) empty_response (EtagHeader example_feed) (LastModifiedHeader example_feed)"
    "ContentLength empty_response = 0" for x
    by (simp_all add: answering_def example_env_def empty_response_def example_response_def
          example_feed_def)
  have p: "ContentLength example_page = - 1"
    by (simp add: example_page_def)
  note T1 = EmptyFeed_exactly_at_the_length_check[OF answering_foreign,
            of empty_response example_world 1 1 example_feed_url False "[]" "[]" 1]
  have c1: "fst (CreateFeed (answering empty_response) example_world 1 1 example_feed_url False [] [])
     = Return (Inl EmptyFeedError)"
    using T1[THEN conjunct1] by (simp add: g cat e)
  have c2: "store (snd (CreateFeed (answering empty_response) example_world 1 1 example_feed_url False [] []))
     = store example_world"
    using T1[THEN conjunct2, THEN conjunct1] c1 by simp
  have c3: "fst (RefreshFeed (answering empty_response) example_world 1 1) = Return (Some EmptyFeedError)"
    using T1[THEN conjunct2, THEN conjunct2, THEN conjunct1]
    by (simp add: g e example_loaded_answering)
  note T2 = EmptyFeed_exactly_at_the_length_check[OF answering_foreign,
            of example_page example_world 1 1 example_feed_url False "[]" "[]" 1 example_page
               example_feed example_page]
  have c4: "fst (CreateFeed (answering example_page) example_world 1 1 example_feed_url False [] [])
     \<noteq> Return (Inl EmptyFeedError)"
    using T2[THEN conjunct2, THEN conjunct2, THEN conjunct2, THEN conjunct1]
    by (simp add: g p)
  have c5: "fst (RefreshFeed (answering example_page) example_world 1 1) \<noteq> Return (Some EmptyFeedError)"
    using T2[THEN conjunct2, THEN conjunct2, THEN conjunct2, THEN conjunct2]
    by (simp add: g p example_loaded_answering)
  show ?thesis using c1 c2 c3 c4 c5 by simp
qed

text \<open>
  A 304 answer declares no body, its \<open>ContentLength\<close> is 0; the refresh takes it as
  not modified, succeeds and returns nil.
\<close>

theorem RefreshFeed_not_modified_length_zero_counterexample:
  "client_Get (answering not_modified_response)
     (trace example_world @ [UserLanguage_call 1, FeedByID_call 1 1])
     (refresh_client example_feed) = Inr not_modified_response
   \<and> ContentLength not_modified_response = 0
   \<and> fst (RefreshFeed (answering not_modified_response) example_world 1 1) = Return None"
proof -
  let ?env = "answering not_modified_response"
  have got: "client_Get ?env (trace example_world @ [UserLanguage_call 1, FeedByID_call 1 1])
               (refresh_client example_feed) = Inr not_modified_response"
    by (simp add: answering_def)
  have ok: "\<not> IsNotFound ?env not_modified_response" "\<not> HasServerFailure ?env not_modified_response"
    by (simp_all add: answering_def example_env_def not_modified_response_def example_response_def)
  have nm: "\<not> IsModified ?env not_modified_response (EtagHeader example_feed)
                (LastModifiedHeader example_feed)"
    by (simp add: answering_def example_env_def not_modified_response_def)
  have db: "db_error ?env t = None" for t
    by (simp add: answering_def example_env_def)
  have "fst (RefreshFeed ?env example_world 1 1) = Return None"
    using RefreshFeed_loaded[OF example_loaded_answering] got
          RefreshFeed_response_not_modified[OF ok nm]
    by (simp add: RefreshFeed_finish_eq UpdateFeed_ok[OF _ db] example_feed_category)
  then show ?thesis
    using got by (simp add: not_modified_response_def)
qed

section \<open>Properties of the edit form\<close>

lemma Merge_without_category: "Category feed = None \<Longrightarrow> Merge f feed = Panic nil_dereference"
  by (simp add: Merge_def)

lemma Merge_with_category:
  "Category feed = Some c \<Longrightarrow>
   Merge f feed =
     Return (feed\<lparr> Category := Some (c\<lparr> Category_ID := FeedForm_CategoryID f \<rparr>),
                    Title := FeedForm_Title f, SiteURL := FeedForm_SiteURL f,
                    FeedURL := FeedForm_FeedURL f, ScraperRules := FeedForm_ScraperRules f,
                    RewriteRules := FeedForm_RewriteRules f, Cookies := FeedForm_Cookies f,
                    Crawler := FeedForm_Crawler f, ParsingErrorCount := 0, ParsingErrorMsg := [],
                    Username := FeedForm_Username f, Password := FeedForm_Password f \<rparr>)"
  by (simp add: Merge_def)

text \<open>
  Storing a feed whose error state is cleared: the rows of the feed get a zero
  count and an empty message, every other row stays as it is.
\<close>

lemma UpdateFeed_clears_rows:
  assumes c: "Category merged = Some c" and db: "db_error env (trace w) = None"
      and z: "ParsingErrorCount merged = 0" "ParsingErrorMsg merged = []"
  shows "fst (UpdateFeed env w merged) = Return None
     \<and> list_all2
          (\<lambda>row row'. if feeds_id row = ID merged \<and> feeds_user_id row = UserID merged
                       then feeds_id row' = feeds_id row \<and> feeds_user_id row' = feeds_user_id row
                            \<and> feeds_parsing_error_count row' = 0
                            \<and> feeds_parsing_error_msg row' = []
                       else row' = row)
          (feeds (store w)) (feeds (store (snd (UpdateFeed env w merged))))"
  using z
  by (simp add: UpdateFeed_ok[OF c db] list_all2_map2 update_feeds_row_def list_all2_same)

text \<open>
  C10. The claim is made for every feed. \<open>Merge\<close> starts with an assignment through
  the pointer \<open>feed.Category\<close>: on a feed without category (a feed as the parser
  returns it, before \<open>CreateFeed\<close> gives it one) it panics, and nothing is reset. What
  holds for a feed that has a category, whatever the form holds: \<open>Merge\<close> returns the
  feed with \<open>ParsingErrorCount = 0\<close> and an empty \<open>ParsingErrorMsg\<close>, both at once and
  whatever the two were before; the feed keeps its id, its user and the fields the
  form does not carry, and takes the others from the form; and when the merged feed
  is stored with \<open>UpdateFeed\<close> and the database runs the statement, every row of
  this feed has a zero count and an empty message, and the other rows are as before.
  A feed loaded with \<open>FeedByID\<close> has a category, so merging a form into a stored
  feed returns.
\<close>

theorem Merge_resets_error_state:
  "(Category feed = None \<longrightarrow> Merge f feed = Panic nil_dereference)
   \<and> (fst (FeedByID env w0 userID feedID) = Inr (Some feed) \<longrightarrow>
        (\<exists>merged. Merge f feed = Return merged))
   \<and> (Category feed = Some c \<longrightarrow>
        (\<exists>merged.
            Merge f feed = Return merged
          \<and> Merge f (feed\<lparr> ParsingErrorCount := n, ParsingErrorMsg := m \<rparr>) = Return merged
          \<and> ParsingErrorCount merged = 0 \<and> ParsingErrorMsg merged = []
          \<and> ID merged = ID feed \<and> UserID merged = UserID feed
          \<and> CheckedAt merged = CheckedAt feed \<and> EtagHeader merged = EtagHeader feed
          \<and> LastModifiedHeader merged = LastModifiedHeader feed
          \<and> Entries merged = Entries feed \<and> Icon merged = Icon feed
          \<and> Category merged = Some (c\<lparr> Category_ID := FeedForm_CategoryID f \<rparr>)
          \<and> Title merged = FeedForm_Title f \<and> SiteURL merged = FeedForm_SiteURL f
          \<and> FeedURL merged = FeedForm_FeedURL f \<and> ScraperRules merged = FeedForm_ScraperRules f
          \<and> RewriteRules merged = FeedForm_RewriteRules f \<and> Cookies merged = FeedForm_Cookies f
          \<and> Crawler merged = FeedForm_Crawler f
          \<and> Username merged = FeedForm_Username f \<and> Password merged = FeedForm_Password f
          \<and> (db_error env (trace w) = None \<longrightarrow>
                fst (UpdateFeed env w merged) = Return None
              \<and> list_all2
                   (\<lambda>row row'. if feeds_id row = ID feed \<and> feeds_user_id row = UserID feed
                                then feeds_id row' = feeds_id row
                                     \<and> feeds_user_id row' = feeds_user_id row
                                     \<and> feeds_parsing_error_count row' = 0
                                     \<and> feeds_parsing_error_msg row' = []
                                else row' = row)
                   (feeds (store w)) (feeds (store (snd (UpdateFeed env w merged)))))))"
proof (intro conjI impI)
  assume "Category feed = None"
  then show "Merge f feed = Panic nil_dereference"
    by (rule Merge_without_category)
next
  assume "fst (FeedByID env w0 userID feedID) = Inr (Some feed)"
  then obtain c0 where "Category feed = Some c0"
    using FeedByID_category by blast
  then show "\<exists>merged. Merge f feed = Return merged"
    by (simp add: Merge_with_category)
next
  assume c: "Category feed = Some c"
  let ?merged = "feed\<lparr> Category := Some (c\<lparr> Category_ID := FeedForm_CategoryID f \<rparr>),
                    Title := FeedForm_Title f, SiteURL := FeedForm_SiteURL f,
                    FeedURL := FeedForm_FeedURL f, ScraperRules := FeedForm_ScraperRules f,
                    RewriteRules := FeedForm_RewriteRules f, Cookies := FeedForm_Cookies f,
                    Crawler := FeedForm_Crawler f, ParsingErrorCount := 0, ParsingErrorMsg := [],
                    Username := FeedForm_Username f, Password := FeedForm_Password f \<rparr>"
  have 1: "Merge f feed = Return ?merged"
    by (rule Merge_with_category[OF c])
  have 2: "Merge f (feed\<lparr> ParsingErrorCount := n, ParsingErrorMsg := m \<rparr>) = Return ?merged"
    using c by (simp add: Merge_def)
  have 3: "fst (UpdateFeed env w ?merged) = Return None
     \<and> list_all2
          (\<lambda>row row'. if feeds_id row = ID feed \<and> feeds_user_id row = UserID feed
                       then feeds_id row' = feeds_id row \<and> feeds_user_id row' = feeds_user_id row
                            \<and> feeds_parsing_error_count row' = 0
                            \<and> feeds_parsing_error_msg row' = []
                       else row' = row)
          (feeds (store w)) (feeds (store (snd (UpdateFeed env w ?merged))))"
    if db: "db_error env (trace w) = None"
    using UpdateFeed_clears_rows[of ?merged "c\<lparr> Category_ID := FeedForm_CategoryID f \<rparr>" env w, OF _ db]
    by simp
  show "\<exists>merged.
            Merge f feed = Return merged
          \<and> Merge f (feed\<lparr> ParsingErrorCount := n, ParsingErrorMsg := m \<rparr>) = Return merged
          \<and> ParsingErrorCount merged = 0 \<and> ParsingErrorMsg merged = []
          \<and> ID merged = ID feed \<and> UserID merged = UserID feed
          \<and> CheckedAt merged = CheckedAt feed \<and> EtagHeader merged = EtagHeader feed
          \<and> LastModifiedHeader merged = LastModifiedHeader feed
          \<and> Entries merged = Entries feed \<and> Icon merged = Icon feed
          \<and> Category merged = Some (c\<lparr> Category_ID := FeedForm_CategoryID f \<rparr>)
          \<and> Title merged = FeedForm_Title f \<and> SiteURL merged = FeedForm_SiteURL f
          \<and> FeedURL merged = FeedForm_FeedURL f \<and> ScraperRules merged = FeedForm_ScraperRules f
          \<and> RewriteRules merged = FeedForm_RewriteRules f \<and> Cookies merged = FeedForm_Cookies f
          \<and> Crawler merged = FeedForm_Crawler f
          \<and> Username merged = FeedForm_Username f \<and> Password merged = FeedForm_Password f
          \<and> (db_error env (trace w) = None \<longrightarrow>
                fst (UpdateFeed env w merged) = Return None
              \<and> list_all2
                   (\<lambda>row row'. if feeds_id row = ID feed \<and> feeds_user_id row = UserID feed
                                then feeds_id row' = feeds_id row
                                     \<and> feeds_user_id row' = feeds_user_id row
                                     \<and> feeds_parsing_error_count row' = 0
                                     \<and> feeds_parsing_error_msg row' = []
                                else row' = row)
                   (feeds (store w)) (feeds (store (snd (UpdateFeed env w merged)))))"
    by (rule exI[of _ ?merged]) (use 1 2 3 in simp)
qed

text \<open>
  An edit of the example feed, loaded with count 2 and message \<open>old failure\<close>: the
  merged feed is stored and its row has count 0 and no message. On the parsed
  example feed, which has no category, the merge panics.
\<close>

theorem Merge_resets_error_state_witness:
  "Merge example_form example_subscription = Panic nil_dereference
   \<and> fst (FeedByID example_env example_world 1 1) = Inr (Some example_feed)
   \<and> Merge example_form example_feed =
       Return (example_feed\<lparr> Title := ''Example, renamed'', ScraperRules := ''article'',
                 Crawler := False, ParsingErrorCount := 0, ParsingErrorMsg := [] \<rparr>)
   \<and> fst (UpdateFeed example_env example_world
            (example_feed\<lparr> Title := ''Example, renamed'', ScraperRules := ''article'',
               Crawler := False, ParsingErrorCount := 0, ParsingErrorMsg := [] \<rparr>)) = Return None
   \<and> map feeds_parsing_error_count (feeds (store example_world)) = [2]
   \<and> map feeds_parsing_error_count
        (feeds (store (snd (UpdateFeed example_env example_world
            (example_feed\<lparr> Title := ''Example, renamed'', ScraperRules := ''article'',
               Crawler := False, ParsingErrorCount := 0, ParsingErrorMsg := [] \<rparr>))))) = [0]
   \<and> map feeds_parsing_error_msg
        (feeds (store (snd (UpdateFeed example_env example_world
            (example_feed\<lparr> Title := ''Example, renamed'', ScraperRules := ''article'',
               Crawler := False, ParsingErrorCount := 0, ParsingErrorMsg := [] \<rparr>))))) = [[]]"
proof -
  let ?merged = "example_feed\<lparr> Title := ''Example, renamed'', ScraperRules := ''article'',
               Crawler := False, ParsingErrorCount := 0, ParsingErrorMsg := [] \<rparr>"
  have 1: "Merge example_form example_subscription = Panic nil_dereference"
    using Merge_resets_error_state[where feed = example_subscription and f = example_form,
            THEN conjunct1]
    by (simp add: example_subscription_def)
  have db: "db_error example_env (trace example_world) = None"
    by (simp add: example_env_def)
  obtain merged where
    m: "Merge example_form example_feed = Return merged"
    and u: "fst (UpdateFeed example_env example_world merged) = Return None"
    and rows: "list_all2
                 (\<lambda>row row'. if feeds_id row = ID example_feed \<and> feeds_user_id row = UserID example_feed
                              then feeds_id row' = feeds_id row
                                   \<and> feeds_user_id row' = feeds_user_id row
                                   \<and> feeds_parsing_error_count row' = 0
                                   \<and> feeds_parsing_error_msg row' = []
                              else row' = row)
                 (feeds (store example_world))
                 (feeds (store (snd (UpdateFeed example_env example_world merged))))"
    using Merge_resets_error_state[where feed = example_feed and f = example_form
            and env = example_env and w = example_world, THEN conjunct2, THEN conjunct2]
          example_feed_category db
    by blast
  have l: "fst (FeedByID example_env example_world 1 1) = Inr (Some example_feed)"
    by (simp add: FeedByID_def example_world_def example_row_def example_feed_def example_env_def
          Let_def)
  have r: "\<exists>merged. Merge example_form example_feed = Return merged"
    using Merge_resets_error_state[where feed = example_feed and f = example_form
            and env = example_env and ?w0.0 = example_world and userID = 1 and feedID = 1,
            THEN conjunct2, THEN conjunct1] l
    by blast
  have e: "Merge example_form example_feed = Return ?merged"
    by (simp add: Merge_def example_feed_def example_form_def example_feed_url_def)
  have eq: "merged = ?merged" using m e by simp
  have st: "feeds (store example_world) = [example_row]"
     "feeds_id example_row = ID example_feed" "feeds_user_id example_row = UserID example_feed"
     "feeds_parsing_error_count example_row = 2"
    by (simp_all add: example_world_def example_row_def example_feed_def)
  have 2: "map feeds_parsing_error_count
             (feeds (store (snd (UpdateFeed example_env example_world ?merged)))) = [0]
           \<and> map feeds_parsing_error_msg
               (feeds (store (snd (UpdateFeed example_env example_world ?merged)))) = [[]]"
    using rows unfolding eq st by (auto simp: list_all2_Cons1 st)
  show ?thesis
    using 1 e u 2 l r by (simp add: eq st)
qed

text \<open>
  The example feed without a category: it has count 2 and a message, the merge
  panics, and there is no merged feed to store.
\<close>

theorem Merge_without_category_counterexample:
  "Category uncategorized_feed = None
   \<and> ParsingErrorCount uncategorized_feed = 2
   \<and> ParsingErrorMsg uncategorized_feed = ''old failure''
   \<and> Merge example_form uncategorized_feed = Panic nil_dereference"
  by (simp add: Merge_def uncategorized_feed_def example_feed_def)
end
